theory Spec2Isabelle
  imports Main "HOL-Library.Sublist" "HOL-Library.Multiset"
begin

section \<open>Go strings and the library functions the runtime calls\<close>

text \<open>
  A Go string is a sequence of bytes; \<^typ>\<open>string\<close> (a list of 8-bit characters) models
  it. Slicing outside the bounds of a string panics in Go, so the slice expressions
  \<^verbatim>\<open>s[i:]\<close> and \<^verbatim>\<open>s[:j]\<close> return a sum whose left side is the panic.
\<close>

datatype panic = SliceOutOfRange

definition slice_from :: "string \<Rightarrow> int \<Rightarrow> panic + string" where
  "slice_from s i = (if 0 \<le> i \<and> i \<le> int (length s) then Inr (drop (nat i) s) else Inl SliceOutOfRange)"

definition slice_to :: "string \<Rightarrow> int \<Rightarrow> panic + string" where
  "slice_to s j = (if 0 \<le> j \<and> j \<le> int (length s) then Inr (take (nat j) s) else Inl SliceOutOfRange)"

text \<open>\<^verbatim>\<open>strings.HasPrefix(s, "-")\<close>.\<close>

definition HasPrefix :: "string \<Rightarrow> string \<Rightarrow> bool" where
  "HasPrefix s p = (take (length p) s = p)"

text \<open>
  \<^verbatim>\<open>strings.Split(s, ":")\<close> with a one-byte separator: the pieces between the
  separators, one more piece than there are separators (so the empty string gives one
  empty piece).
\<close>

primrec Split :: "char \<Rightarrow> string \<Rightarrow> string list" where
  "Split c [] = [[]]"
| "Split c (x # xs) =
     (if x = c then [] # Split c xs else (x # hd (Split c xs)) # tl (Split c xs))"

text \<open>
  The value of a string of decimal digits, most significant digit first, as
  \<^verbatim>\<open>strconv\<close> accumulates it (\<^verbatim>\<open>n = n*10 + int(ch - '0')\<close>).
\<close>

definition digit_of :: "char \<Rightarrow> nat" where
  "digit_of ch = of_char ch - 48"

definition decimal :: "string \<Rightarrow> nat" where
  "decimal s = foldl (\<lambda>n ch. n * 10 + digit_of ch) 0 s"

text \<open>
  Decimal rendering of an integer, as \<^verbatim>\<open>fmt.Sprintf("%d", i)\<close> and
  \<^verbatim>\<open>strconv.Itoa(i)\<close> print it: no leading zeros, a minus sign for a negative number.
\<close>

definition digit_char :: "nat \<Rightarrow> char" where
  "digit_char d = ''0123456789'' ! d"

fun digits :: "nat \<Rightarrow> string" where
  "digits n = (if n < 10 then [digit_char n] else digits (n div 10) @ [digit_char (n mod 10)])"

declare digits.simps [simp del]

definition Itoa :: "int \<Rightarrow> string" where
  "Itoa i = (if i < 0 then CHR ''-'' # digits (nat (- i)) else digits (nat i))"

text \<open>
  \<^verbatim>\<open>strconv.Atoi\<close> on a 64-bit platform: an optional sign, then one or more decimal
  digits and nothing else; the value must fit \<^verbatim>\<open>int\<close> (64 bits). \<open>None\<close> is the
  \<^verbatim>\<open>*NumError\<close> (syntax or range).
\<close>

definition is_digit :: "char \<Rightarrow> bool" where
  "is_digit ch = (48 \<le> (of_char ch :: nat) \<and> (of_char ch :: nat) \<le> 57)"

definition Atoi :: "string \<Rightarrow> int option" where
  "Atoi s =
     (let neg = (s \<noteq> [] \<and> hd s = CHR ''-'');
          ds = (if s \<noteq> [] \<and> (hd s = CHR ''-'' \<or> hd s = CHR ''+'') then tl s else s);
          v = (if neg then - int (decimal ds) else int (decimal ds))
      in if ds = [] \<or> \<not> list_all is_digit ds then None
         else if - (2 ^ 63) \<le> v \<and> v < 2 ^ 63 then Some v
         else None)"

text \<open>
  The environment of a process is a list of \<^verbatim>\<open>KEY=VALUE\<close> strings
  (\<^verbatim>\<open>os.Environ()\<close>, \<^verbatim>\<open>cmd.Env\<close>). \<^verbatim>\<open>os.Getenv(key)\<close> returns the value of the
  entry with that key and the empty string when there is none. When a key occurs more
  than once in \<^verbatim>\<open>cmd.Env\<close>, \<^verbatim>\<open>os/exec\<close> passes on the last entry only, so the lookup
  takes the last one.
\<close>

definition env_key :: "string \<Rightarrow> string" where
  "env_key e = takeWhile (\<lambda>ch. ch \<noteq> CHR ''='') e"

definition env_val :: "string \<Rightarrow> string" where
  "env_val e = drop (Suc (length (env_key e))) e"

definition Getenv :: "string list \<Rightarrow> string \<Rightarrow> string" where
  "Getenv env key =
     (let entries = filter (\<lambda>e. CHR ''='' \<in> set e \<and> env_key e = key) env
      in if entries = [] then '''' else env_val (last entries))"

section \<open>cgroups.go: ParseMemorySize\<close>

text \<open>
  \<^verbatim>\<open>func ParseMemorySize(size string) (string, error)\<close>. The result pairs the returned
  string with the returned error (\<open>None\<close> is \<^verbatim>\<open>nil\<close>); the outer sum is a panic of
  one of the two slice expressions.
\<close>

definition ParseMemorySize :: "string \<Rightarrow> panic + (string \<times> string option)" where
  "ParseMemorySize sz =
     (if sz = [] then Inr ([], None)
      else
        (case slice_from sz (int (length sz) - 1) of
           Inl p \<Rightarrow> Inl p
         | Inr suf \<Rightarrow>
             if suf = ''K'' \<or> suf = ''k'' then
               (case slice_to sz (int (length sz) - 1) of
                  Inl p \<Rightarrow> Inl p | Inr v \<Rightarrow> Inr (v @ ''000'', None))
             else if suf = ''M'' \<or> suf = ''m'' then
               (case slice_to sz (int (length sz) - 1) of
                  Inl p \<Rightarrow> Inl p | Inr v \<Rightarrow> Inr (v @ ''000000'', None))
             else if suf = ''G'' \<or> suf = ''g'' then
               (case slice_to sz (int (length sz) - 1) of
                  Inl p \<Rightarrow> Inl p | Inr v \<Rightarrow> Inr (v @ ''000000000'', None))
             else Inr (sz, None)))"

section \<open>config.go: the configuration and the mount parser\<close>

record Mount =
  Source :: string
  Destination :: string
  ReadOnly :: bool

record ContainerConfig =
  Hostname :: string
  RootFS :: string
  Mounts :: "Mount list"
  NetworkCIDR :: string
  HostIP :: string
  ContainerIP :: string
  Command :: "string list"

text \<open>
  An error that comes from outside the program, from the operating system or a
  library: \<^verbatim>\<open>ENOENT\<close> is the one \<^verbatim>\<open>os.IsNotExist\<close> recognises, \<^verbatim>\<open>ExitError n\<close> is
  the \<^verbatim>\<open>*exec.ExitError\<close> of a command that ended with status \<open>n\<close>.
\<close>

datatype oserr = ENOENT | ExitError nat | OtherError string

text \<open>
  The errors the program builds with \<^verbatim>\<open>fmt.Errorf\<close>, one constructor for each message;
  a wrapping error keeps the error it wraps. \<^verbatim>\<open>OS\<close> is an error that is returned as
  it came.
\<close>

datatype error =
    OS oserr
  | MountFormat
  | InvalidMountSpec string error
  | FailedToParseFlags string
  | NoCommandSpecified
  | InvalidPID string
  | PIDMustBePositive int
  | InvalidMountCount error
  | InvalidNetworkCIDR string
  | FailedMasquerading oserr
  | FailedForwardOutbound oserr
  | FailedForwardInbound oserr
  | SourcePathDoesNotExist string
  | FailedToCreateMountPoint string oserr
  | FailedToBindMount oserr
  | FailedToRemountReadOnly oserr
  | FailedToCreateBindMount string string error
  | FailedToSetupBindMounts error
  | FailedToSetHostname oserr
  | FailedToChroot string oserr
  | FailedToChdir oserr
  | FailedToCreateEtc oserr
  | FailedToWriteResolvConf oserr
  | FailedToSetupDNS error
  | FailedToMountProc oserr
  | FailedToMountDevpts oserr
  | FailedToCreateCgroupDir string oserr
  | FailedToWriteTo string oserr
  | FailedToSetPidsMax error
  | FailedToSetMemoryMax error
  | FailedToSetCpuMax error
  | FailedToAddProcess error
  | MustBeRunAsRoot
  | CommandCannotBeEmpty
  | CommandNameCannotBeEmpty
  | PathCannotBeEmpty
  | PathDoesNotExist string
  | InvalidRootFSPath error
  | InvalidMountSourcePath nat error
  | MountDestinationCannotBeEmpty nat
  | InvalidConfiguration error
  | RootFSDoesNotExist string
  | FailedToCreateDirectory string oserr
  | FailedToPrepareRootFS error
  | FailedToStartContainer oserr
  | FailedToSetupNetworking error
  | FailedToParseConfigFromEnv error
  | FailedToSetupCgroups error
  | FailedToSetupFilesystem error
  | FailedToGetHostNamespace oserr
  | FailedToGetContainerNamespace oserr
  | FailedToAddVethPair oserr
  | FailedToCreateVethPair error
  | FailedToGetLink string oserr
  | FailedToBringUp string oserr
  | InvalidHostIP string
  | InvalidContainerIP string
  | FailedToAddAddress string oserr
  | FailedToConfigureHostNetwork error
  | FailedToMoveVeth1 oserr
  | FailedToSwitchToContainerNamespace oserr
  | FailedToBringUpLoopback error
  | FailedToAddDefaultRoute oserr
  | FailedToConfigureContainerNetwork error
  | FailedToSwitchBackToHostNamespace oserr
  | FailedToSetupNAT error

definition NewDefaultConfig :: ContainerConfig where
  "NewDefaultConfig =
     \<lparr>Hostname = ''container'', RootFS = ''./namespace_fs'', Mounts = [],
      NetworkCIDR = ''192.168.1.0/24'', HostIP = ''192.168.1.1'',
      ContainerIP = ''192.168.1.2'', Command = []\<rparr>"

text \<open>
  \<^verbatim>\<open>func parseMount(mountStr string) (Mount, error)\<close>. The indexing
  \<^verbatim>\<open>parts[0]\<close>, \<^verbatim>\<open>parts[1]\<close>, \<^verbatim>\<open>parts[2]\<close> is guarded by the length checks, as in
  the source.
\<close>

definition parseMount :: "string \<Rightarrow> error + Mount" where
  "parseMount mountStr =
     (let parts = Split CHR '':'' mountStr in
      if length parts < 2 \<or> length parts > 3 then Inl MountFormat
      else
        Inr \<lparr>Source = parts ! 0, Destination = parts ! 1,
             ReadOnly = (length parts = 3 \<and> parts ! 2 = ''ro'')\<rparr>)"

section \<open>config.go: ParseFlags\<close>

text \<open>
  A call either returns or ends the process (\<^verbatim>\<open>os.Exit\<close>, also inside a library).
\<close>

datatype 'a process = Exits nat | Returns 'a

text \<open>
  The variables the flag set writes through: the five string flags, which start at the
  defaults of \<^const>\<open>NewDefaultConfig\<close>, and the repeatable \<^verbatim>\<open>-mount\<close> flag, whose
  \<^verbatim>\<open>Set\<close> method appends.
\<close>

record flag_values =
  hostnameFlag :: string
  rootfsFlag :: string
  networkFlag :: string
  hostIPFlag :: string
  containerIPFlag :: string
  mountFlags :: "string list"

text \<open>
  The loop that looks for the command: the index of the first argument that does not
  begin with \<^verbatim>\<open>-\<close>. \<^verbatim>\<open>commandStart\<close> is declared without a value, so it is 0 when
  the loop ends without a \<^verbatim>\<open>break\<close>. The first argument is the loop index.
\<close>

fun find_commandStart :: "nat \<Rightarrow> string list \<Rightarrow> nat" where
  "find_commandStart i [] = 0"
| "find_commandStart i (arg # rest) =
     (if \<not> HasPrefix arg ''-'' then i else find_commandStart (Suc i) rest)"

text \<open>
  The loop over \<^verbatim>\<open>mountFlags\<close>: each string is parsed and appended; the first one that
  does not parse ends \<^verbatim>\<open>ParseFlags\<close> with its error.
\<close>

fun parse_mountFlags :: "string list \<Rightarrow> error + Mount list" where
  "parse_mountFlags [] = Inr []"
| "parse_mountFlags (mountStr # rest) =
     (case parseMount mountStr of
        Inl err \<Rightarrow> Inl (InvalidMountSpec mountStr err)
      | Inr mount \<Rightarrow>
          (case parse_mountFlags rest of
             Inl err \<Rightarrow> Inl err
           | Inr mounts \<Rightarrow> Inr (mount # mounts)))"

text \<open>
  \<^verbatim>\<open>ParseFlags\<close> from \<^verbatim>\<open>// Update config with parsed values\<close> on: \<open>config\<close> already
  holds the command, \<open>flags\<close> the values of the flag variables, \<open>getwd\<close> the result of
  \<^verbatim>\<open>os.Getwd()\<close> (\<open>None\<close> when it fails).
\<close>

definition ParseFlags_update ::
  "string option \<Rightarrow> flag_values \<Rightarrow> ContainerConfig \<Rightarrow> error + ContainerConfig" where
  "ParseFlags_update getwd flags config0 =
     (let config = config0\<lparr>Hostname := hostnameFlag flags, RootFS := rootfsFlag flags,
                           NetworkCIDR := networkFlag flags, HostIP := hostIPFlag flags,
                           ContainerIP := containerIPFlag flags\<rparr>
      in case parse_mountFlags (mountFlags flags) of
           Inl err \<Rightarrow> Inl err
         | Inr mounts \<Rightarrow>
             (let config1 = config\<lparr>Mounts := Mounts config @ mounts\<rparr>;
                  config2 =
                    (if length (Mounts config1) = 0 then
                       (case getwd of
                          Some cwd \<Rightarrow>
                            config1\<lparr>Mounts := Mounts config1 @
                              [\<lparr>Source = cwd, Destination = ''/app'', ReadOnly = False\<rparr>]\<rparr>
                        | None \<Rightarrow> config1)
                     else config1)
              in if length (Command config2) = 0 then Inl NoCommandSpecified
                 else Inr config2))"

text \<open>
  \<^verbatim>\<open>func ParseFlags(args []string) (*ContainerConfig, error)\<close>. The flag set is created
  with \<^verbatim>\<open>flag.ExitOnError\<close>; its \<^verbatim>\<open>Parse\<close> method belongs to the Go library and is a
  parameter here: given the initial values of the flag variables and the arguments it
  returns an error or \<^verbatim>\<open>nil\<close> together with the values the variables then hold, or
  it ends the process.
\<close>

definition ParseFlags ::
  "(flag_values \<Rightarrow> string list \<Rightarrow> (string option \<times> flag_values) process) \<Rightarrow>
   string option \<Rightarrow> string list \<Rightarrow> (error + ContainerConfig) process" where
  "ParseFlags Parse getwd args =
     (let config = NewDefaultConfig;
          flags = \<lparr>hostnameFlag = Hostname config, rootfsFlag = RootFS config,
                   networkFlag = NetworkCIDR config, hostIPFlag = HostIP config,
                   containerIPFlag = ContainerIP config, mountFlags = []\<rparr>;
          commandStart = find_commandStart 0 args
      in if commandStart = 0 then
           Returns (ParseFlags_update getwd flags (config\<lparr>Command := args\<rparr>))
         else
           (case Parse flags (take commandStart args) of
              Exits code \<Rightarrow> Exits code
            | Returns (Some err, flags') \<Rightarrow> Returns (Inl (FailedToParseFlags err))
            | Returns (None, flags') \<Rightarrow>
                Returns (ParseFlags_update getwd flags'
                           (config\<lparr>Command := drop commandStart args\<rparr>))))"

section \<open>utils.go: parsePID\<close>

definition parsePID :: "string \<Rightarrow> error + int" where
  "parsePID pidStr =
     (case Atoi pidStr of
        None \<Rightarrow> Inl (InvalidPID pidStr)
      | Some pid \<Rightarrow> if pid \<le> 0 then Inl (PIDMustBePositive pid) else Inr pid)"

section \<open>container.go: the environment bridge\<close>

text \<open>
  An entry of the environment, \<^verbatim>\<open>fmt.Sprintf("KEY=%s", value)\<close>, and the name
  \<^verbatim>\<open>fmt.Sprintf("CONTAINER_MOUNT_%d_SOURCE", i)\<close> with its two siblings; the field is
  \<^verbatim>\<open>SOURCE\<close>, \<^verbatim>\<open>DEST\<close> or \<^verbatim>\<open>READONLY\<close>.
\<close>

definition env_entry :: "string \<Rightarrow> string \<Rightarrow> string" where
  "env_entry key v = key @ ''='' @ v"

definition mount_var :: "string \<Rightarrow> int \<Rightarrow> string" where
  "mount_var field i = ''CONTAINER_MOUNT_'' @ Itoa i @ ''_'' @ field"

text \<open>
  The loop of \<^verbatim>\<open>RunContainer\<close> over \<^verbatim>\<open>config.Mounts\<close> that appends three entries for
  each mount; the first argument is the loop index.
\<close>

fun mount_entries :: "nat \<Rightarrow> Mount list \<Rightarrow> string list" where
  "mount_entries i [] = []"
| "mount_entries i (mount # rest) =
     [env_entry (mount_var ''SOURCE'' (int i)) (Source mount),
      env_entry (mount_var ''DEST'' (int i)) (Destination mount),
      env_entry (mount_var ''READONLY'' (int i)) (if ReadOnly mount then ''true'' else ''false'')]
     @ mount_entries (Suc i) rest"

text \<open>
  The value \<^verbatim>\<open>RunContainer\<close> gives \<^verbatim>\<open>cmd.Env\<close>: the parent's own environment
  \<^verbatim>\<open>os.Environ()\<close>, the five scalar settings, the entries of the mounts and, always,
  \<^verbatim>\<open>CONTAINER_MOUNT_COUNT\<close>.
\<close>

definition RunContainer_env :: "string list \<Rightarrow> ContainerConfig \<Rightarrow> string list" where
  "RunContainer_env environ config =
     environ
     @ [env_entry ''CONTAINER_HOSTNAME'' (Hostname config),
        env_entry ''CONTAINER_ROOTFS'' (RootFS config),
        env_entry ''CONTAINER_NETWORK_CIDR'' (NetworkCIDR config),
        env_entry ''CONTAINER_HOST_IP'' (HostIP config),
        env_entry ''CONTAINER_CONTAINER_IP'' (ContainerIP config)]
     @ mount_entries 0 (Mounts config)
     @ [env_entry ''CONTAINER_MOUNT_COUNT'' (Itoa (int (length (Mounts config))))]"

text \<open>
  The loop \<^verbatim>\<open>for i := 0; i < mountCount; i++\<close> of \<^verbatim>\<open>configFromEnv\<close>: the mounts read
  for the indices below the count, in order of the index.
\<close>

definition mount_of_env :: "string list \<Rightarrow> nat \<Rightarrow> Mount" where
  "mount_of_env env i =
     \<lparr>Source = Getenv env (mount_var ''SOURCE'' (int i)),
      Destination = Getenv env (mount_var ''DEST'' (int i)),
      ReadOnly = (Getenv env (mount_var ''READONLY'' (int i)) = ''true'')\<rparr>"

primrec mounts_of_env :: "string list \<Rightarrow> nat \<Rightarrow> Mount list" where
  "mounts_of_env env 0 = []"
| "mounts_of_env env (Suc n) = mounts_of_env env n @ [mount_of_env env n]"

definition configFromEnv :: "string list \<Rightarrow> error + ContainerConfig" where
  "configFromEnv env =
     (let config =
            \<lparr>Hostname = Getenv env ''CONTAINER_HOSTNAME'',
             RootFS = Getenv env ''CONTAINER_ROOTFS'',
             Mounts = [],
             NetworkCIDR = Getenv env ''CONTAINER_NETWORK_CIDR'',
             HostIP = Getenv env ''CONTAINER_HOST_IP'',
             ContainerIP = Getenv env ''CONTAINER_CONTAINER_IP'',
             Command = []\<rparr>;
          mountCountStr = Getenv env ''CONTAINER_MOUNT_COUNT''
      in if mountCountStr \<noteq> '''' then
           (case parsePID mountCountStr of
              Inl err \<Rightarrow> Inl (InvalidMountCount err)
            | Inr mountCount \<Rightarrow> Inr (config\<lparr>Mounts := mounts_of_env env (nat mountCount)\<rparr>))
         else Inr config)"

section \<open>The operating system\<close>

text \<open>
  The calls the program makes into the operating system, each with the arguments the
  source passes. A call is answered by the kernel with an error or with \<open>None\<close> for
  \<^verbatim>\<open>nil\<close>. The kernel is deterministic but otherwise arbitrary: its answer may depend
  on everything that was called before, so it is a function of the history, the list of
  calls made so far with their answers. The functions of the program take the history
  and return it extended, with their result.
\<close>

datatype mount_flag = MS_BIND | MS_RDONLY | MS_REMOUNT

text \<open>
  The two network namespace handles of \<^verbatim>\<open>SetupNetworking\<close>, named after its
  variables.
\<close>

datatype ns_handle = hostNs | containerNs

datatype syscall =
    os_Stat string
  | os_MkdirAll string nat
  | ioutil_WriteFile string string nat
  | syscall_Mount string string string "mount_flag set" string
  | syscall_Unmount string nat
  | syscall_Sethostname string
  | syscall_Chroot string
  | os_Chdir string
  | cmd_Run string "string list" "string option"
  | cmd_Start string "string list" "string list"
  | cmd_Wait
  | Process_Kill
  | runtime_LockOSThread
  | runtime_UnlockOSThread
  | netns_Get
  | netns_GetFromPid int
  | netns_Close ns_handle
  | netns_Set ns_handle
  | netlink_LinkAdd string string
  | netlink_LinkByName string
  | netlink_LinkSetUp string
  | netlink_AddrAdd string string string
  | netlink_LinkSetNsFd string ns_handle
  | netlink_RouteAdd string "string option"

type_synonym event = "syscall \<times> oserr option"

text \<open>
  What a process finds around it: the kernel, and the functions and constants of the
  Go library whose results the program only passes on: \<^verbatim>\<open>filepath.Join\<close>,
  \<^verbatim>\<open>os.Getpid\<close>, \<^verbatim>\<open>os.Geteuid\<close>, \<^verbatim>\<open>os.Environ\<close>, \<^verbatim>\<open>os.Getwd\<close> (\<open>None\<close> when it
  fails), \<^verbatim>\<open>net.ParseIP\<close> (\<open>None\<close> for \<^verbatim>\<open>nil\<close>), \<^verbatim>\<open>net.ParseCIDR\<close> (the network, as
  its \<^verbatim>\<open>String()\<close> prints it, \<open>None\<close> when it fails), the \<^verbatim>\<open>Parse\<close> method of the flag
  set, the PID \<^verbatim>\<open>cmd.Process.Pid\<close> of the process that \<^verbatim>\<open>cmd.Start\<close> starts and, for a
  path that \<^verbatim>\<open>os.Stat\<close> found, whether it is a directory (\<^verbatim>\<open>info.IsDir()\<close>).
\<close>

record os =
  kernel :: "event list \<Rightarrow> syscall \<Rightarrow> oserr option"
  IsDir :: "event list \<Rightarrow> string \<Rightarrow> bool"
  Join :: "string \<Rightarrow> string \<Rightarrow> string"
  Getpid :: int
  Geteuid :: int
  Environ :: "string list"
  Getwd :: "string option"
  net_ParseIP :: "string \<Rightarrow> string option"
  net_ParseCIDR :: "string \<Rightarrow> string option"
  flag_Parse :: "flag_values \<Rightarrow> string list \<Rightarrow> (string option \<times> flag_values) process"
  ChildPid :: int

definition sys :: "os \<Rightarrow> syscall \<Rightarrow> event list \<Rightarrow> event list \<times> oserr option" where
  "sys w c tr = (tr @ [(c, kernel w tr c)], kernel w tr c)"

text \<open>
  A process of root on a host where every call succeeds, every path is a directory
  and the library accepts every address; the examples below start from it.
\<close>

definition idle :: os where
  "idle =
     \<lparr>kernel = (\<lambda>tr c. None),
      IsDir = (\<lambda>tr path. True),
      Join = (\<lambda>a b. if b \<noteq> [] \<and> hd b = CHR ''/'' then a @ b else a @ ''/'' @ b),
      Getpid = 1, Geteuid = 0, Environ = [], Getwd = Some ''/work'',
      net_ParseIP = (\<lambda>s. Some s), net_ParseCIDR = (\<lambda>s. Some s),
      flag_Parse = (\<lambda>flags args. Returns (None, flags)),
      ChildPid = 4242\<rparr>"

text \<open>The permission bits \<^verbatim>\<open>0755\<close> and \<^verbatim>\<open>0644\<close>.\<close>

definition mode_0755 :: nat where
  "mode_0755 = 7 * 64 + 5 * 8 + 5"

definition mode_0644 :: nat where
  "mode_0644 = 6 * 64 + 4 * 8 + 4"

section \<open>filesystem.go\<close>

definition createBindMount ::
  "os \<Rightarrow> event list \<Rightarrow> Mount \<Rightarrow> string \<Rightarrow> event list \<times> error option" where
  "createBindMount w tr mount rootFS =
     (let (tr1, err1) = sys w (os_Stat (Source mount)) tr in
      if err1 = Some ENOENT then (tr1, Some (SourcePathDoesNotExist (Source mount)))
      else
        (let mountPoint = Join w rootFS (Destination mount);
             (tr2, err2) = sys w (os_MkdirAll mountPoint mode_0755) tr1
         in (case err2 of
               Some err \<Rightarrow> (tr2, Some (FailedToCreateMountPoint mountPoint err))
             | None \<Rightarrow>
                 (let flags = {MS_BIND} \<union> (if ReadOnly mount then {MS_RDONLY} else {});
                      (tr3, err3) =
                        sys w (syscall_Mount (Source mount) mountPoint '''' flags '''') tr2
                  in (case err3 of
                        Some err \<Rightarrow> (tr3, Some (FailedToBindMount err))
                      | None \<Rightarrow>
                          if ReadOnly mount then
                            (let remountFlags = flags \<union> {MS_REMOUNT};
                                 (tr4, err4) =
                                   sys w (syscall_Mount '''' mountPoint '''' remountFlags '''') tr3
                             in (case err4 of
                                   Some err \<Rightarrow> (tr4, Some (FailedToRemountReadOnly err))
                                 | None \<Rightarrow> (tr4, None)))
                          else (tr3, None))))))"

text \<open>The loop of \<^verbatim>\<open>setupBindMounts\<close> over \<^verbatim>\<open>config.Mounts\<close>.\<close>

fun bind_mounts_loop ::
  "os \<Rightarrow> event list \<Rightarrow> Mount list \<Rightarrow> string \<Rightarrow> event list \<times> error option" where
  "bind_mounts_loop w tr [] rootFS = (tr, None)"
| "bind_mounts_loop w tr (mount # rest) rootFS =
     (case createBindMount w tr mount rootFS of
        (tr1, Some err) \<Rightarrow>
          (tr1, Some (FailedToCreateBindMount (Source mount) (Destination mount) err))
      | (tr1, None) \<Rightarrow> bind_mounts_loop w tr1 rest rootFS)"

definition setupBindMounts ::
  "os \<Rightarrow> event list \<Rightarrow> ContainerConfig \<Rightarrow> event list \<times> error option" where
  "setupBindMounts w tr config = bind_mounts_loop w tr (Mounts config) (RootFS config)"

definition copyResolvConf :: "os \<Rightarrow> event list \<Rightarrow> event list \<times> error option" where
  "copyResolvConf w tr =
     (case sys w (os_MkdirAll ''/etc'' mode_0755) tr of
        (tr1, Some err) \<Rightarrow> (tr1, Some (FailedToCreateEtc err))
      | (tr1, None) \<Rightarrow>
          (case sys w (ioutil_WriteFile ''/etc/resolv.conf''
                         (''nameserver 8.8.8.8'' @ [CHR 0x0A] @ ''nameserver 8.8.4.4'' @ [CHR 0x0A])
                         mode_0644) tr1 of
             (tr2, Some err) \<Rightarrow> (tr2, Some (FailedToWriteResolvConf err))
           | (tr2, None) \<Rightarrow> (tr2, None)))"

definition SetupFilesystem ::
  "os \<Rightarrow> event list \<Rightarrow> ContainerConfig \<Rightarrow> event list \<times> error option" where
  "SetupFilesystem w tr config =
     (case setupBindMounts w tr config of
        (tr1, Some err) \<Rightarrow> (tr1, Some (FailedToSetupBindMounts err))
      | (tr1, None) \<Rightarrow>
     (case sys w (syscall_Sethostname (Hostname config)) tr1 of
        (tr2, Some err) \<Rightarrow> (tr2, Some (FailedToSetHostname err))
      | (tr2, None) \<Rightarrow>
     (case sys w (syscall_Chroot (RootFS config)) tr2 of
        (tr3, Some err) \<Rightarrow> (tr3, Some (FailedToChroot (RootFS config) err))
      | (tr3, None) \<Rightarrow>
     (case sys w (os_Chdir ''/'') tr3 of
        (tr4, Some err) \<Rightarrow> (tr4, Some (FailedToChdir err))
      | (tr4, None) \<Rightarrow>
     (case copyResolvConf w tr4 of
        (tr5, Some err) \<Rightarrow> (tr5, Some (FailedToSetupDNS err))
      | (tr5, None) \<Rightarrow>
     (case sys w (syscall_Mount ''proc'' ''proc'' ''proc'' {} '''') tr5 of
        (tr6, Some err) \<Rightarrow> (tr6, Some (FailedToMountProc err))
      | (tr6, None) \<Rightarrow>
     (case sys w (syscall_Mount ''devpts'' ''/dev/pts'' ''devpts'' {} '''') tr6 of
        (tr7, Some err) \<Rightarrow> (tr7, Some (FailedToMountDevpts err))
      | (tr7, None) \<Rightarrow> (tr7, None))))))))"

text \<open>
  \<^verbatim>\<open>CleanupFilesystem\<close>: both unmounts are attempted, the error returned is the last
  one that occurred.
\<close>

definition CleanupFilesystem :: "os \<Rightarrow> event list \<Rightarrow> event list \<times> error option" where
  "CleanupFilesystem w tr =
     (let (tr1, err1) = sys w (syscall_Unmount ''/dev/pts'' 0) tr;
          lastErr1 = (case err1 of Some err \<Rightarrow> Some (OS err) | None \<Rightarrow> None);
          (tr2, err2) = sys w (syscall_Unmount ''proc'' 0) tr1;
          lastErr2 = (case err2 of Some err \<Rightarrow> Some (OS err) | None \<Rightarrow> lastErr1)
      in (tr2, lastErr2))"

section \<open>The step sequence of the filesystem setup, as the specification gives it\<close>

text \<open>
  The specification fixes an order of steps and says that a failure at a step prevents
  the later ones. These definitions follow its words, to be compared with
  \<^const>\<open>SetupFilesystem\<close>, which follows the source. A step fails when its call returns
  an error; looking at the source of a bind mount (\<^verbatim>\<open>os.Stat\<close>) fails when the path does
  not exist, any other answer lets the setup go on. \<open>run_steps\<close> makes the calls of a
  list in order and stops after the first that fails; it returns the history and
  whether all steps were made without failure.
\<close>

definition failed :: "event \<Rightarrow> bool" where
  "failed e = (case fst e of os_Stat p \<Rightarrow> snd e = Some ENOENT | _ \<Rightarrow> snd e \<noteq> None)"

fun run_steps :: "os \<Rightarrow> event list \<Rightarrow> syscall list \<Rightarrow> event list \<times> bool" where
  "run_steps w tr [] = (tr, True)"
| "run_steps w tr (c # cs) =
     (if failed (c, kernel w tr c) then (tr @ [(c, kernel w tr c)], False)
      else run_steps w (tr @ [(c, kernel w tr c)]) cs)"

text \<open>
  Step 1 for one mount: the source is looked at, the mount point
  \<^verbatim>\<open><rootfs>/<destination>\<close> is created, the source is bind-mounted there, and a
  read-only mount is remounted with the read-only flag.
\<close>

definition bind_mount_steps :: "os \<Rightarrow> string \<Rightarrow> Mount \<Rightarrow> syscall list" where
  "bind_mount_steps w rootFS m =
     [os_Stat (Source m),
      os_MkdirAll (Join w rootFS (Destination m)) mode_0755,
      syscall_Mount (Source m) (Join w rootFS (Destination m)) ''''
        ({MS_BIND} \<union> (if ReadOnly m then {MS_RDONLY} else {})) '''']
     @ (if ReadOnly m then
          [syscall_Mount '''' (Join w rootFS (Destination m)) ''''
             ({MS_BIND, MS_RDONLY, MS_REMOUNT}) '''']
        else [])"

text \<open>
  All steps: the bind mounts in the order of the configuration, the hostname, the root
  change and the change of the working directory to \<^verbatim>\<open>/\<close>, the DNS configuration
  (\<^verbatim>\<open>/etc\<close> and \<^verbatim>\<open>/etc/resolv.conf\<close>), and the mounts of \<^verbatim>\<open>proc\<close> and \<^verbatim>\<open>devpts\<close>.
\<close>

definition filesystem_steps :: "os \<Rightarrow> ContainerConfig \<Rightarrow> syscall list" where
  "filesystem_steps w config =
     concat (map (bind_mount_steps w (RootFS config)) (Mounts config))
     @ [syscall_Sethostname (Hostname config),
        syscall_Chroot (RootFS config),
        os_Chdir ''/'',
        os_MkdirAll ''/etc'' mode_0755,
        ioutil_WriteFile ''/etc/resolv.conf''
          (''nameserver 8.8.8.8'' @ [CHR 0x0A] @ ''nameserver 8.8.4.4'' @ [CHR 0x0A]) mode_0644,
        syscall_Mount ''proc'' ''proc'' ''proc'' {} '''',
        syscall_Mount ''devpts'' ''/dev/pts'' ''devpts'' {} '''']"

section \<open>cgroups.go\<close>

definition cgroupBasePath :: string where
  "cgroupBasePath = ''/sys/fs/cgroup''"

definition cgroupName :: string where
  "cgroupName = ''namespace_test''"

record CgroupConfig =
  Name :: string
  MaxPids :: string
  MemoryLimit :: string
  CPUQuota :: string
  CPUPeriod :: string

definition NewDefaultCgroupConfig :: CgroupConfig where
  "NewDefaultCgroupConfig =
     \<lparr>Name = cgroupName, MaxPids = ''max'', MemoryLimit = '''', CPUQuota = '''',
      CPUPeriod = ''100000''\<rparr>"

definition setCgroupValue ::
  "os \<Rightarrow> event list \<Rightarrow> string \<Rightarrow> string \<Rightarrow> string \<Rightarrow> event list \<times> error option" where
  "setCgroupValue w tr cgroupPath filename v =
     (let filePath = Join w cgroupPath filename;
          (tr1, err1) = sys w (os_Stat filePath) tr
      in if err1 = Some ENOENT then (tr1, None)
         else
           (case sys w (ioutil_WriteFile filePath v mode_0644) tr1 of
              (tr2, Some err) \<Rightarrow> (tr2, Some (FailedToWriteTo filePath err))
            | (tr2, None) \<Rightarrow> (tr2, None)))"

definition SetupCgroups ::
  "os \<Rightarrow> event list \<Rightarrow> CgroupConfig \<Rightarrow> event list \<times> error option" where
  "SetupCgroups w tr config =
     (let cgroupPath = Join w cgroupBasePath (Name config);
          (tr0, err0) = sys w (os_Stat cgroupPath) tr;
          (tr1, mkdirErr) =
            (if err0 = Some ENOENT then sys w (os_MkdirAll cgroupPath mode_0755) tr0
             else (tr0, None))
      in case mkdirErr of
           Some err \<Rightarrow> (tr1, Some (FailedToCreateCgroupDir cgroupPath err))
         | None \<Rightarrow>
      (case setCgroupValue w tr1 cgroupPath ''pids.max'' (MaxPids config) of
         (tr2, Some err) \<Rightarrow> (tr2, Some (FailedToSetPidsMax err))
       | (tr2, None) \<Rightarrow>
      (case (if MemoryLimit config \<noteq> ''''
             then setCgroupValue w tr2 cgroupPath ''memory.max'' (MemoryLimit config)
             else (tr2, None)) of
         (tr3, Some err) \<Rightarrow> (tr3, Some (FailedToSetMemoryMax err))
       | (tr3, None) \<Rightarrow>
      (case (if CPUQuota config \<noteq> ''''
             then setCgroupValue w tr3 cgroupPath ''cpu.max''
                    (CPUQuota config @ '' '' @ CPUPeriod config)
             else (tr3, None)) of
         (tr4, Some err) \<Rightarrow> (tr4, Some (FailedToSetCpuMax err))
       | (tr4, None) \<Rightarrow>
      (case setCgroupValue w tr4 cgroupPath ''cgroup.procs'' (Itoa (Getpid w)) of
         (tr5, Some err) \<Rightarrow> (tr5, Some (FailedToAddProcess err))
       | (tr5, None) \<Rightarrow> (tr5, None))))))"

section \<open>The cgroup setup, as the specification gives it\<close>

text \<open>
  These definitions follow the words of the specification, to be compared with
  \<^const>\<open>SetupCgroups\<close>, which follows the source. The control files and the values to
  write, in order: \<^verbatim>\<open>pids.max\<close>; \<^verbatim>\<open>memory.max\<close> if a memory limit is set;
  \<^verbatim>\<open>cpu.max\<close> as \<^verbatim>\<open><quota> <period>\<close> if a CPU quota is set; the current PID to
  \<^verbatim>\<open>cgroup.procs\<close>.
\<close>

definition control_values :: "os \<Rightarrow> CgroupConfig \<Rightarrow> (string \<times> string) list" where
  "control_values w config =
     [(''pids.max'', MaxPids config)]
     @ (if MemoryLimit config \<noteq> '''' then [(''memory.max'', MemoryLimit config)] else [])
     @ (if CPUQuota config \<noteq> '''' then [(''cpu.max'', CPUQuota config @ '' '' @ CPUPeriod config)]
        else [])
     @ [(''cgroup.procs'', Itoa (Getpid w))]"

text \<open>
  Writing the values: a control file that does not exist is skipped and the next one
  is tried; any other file is written, and a write that fails ends the setup. The
  result is the history and whether no write failed.
\<close>

fun write_values ::
  "os \<Rightarrow> event list \<Rightarrow> string \<Rightarrow> (string \<times> string) list \<Rightarrow> event list \<times> bool" where
  "write_values w tr dir [] = (tr, True)"
| "write_values w tr dir ((file, v) # rest) =
     (let path = Join w dir file;
          tr1 = tr @ [(os_Stat path, kernel w tr (os_Stat path))]
      in if kernel w tr (os_Stat path) = Some ENOENT then write_values w tr1 dir rest
         else
           let wr = kernel w tr1 (ioutil_WriteFile path v mode_0644);
               tr2 = tr1 @ [(ioutil_WriteFile path v mode_0644, wr)]
           in if wr \<noteq> None then (tr2, False) else write_values w tr2 dir rest)"

text \<open>
  The whole setup: the directory of the group is created if it is absent, then the
  values are written.
\<close>

definition cgroup_steps :: "os \<Rightarrow> event list \<Rightarrow> CgroupConfig \<Rightarrow> event list \<times> bool" where
  "cgroup_steps w tr config =
     (let dir = Join w cgroupBasePath (Name config);
          tr0 = tr @ [(os_Stat dir, kernel w tr (os_Stat dir))]
      in if kernel w tr (os_Stat dir) = Some ENOENT then
           let mk = kernel w tr0 (os_MkdirAll dir mode_0755);
               tr1 = tr0 @ [(os_MkdirAll dir mode_0755, mk)]
           in if mk \<noteq> None then (tr1, False)
              else write_values w tr1 dir (control_values w config)
         else write_values w tr0 dir (control_values w config))"

text \<open>A call that creates or writes: the calls whose failure the setup does not survive.\<close>

definition creates_or_writes :: "syscall \<Rightarrow> bool" where
  "creates_or_writes c =
     (case c of os_MkdirAll p m \<Rightarrow> True | ioutil_WriteFile p v m \<Rightarrow> True | _ \<Rightarrow> False)"

text \<open>The paths looked at with \<^verbatim>\<open>os.Stat\<close>, in order.\<close>

fun stat_paths :: "event list \<Rightarrow> string list" where
  "stat_paths [] = []"
| "stat_paths ((os_Stat p, r) # es) = p # stat_paths es"
| "stat_paths (e # es) = stat_paths es"

section \<open>network.go: the NAT rules\<close>

text \<open>
  \<^verbatim>\<open>setupNAT\<close> and \<^verbatim>\<open>CleanupNetwork\<close> call two things outside the repository, which
  are parameters: the Go library (\<open>ParseCIDR\<close> for \<^verbatim>\<open>net.ParseCIDR\<close>, which gives the
  network or fails, and \<open>String\<close> for the network's \<^verbatim>\<open>String()\<close>), and the host, which
  runs a program (\<open>Run\<close> for \<^verbatim>\<open>exec.Command(name, args...).Run()\<close>: from the state of
  the host, the program's name and its arguments to the new state and the error, \<open>None\<close>
  for \<^verbatim>\<open>nil\<close>).
\<close>

definition setupNAT ::
  "(string \<Rightarrow> 'n option) \<Rightarrow> ('n \<Rightarrow> string) \<Rightarrow>
   ('s \<Rightarrow> string \<Rightarrow> string list \<Rightarrow> 's \<times> oserr option) \<Rightarrow>
   's \<Rightarrow> ContainerConfig \<Rightarrow> 's \<times> error option" where
  "setupNAT ParseCIDR String Run s config =
     (case ParseCIDR (NetworkCIDR config) of
        None \<Rightarrow> (s, Some (InvalidNetworkCIDR (NetworkCIDR config)))
      | Some network \<Rightarrow>
          (let networkStr = String network in
           case Run s ''iptables'' [''-t'', ''nat'', ''-A'', ''POSTROUTING'',
                  ''-s'', networkStr, ''-o'', ''eth0'', ''-j'', ''MASQUERADE''] of
             (s1, Some err) \<Rightarrow> (s1, Some (FailedMasquerading err))
           | (s1, None) \<Rightarrow>
               (case Run s1 ''iptables'' [''-A'', ''FORWARD'', ''-s'', networkStr, ''-j'', ''ACCEPT''] of
                  (s2, Some err) \<Rightarrow> (s2, Some (FailedForwardOutbound err))
                | (s2, None) \<Rightarrow>
                    (case Run s2 ''iptables'' [''-A'', ''FORWARD'', ''-d'', networkStr, ''-j'', ''ACCEPT''] of
                       (s3, Some err) \<Rightarrow> (s3, Some (FailedForwardInbound err))
                     | (s3, None) \<Rightarrow> (s3, None)))))"

text \<open>
  \<^verbatim>\<open>CleanupNetwork\<close> returns nothing: the result is the state of the host alone. The
  errors of the three commands are dropped.
\<close>

definition CleanupNetwork ::
  "(string \<Rightarrow> 'n option) \<Rightarrow> ('n \<Rightarrow> string) \<Rightarrow>
   ('s \<Rightarrow> string \<Rightarrow> string list \<Rightarrow> 's \<times> oserr option) \<Rightarrow>
   's \<Rightarrow> ContainerConfig \<Rightarrow> 's" where
  "CleanupNetwork ParseCIDR String Run s config =
     (case ParseCIDR (NetworkCIDR config) of
        None \<Rightarrow> s
      | Some network \<Rightarrow>
          (let networkStr = String network;
               s1 = fst (Run s ''iptables'' [''-t'', ''nat'', ''-D'', ''POSTROUTING'',
                      ''-s'', networkStr, ''-o'', ''eth0'', ''-j'', ''MASQUERADE'']);
               s2 = fst (Run s1 ''iptables'' [''-D'', ''FORWARD'', ''-s'', networkStr, ''-j'', ''ACCEPT'']);
               s3 = fst (Run s2 ''iptables'' [''-D'', ''FORWARD'', ''-d'', networkStr, ''-j'', ''ACCEPT''])
           in s3))"

text \<open>
  Two hosts to run the functions on. The first wraps any host and records the argument
  lists of the commands it is asked to run, in order. The second is a model of the
  rule lists \<^verbatim>\<open>iptables\<close> keeps, one list of rule specifications for each table and
  chain: \<^verbatim>\<open>-A chain spec\<close> appends the rule, \<^verbatim>\<open>-D chain spec\<close> deletes the first rule
  equal to the specification and fails when there is none; \<^verbatim>\<open>-t table\<close> selects the
  table, which is \<^verbatim>\<open>filter\<close> otherwise.
\<close>

definition recording ::
  "('s \<Rightarrow> string \<Rightarrow> string list \<Rightarrow> 's \<times> oserr option) \<Rightarrow>
   's \<times> string list list \<Rightarrow> string \<Rightarrow> string list \<Rightarrow> ('s \<times> string list list) \<times> oserr option" where
  "recording Run st name args =
     (case Run (fst st) name args of (s', err) \<Rightarrow> ((s', snd st @ [args]), err))"

type_synonym rules = "string \<times> string \<Rightarrow> string list list"

definition iptables :: "rules \<Rightarrow> string \<Rightarrow> string list \<Rightarrow> rules \<times> oserr option" where
  "iptables rs name args =
     (let table = (if 2 \<le> length args \<and> args ! 0 = ''-t'' then args ! 1 else ''filter'');
          rest = (if 2 \<le> length args \<and> args ! 0 = ''-t'' then drop 2 args else args)
      in case rest of
           op # chain # spec \<Rightarrow>
             if name = ''iptables'' \<and> op = ''-A'' then
               (rs((table, chain) := rs (table, chain) @ [spec]), None)
             else if name = ''iptables'' \<and> op = ''-D'' \<and> spec \<in> set (rs (table, chain)) then
               (rs((table, chain) := remove1 spec (rs (table, chain))), None)
             else (rs, Some (ExitError 1))
         | _ \<Rightarrow> (rs, Some (ExitError 2)))"

section \<open>network.go: SetupNetworking\<close>

text \<open>
  The network calls run in the history like every other call. \<^verbatim>\<open>exec_Run\<close> is
  \<^verbatim>\<open>exec.Command(name, args...).Run()\<close> on this host, the \<open>Run\<close> that
  \<^const>\<open>setupNAT\<close> and \<^const>\<open>CleanupNetwork\<close> are given.
\<close>

definition exec_Run :: "os \<Rightarrow> event list \<Rightarrow> string \<Rightarrow> string list \<Rightarrow> event list \<times> oserr option" where
  "exec_Run w tr name args = sys w (cmd_Run name args None) tr"

definition createVethPair :: "os \<Rightarrow> event list \<Rightarrow> event list \<times> error option" where
  "createVethPair w tr =
     (case sys w (netlink_LinkAdd ''veth0'' ''veth1'') tr of
        (tr1, Some err) \<Rightarrow> (tr1, Some (FailedToAddVethPair err))
      | (tr1, None) \<Rightarrow> (tr1, None))"

definition configureHostNetwork ::
  "os \<Rightarrow> event list \<Rightarrow> ContainerConfig \<Rightarrow> event list \<times> error option" where
  "configureHostNetwork w tr config =
     (case sys w (netlink_LinkByName ''veth0'') tr of
        (tr1, Some err) \<Rightarrow> (tr1, Some (FailedToGetLink ''veth0'' err))
      | (tr1, None) \<Rightarrow>
     (case sys w (netlink_LinkSetUp ''veth0'') tr1 of
        (tr2, Some err) \<Rightarrow> (tr2, Some (FailedToBringUp ''veth0'' err))
      | (tr2, None) \<Rightarrow>
     (case net_ParseIP w (HostIP config) of
        None \<Rightarrow> (tr2, Some (InvalidHostIP (HostIP config)))
      | Some hostIP \<Rightarrow>
     (case net_ParseCIDR w (NetworkCIDR config) of
        None \<Rightarrow> (tr2, Some (InvalidNetworkCIDR (NetworkCIDR config)))
      | Some hostNet \<Rightarrow>
     (case sys w (netlink_AddrAdd ''veth0'' hostIP hostNet) tr2 of
        (tr3, Some err) \<Rightarrow> (tr3, Some (FailedToAddAddress ''veth0'' err))
      | (tr3, None) \<Rightarrow> (tr3, None))))))"

definition bringUpLoopback :: "os \<Rightarrow> event list \<Rightarrow> event list \<times> error option" where
  "bringUpLoopback w tr =
     (case sys w (netlink_LinkByName ''lo'') tr of
        (tr1, Some err) \<Rightarrow> (tr1, Some (FailedToGetLink ''lo'' err))
      | (tr1, None) \<Rightarrow>
     (case sys w (netlink_LinkSetUp ''lo'') tr1 of
        (tr2, Some err) \<Rightarrow> (tr2, Some (FailedToBringUp ''lo'' err))
      | (tr2, None) \<Rightarrow> (tr2, None)))"

definition configureContainerNetwork ::
  "os \<Rightarrow> event list \<Rightarrow> ContainerConfig \<Rightarrow> event list \<times> error option" where
  "configureContainerNetwork w tr config =
     (case bringUpLoopback w tr of
        (tr1, Some err) \<Rightarrow> (tr1, Some (FailedToBringUpLoopback err))
      | (tr1, None) \<Rightarrow>
     (case sys w (netlink_LinkByName ''veth1'') tr1 of
        (tr2, Some err) \<Rightarrow> (tr2, Some (FailedToGetLink ''veth1'' err))
      | (tr2, None) \<Rightarrow>
     (case sys w (netlink_LinkSetUp ''veth1'') tr2 of
        (tr3, Some err) \<Rightarrow> (tr3, Some (FailedToBringUp ''veth1'' err))
      | (tr3, None) \<Rightarrow>
     (case net_ParseIP w (ContainerIP config) of
        None \<Rightarrow> (tr3, Some (InvalidContainerIP (ContainerIP config)))
      | Some containerIP \<Rightarrow>
     (case net_ParseCIDR w (NetworkCIDR config) of
        None \<Rightarrow> (tr3, Some (InvalidNetworkCIDR (NetworkCIDR config)))
      | Some containerNet \<Rightarrow>
     (case sys w (netlink_AddrAdd ''veth1'' containerIP containerNet) tr3 of
        (tr4, Some err) \<Rightarrow> (tr4, Some (FailedToAddAddress ''veth1'' err))
      | (tr4, None) \<Rightarrow>
     (case sys w (netlink_RouteAdd ''veth1'' (net_ParseIP w (HostIP config))) tr4 of
        (tr5, Some err) \<Rightarrow> (tr5, Some (FailedToAddDefaultRoute err))
      | (tr5, None) \<Rightarrow> (tr5, None))))))))"

text \<open>
  \<^verbatim>\<open>SetupNetworking\<close> after the two namespace handles are open, up to its
  \<^verbatim>\<open>return\<close>.
\<close>

definition SetupNetworking_body ::
  "os \<Rightarrow> event list \<Rightarrow> ContainerConfig \<Rightarrow> event list \<times> error option" where
  "SetupNetworking_body w tr config =
     (case createVethPair w tr of
        (tr1, Some err) \<Rightarrow> (tr1, Some (FailedToCreateVethPair err))
      | (tr1, None) \<Rightarrow>
     (case configureHostNetwork w tr1 config of
        (tr2, Some err) \<Rightarrow> (tr2, Some (FailedToConfigureHostNetwork err))
      | (tr2, None) \<Rightarrow>
     (case sys w (netlink_LinkByName ''veth1'') tr2 of
        (tr3, Some err) \<Rightarrow> (tr3, Some (FailedToGetLink ''veth1'' err))
      | (tr3, None) \<Rightarrow>
     (case sys w (netlink_LinkSetNsFd ''veth1'' containerNs) tr3 of
        (tr4, Some err) \<Rightarrow> (tr4, Some (FailedToMoveVeth1 err))
      | (tr4, None) \<Rightarrow>
     (case sys w (netns_Set containerNs) tr4 of
        (tr5, Some err) \<Rightarrow> (tr5, Some (FailedToSwitchToContainerNamespace err))
      | (tr5, None) \<Rightarrow>
     (case configureContainerNetwork w tr5 config of
        (tr6, Some err) \<Rightarrow>
          (fst (sys w (netns_Set hostNs) tr6), Some (FailedToConfigureContainerNetwork err))
      | (tr6, None) \<Rightarrow>
     (case sys w (netns_Set hostNs) tr6 of
        (tr7, Some err) \<Rightarrow> (tr7, Some (FailedToSwitchBackToHostNamespace err))
      | (tr7, None) \<Rightarrow>
     (case setupNAT (net_ParseCIDR w) (\<lambda>network. network) (exec_Run w) tr7 config of
        (tr8, Some err) \<Rightarrow> (tr8, Some (FailedToSetupNAT err))
      | (tr8, None) \<Rightarrow> (tr8, None)))))))))"

text \<open>
  A deferred call runs when the function returns, whatever it returns; its own result
  is dropped.
\<close>

definition deferred ::
  "os \<Rightarrow> syscall \<Rightarrow> event list \<times> error option \<Rightarrow> event list \<times> error option" where
  "deferred w c res = (fst (sys w c (fst res)), snd res)"

definition SetupNetworking ::
  "os \<Rightarrow> event list \<Rightarrow> int \<Rightarrow> ContainerConfig \<Rightarrow> event list \<times> error option" where
  "SetupNetworking w tr pid config =
     deferred w runtime_UnlockOSThread
       (case sys w netns_Get (fst (sys w runtime_LockOSThread tr)) of
          (tr1, Some err) \<Rightarrow> (tr1, Some (FailedToGetHostNamespace err))
        | (tr1, None) \<Rightarrow>
            deferred w (netns_Close hostNs)
              (case sys w (netns_GetFromPid pid) tr1 of
                 (tr2, Some err) \<Rightarrow> (tr2, Some (FailedToGetContainerNamespace err))
               | (tr2, None) \<Rightarrow>
                   deferred w (netns_Close containerNs) (SetupNetworking_body w tr2 config)))"

section \<open>utils.go: the checks\<close>

definition checkRoot :: "os \<Rightarrow> error option" where
  "checkRoot w = (if Geteuid w \<noteq> 0 then Some MustBeRunAsRoot else None)"

definition fileExists :: "os \<Rightarrow> event list \<Rightarrow> string \<Rightarrow> event list \<times> bool" where
  "fileExists w tr path =
     (case sys w (os_Stat path) tr of (tr1, err) \<Rightarrow> (tr1, err \<noteq> Some ENOENT))"

text \<open>
  \<^verbatim>\<open>dirExists\<close> evaluates \<^verbatim>\<open>!os.IsNotExist(err) && info.IsDir()\<close>. When \<^verbatim>\<open>os.Stat\<close>
  fails with another error than \<^verbatim>\<open>ENOENT\<close>, \<^verbatim>\<open>info\<close> is \<^verbatim>\<open>nil\<close> and the method call
  panics; a Go program that panics ends with status 2.
\<close>

definition dirExists :: "os \<Rightarrow> event list \<Rightarrow> string \<Rightarrow> event list \<times> bool process" where
  "dirExists w tr path =
     (case sys w (os_Stat path) tr of
        (tr1, err) \<Rightarrow>
          if err = Some ENOENT then (tr1, Returns False)
          else if err \<noteq> None then (tr1, Exits 2)
          else (tr1, Returns (IsDir w tr path)))"

definition validatePath :: "os \<Rightarrow> event list \<Rightarrow> string \<Rightarrow> event list \<times> error option" where
  "validatePath w tr path =
     (if path = '''' then (tr, Some PathCannotBeEmpty)
      else
        (case fileExists w tr path of
           (tr1, False) \<Rightarrow> (tr1, Some (PathDoesNotExist path))
         | (tr1, True) \<Rightarrow> (tr1, None)))"

definition validateCommand :: "string list \<Rightarrow> error option" where
  "validateCommand command =
     (if length command = 0 then Some CommandCannotBeEmpty
      else if command ! 0 = '''' then Some CommandNameCannotBeEmpty
      else None)"

section \<open>container.go and filesystem.go: the parent\<close>

text \<open>The loop of \<^verbatim>\<open>validateConfig\<close> over the mounts; the first argument is the index.\<close>

fun validate_mounts ::
  "os \<Rightarrow> event list \<Rightarrow> nat \<Rightarrow> Mount list \<Rightarrow> event list \<times> error option" where
  "validate_mounts w tr i [] = (tr, None)"
| "validate_mounts w tr i (mount # rest) =
     (case validatePath w tr (Source mount) of
        (tr1, Some err) \<Rightarrow> (tr1, Some (InvalidMountSourcePath i err))
      | (tr1, None) \<Rightarrow>
          if Destination mount = '''' then (tr1, Some (MountDestinationCannotBeEmpty i))
          else validate_mounts w tr1 (Suc i) rest)"

definition validateConfig ::
  "os \<Rightarrow> event list \<Rightarrow> ContainerConfig \<Rightarrow> event list \<times> error option" where
  "validateConfig w tr config =
     (case validateCommand (Command config) of
        Some err \<Rightarrow> (tr, Some err)
      | None \<Rightarrow>
          (case validatePath w tr (RootFS config) of
             (tr1, Some err) \<Rightarrow> (tr1, Some (InvalidRootFSPath err))
           | (tr1, None) \<Rightarrow> validate_mounts w tr1 0 (Mounts config)))"

text \<open>The loop of \<^verbatim>\<open>PrepareRootFS\<close> over the required directories.\<close>

fun make_dirs :: "os \<Rightarrow> event list \<Rightarrow> string list \<Rightarrow> event list \<times> error option" where
  "make_dirs w tr [] = (tr, None)"
| "make_dirs w tr (dir # rest) =
     (case sys w (os_MkdirAll dir mode_0755) tr of
        (tr1, Some err) \<Rightarrow> (tr1, Some (FailedToCreateDirectory dir err))
      | (tr1, None) \<Rightarrow> make_dirs w tr1 rest)"

definition PrepareRootFS :: "os \<Rightarrow> event list \<Rightarrow> string \<Rightarrow> event list \<times> error option" where
  "PrepareRootFS w tr rootfsPath =
     (case sys w (os_Stat rootfsPath) tr of
        (tr1, err) \<Rightarrow>
          if err = Some ENOENT then (tr1, Some (RootFSDoesNotExist rootfsPath))
          else
            make_dirs w tr1
              [Join w rootfsPath ''proc'', Join w rootfsPath ''dev'',
               Join w rootfsPath ''dev/pts'', Join w rootfsPath ''etc'',
               Join w rootfsPath ''app'', Join w rootfsPath ''tmp''])"

text \<open>
  \<^verbatim>\<open>RunContainer\<close>. The child is the program itself, \<^verbatim>\<open>/proc/self/exe\<close>, started with
  the arguments \<^verbatim>\<open>child\<close> and the command and with the environment of
  \<^const>\<open>RunContainer_env\<close>. The error returned at the end is the one of \<^verbatim>\<open>cmd.Wait()\<close>,
  as it came.
\<close>

definition RunContainer ::
  "os \<Rightarrow> event list \<Rightarrow> ContainerConfig \<Rightarrow> event list \<times> error option" where
  "RunContainer w tr config =
     (case validateConfig w tr config of
        (tr1, Some err) \<Rightarrow> (tr1, Some (InvalidConfiguration err))
      | (tr1, None) \<Rightarrow>
     (case PrepareRootFS w tr1 (RootFS config) of
        (tr2, Some err) \<Rightarrow> (tr2, Some (FailedToPrepareRootFS err))
      | (tr2, None) \<Rightarrow>
     (case sys w (cmd_Start ''/proc/self/exe'' ([''child''] @ Command config)
                    (RunContainer_env (Environ w) config)) tr2 of
        (tr3, Some err) \<Rightarrow> (tr3, Some (FailedToStartContainer err))
      | (tr3, None) \<Rightarrow>
     (case SetupNetworking w tr3 (ChildPid w) config of
        (tr4, Some err) \<Rightarrow>
          (fst (sys w Process_Kill tr4), Some (FailedToSetupNetworking err))
      | (tr4, None) \<Rightarrow>
          (let (tr5, err) = sys w cmd_Wait tr4;
               tr6 = CleanupNetwork (net_ParseCIDR w) (\<lambda>network. network) (exec_Run w) tr5 config
           in (tr6, map_option OS err))))))"

section \<open>container.go: the child\<close>

text \<open>
  \<^verbatim>\<open>RunChildProcess\<close>. \<^verbatim>\<open>command[0]\<close> panics for an empty command (the caller checks
  it before). The error of \<^verbatim>\<open>CleanupFilesystem\<close> is logged and dropped; the error
  returned at the end is the one of \<^verbatim>\<open>cmd.Run()\<close>, as it came.
\<close>

definition RunChildProcess ::
  "os \<Rightarrow> event list \<Rightarrow> string list \<Rightarrow> event list \<times> error option process" where
  "RunChildProcess w tr command =
     (case configFromEnv (Environ w) of
        Inl err \<Rightarrow> (tr, Returns (Some (FailedToParseConfigFromEnv err)))
      | Inr config \<Rightarrow>
     (case SetupCgroups w tr NewDefaultCgroupConfig of
        (tr1, Some err) \<Rightarrow> (tr1, Returns (Some (FailedToSetupCgroups err)))
      | (tr1, None) \<Rightarrow>
     (case SetupFilesystem w tr1 config of
        (tr2, Some err) \<Rightarrow> (tr2, Returns (Some (FailedToSetupFilesystem err)))
      | (tr2, None) \<Rightarrow>
          if command = [] then (tr2, Exits 2)
          else
            (case dirExists w tr2 ''/app'' of
               (tr3, Exits code) \<Rightarrow> (tr3, Exits code)
             | (tr3, Returns isDir) \<Rightarrow>
                 (let (tr4, err) =
                        sys w (cmd_Run (hd command) (tl command)
                                 (if isDir then Some ''/app'' else None)) tr3;
                      (tr5, cleanupErr) = CleanupFilesystem w tr4
                  in (tr5, Returns (map_option OS err)))))))"

section \<open>main.go\<close>

text \<open>
  \<^verbatim>\<open>handleRun\<close> and \<^verbatim>\<open>handleChild\<close> return to \<^verbatim>\<open>main\<close> or end the process with
  \<^verbatim>\<open>os.Exit(1)\<close>. What they log and print is left out.
\<close>

definition handleRun :: "os \<Rightarrow> event list \<Rightarrow> string list \<Rightarrow> event list \<times> unit process" where
  "handleRun w tr args =
     (case ParseFlags (flag_Parse w) (Getwd w) args of
        Exits code \<Rightarrow> (tr, Exits code)
      | Returns (Inl err) \<Rightarrow> (tr, Exits 1)
      | Returns (Inr config) \<Rightarrow>
          (case RunContainer w tr config of
             (tr1, Some err) \<Rightarrow> (tr1, Exits 1)
           | (tr1, None) \<Rightarrow> (tr1, Returns ())))"

definition handleChild :: "os \<Rightarrow> event list \<Rightarrow> string list \<Rightarrow> event list \<times> unit process" where
  "handleChild w tr args =
     (if length args = 0 then (tr, Exits 1)
      else
        (case RunChildProcess w tr args of
           (tr1, Exits code) \<Rightarrow> (tr1, Exits code)
         | (tr1, Returns (Some err)) \<Rightarrow> (tr1, Exits 1)
         | (tr1, Returns None) \<Rightarrow> (tr1, Returns ())))"

text \<open>
  \<^verbatim>\<open>main\<close>, from \<^verbatim>\<open>os.Args\<close> to the calls the process made and its exit code: the
  code given to \<^verbatim>\<open>os.Exit\<close>, or 0 when \<^verbatim>\<open>main\<close> returns.
\<close>

definition exit_code :: "event list \<times> unit process \<Rightarrow> event list \<times> nat" where
  "exit_code res = (case snd res of Exits code \<Rightarrow> (fst res, code) | Returns u \<Rightarrow> (fst res, 0))"

definition main :: "os \<Rightarrow> string list \<Rightarrow> event list \<times> nat" where
  "main w Args =
     (if length Args < 2 then ([], 1)
      else if Args ! 1 = ''help'' \<or> Args ! 1 = ''--help'' \<or> Args ! 1 = ''-h'' then ([], 0)
      else if Args ! 1 = ''version'' \<or> Args ! 1 = ''--version'' \<or> Args ! 1 = ''-v'' then ([], 0)
      else if checkRoot w \<noteq> None then ([], 1)
      else if Args ! 1 = ''run'' then exit_code (handleRun w [] (drop 2 Args))
      else if Args ! 1 = ''child'' then exit_code (handleChild w [] (drop 2 Args))
      else ([], 1))"

section \<open>Parent and child together\<close>

text \<open>
  The process that \<^verbatim>\<open>cmd.Start\<close> starts is this program again, so what \<^verbatim>\<open>cmd.Wait\<close>
  returns in the parent is decided by \<^const>\<open>main\<close> in the child: \<^verbatim>\<open>nil\<close> when it ends
  with code 0, an \<^verbatim>\<open>ExitError\<close> with its code otherwise. \<open>started\<close> finds the last
  successful \<^verbatim>\<open>cmd.Start\<close> of a history; \<open>with_child host cont\<close> is the host whose
  kernel answers \<^verbatim>\<open>cmd.Wait\<close> in this way, the child running in the surroundings
  \<open>cont\<close> with the arguments and the environment it was started with.
\<close>

primrec started :: "event list \<Rightarrow> (string \<times> string list \<times> string list) option" where
  "started [] = None"
| "started (ev # es) =
     (case started es of
        Some later \<Rightarrow> Some later
      | None \<Rightarrow>
          (case ev of
             (cmd_Start path args env, None) \<Rightarrow> Some (path, args, env)
           | _ \<Rightarrow> None))"

definition wait_status :: "nat \<Rightarrow> oserr option" where
  "wait_status code = (if code = 0 then None else Some (ExitError code))"

definition with_child :: "os \<Rightarrow> os \<Rightarrow> os" where
  "with_child host cont =
     host\<lparr>kernel :=
       (\<lambda>tr c.
          if c = cmd_Wait then
            (case started tr of
               None \<Rightarrow> kernel host tr c
             | Some (path, args, env) \<Rightarrow>
                 wait_status (snd (main (cont\<lparr>Environ := env\<rparr>) (path # args))))
          else kernel host tr c)\<rparr>"


section \<open>The commands a process ran and the children it waited for\<close>

text \<open>
  The words in which the exit code of the runtime is stated. A process call is one of
  the calls that run, start, await or kill a process. \<open>command_results\<close> gives, for
  the history of a process, the results of the commands it ran with \<^verbatim>\<open>cmd.Run()\<close>, in
  order, \<open>None\<close> for a command that exited with status 0; \<open>wait_results\<close> gives the
  results of its calls of \<^verbatim>\<open>cmd.Wait()\<close>.
\<close>

definition process_call :: "syscall \<Rightarrow> bool" where
  "process_call c =
     (case c of cmd_Run name args dir \<Rightarrow> True | cmd_Start path args env \<Rightarrow> True
      | cmd_Wait \<Rightarrow> True | Process_Kill \<Rightarrow> True | _ \<Rightarrow> False)"

definition starts_or_waits :: "syscall \<Rightarrow> bool" where
  "starts_or_waits c = (case c of cmd_Start path args env \<Rightarrow> True | cmd_Wait \<Rightarrow> True | _ \<Rightarrow> False)"

definition runs :: "event \<Rightarrow> bool" where
  "runs ev = (case fst ev of cmd_Run name args dir \<Rightarrow> True | _ \<Rightarrow> False)"

definition command_results :: "event list \<Rightarrow> oserr option list" where
  "command_results tr = map snd (filter runs tr)"

definition wait_results :: "event list \<Rightarrow> oserr option list" where
  "wait_results tr = map snd (filter (\<lambda>ev. fst ev = cmd_Wait) tr)"

text \<open>
  The surroundings of a container in which \<^verbatim>\<open>/bin/sh\<close> ends with status 3 and every
  other call succeeds.
\<close>

definition shell_exits_3 :: os where
  "shell_exits_3 =
     idle\<lparr>kernel := (\<lambda>tr c. case c of
                cmd_Run name args dir \<Rightarrow> if name = ''/bin/sh'' then Some (ExitError 3) else None
              | _ \<Rightarrow> None)\<rparr>"

section \<open>Facts about the string functions\<close>

lemma Split_nonempty: "Split c s \<noteq> []"
  by (induction s) auto

lemma Split_no_sep: "c \<notin> set a \<Longrightarrow> Split c a = [a]"
  by (induction a) auto

lemma Split_append_sep: "c \<notin> set a \<Longrightarrow> Split c (a @ c # r) = a # Split c r"
  by (induction a) auto

lemma length_Split: "length (Split c s) = Suc (count_list s c)"
  by (induction s) (auto simp: Split_nonempty)

lemma drop_to_last: "s \<noteq> [] \<Longrightarrow> drop (length s - Suc 0) s = [last s]"
  by (cases s rule: rev_cases) auto

lemma take_to_last: "take (length s - Suc 0) s = butlast s"
  by (simp add: butlast_conv_take)

lemma decimal_append: "decimal (u @ v) = foldl (\<lambda>n ch. n * 10 + digit_of ch) (decimal u) v"
  by (simp add: decimal_def)

section \<open>ParseMemorySize\<close>

lemma ParseMemorySize_returns:
  "ParseMemorySize s =
     Inr (if s = [] then []
          else if last s = CHR ''K'' \<or> last s = CHR ''k'' then butlast s @ ''000''
          else if last s = CHR ''M'' \<or> last s = CHR ''m'' then butlast s @ ''000000''
          else if last s = CHR ''G'' \<or> last s = CHR ''g'' then butlast s @ ''000000000''
          else s, None)"
proof (cases "s = []")
  case True
  then show ?thesis by (simp add: ParseMemorySize_def)
next
  case False
  then have n: "nat (int (length s) - 1) = length s - Suc 0" "0 \<le> int (length s) - 1"
    by (auto simp: Suc_le_eq)
  show ?thesis using False
    by (simp add: ParseMemorySize_def slice_from_def slice_to_def n drop_to_last take_to_last)
qed

lemma ParseMemorySize_suffix:
  "c \<in> {CHR ''K'', CHR ''k'', CHR ''M'', CHR ''m'', CHR ''G'', CHR ''g''} \<Longrightarrow>
   ParseMemorySize (v @ [c]) =
     Inr (v @ (if c = CHR ''K'' \<or> c = CHR ''k'' then ''000''
               else if c = CHR ''M'' \<or> c = CHR ''m'' then ''000000'' else ''000000000''), None)"
  by (auto simp: ParseMemorySize_returns)

text \<open>
  C8. The five conversions of the specification hold as written, and in general a
  value followed by K or k, M or m, G or g is returned with three, six or nine zeros
  appended, which multiplies the decimal number it denotes by \<open>10\<^sup>3\<close>, \<open>10\<^sup>6\<close>,
  \<open>10\<^sup>9\<close> (decimal, not binary, multipliers).
\<close>

theorem ParseMemorySize_decimal_multipliers:
  "ParseMemorySize ''10K'' = Inr (''10000'', None)
   \<and> ParseMemorySize ''2M'' = Inr (''2000000'', None)
   \<and> ParseMemorySize ''3G'' = Inr (''3000000000'', None)
   \<and> ParseMemorySize ''500'' = Inr (''500'', None)
   \<and> ParseMemorySize '''' = Inr ('''', None)
   \<and> (\<forall>v. ParseMemorySize (v @ ''K'') = Inr (v @ ''000'', None)
          \<and> ParseMemorySize (v @ ''k'') = Inr (v @ ''000'', None)
          \<and> ParseMemorySize (v @ ''M'') = Inr (v @ ''000000'', None)
          \<and> ParseMemorySize (v @ ''m'') = Inr (v @ ''000000'', None)
          \<and> ParseMemorySize (v @ ''G'') = Inr (v @ ''000000000'', None)
          \<and> ParseMemorySize (v @ ''g'') = Inr (v @ ''000000000'', None))
   \<and> (\<forall>v. decimal (v @ ''000'') = decimal v * 10 ^ 3
          \<and> decimal (v @ ''000000'') = decimal v * 10 ^ 6
          \<and> decimal (v @ ''000000000'') = decimal v * 10 ^ 9)"
proof -
  have ex: "ParseMemorySize ''10K'' = Inr (''10000'', None)"
    "ParseMemorySize ''2M'' = Inr (''2000000'', None)"
    "ParseMemorySize ''3G'' = Inr (''3000000000'', None)"
    "ParseMemorySize ''500'' = Inr (''500'', None)"
    "ParseMemorySize '''' = Inr ('''', None)"
    by (simp_all add: ParseMemorySize_returns)
  have suf: "ParseMemorySize (v @ ''K'') = Inr (v @ ''000'', None)
          \<and> ParseMemorySize (v @ ''k'') = Inr (v @ ''000'', None)
          \<and> ParseMemorySize (v @ ''M'') = Inr (v @ ''000000'', None)
          \<and> ParseMemorySize (v @ ''m'') = Inr (v @ ''000000'', None)
          \<and> ParseMemorySize (v @ ''G'') = Inr (v @ ''000000000'', None)
          \<and> ParseMemorySize (v @ ''g'') = Inr (v @ ''000000000'', None)" for v
    by (simp add: ParseMemorySize_suffix)
  have dec: "decimal (v @ ''000'') = decimal v * 10 ^ 3
          \<and> decimal (v @ ''000000'') = decimal v * 10 ^ 6
          \<and> decimal (v @ ''000000000'') = decimal v * 10 ^ 9" for v
    by (simp add: decimal_append digit_of_def)
  from ex suf dec show ?thesis by blast
qed

text \<open>
  C9. \<^const>\<open>ParseMemorySize\<close> returns on every input (neither slice expression can
  panic, the empty string being returned first) and the error it returns is always
  \<^verbatim>\<open>nil\<close>. The part before the suffix is copied, never read as a number:
  \<^verbatim>\<open>"abcG"\<close> becomes \<^verbatim>\<open>"abc000000000"\<close>.
\<close>

theorem ParseMemorySize_never_fails:
  "ParseMemorySize s =
     Inr (if s = [] then []
          else if last s = CHR ''K'' \<or> last s = CHR ''k'' then butlast s @ ''000''
          else if last s = CHR ''M'' \<or> last s = CHR ''m'' then butlast s @ ''000000''
          else if last s = CHR ''G'' \<or> last s = CHR ''g'' then butlast s @ ''000000000''
          else s, None)
   \<and> ParseMemorySize ''abcG'' = Inr (''abc000000000'', None)"
  by (simp add: ParseMemorySize_returns)

section \<open>parseMount\<close>

lemma parseMount_two_parts:
  "CHR '':'' \<notin> set a \<Longrightarrow> CHR '':'' \<notin> set b \<Longrightarrow>
   parseMount (a @ '':'' @ b) = Inr \<lparr>Source = a, Destination = b, ReadOnly = False\<rparr>"
  by (simp add: parseMount_def Split_append_sep Split_no_sep)

lemma parseMount_three_parts:
  "CHR '':'' \<notin> set a \<Longrightarrow> CHR '':'' \<notin> set b \<Longrightarrow> CHR '':'' \<notin> set c \<Longrightarrow>
   parseMount (a @ '':'' @ b @ '':'' @ c) =
     Inr \<lparr>Source = a, Destination = b, ReadOnly = (c = ''ro'')\<rparr>"
  by (simp add: parseMount_def Split_append_sep Split_no_sep)

lemma parseMount_error_iff:
  "parseMount s = Inl MountFormat \<longleftrightarrow> count_list s CHR '':'' \<notin> {1, 2}"
  by (auto simp: parseMount_def length_Split Let_def)

text \<open>
  C3. The two accepted forms parse as the claim says and a string with no colon or
  with three or more colons is rejected, but a third part is never checked: a string
  with two colons whose third part is not \<^verbatim>\<open>ro\<close> is accepted as a read-write mount.
  At \<^verbatim>\<open>"a:b:rw"\<close> the source returns the mount and a \<^verbatim>\<open>nil\<close> error.
\<close>

theorem parseMount_third_part_unchecked:
  "parseMount ''a:b:rw'' = Inr \<lparr>Source = ''a'', Destination = ''b'', ReadOnly = False\<rparr>"
  by (simp add: parseMount_def)

section \<open>Decimal numbers\<close>

lemma digit_char_in: "d < 10 \<Longrightarrow> digit_char d \<in> set ''0123456789''"
  unfolding digit_char_def by (rule nth_mem) simp

lemma lt10_cases: "(d::nat) < 10 \<Longrightarrow> d = 0 \<or> d = 1 \<or> d = 2 \<or> d = 3 \<or> d = 4 \<or> d = 5 \<or> d = 6 \<or> d = 7 \<or> d = 8 \<or> d = 9"
  by arith

lemma digit_of_digit_char: "d < 10 \<Longrightarrow> digit_of (digit_char d) = d"
  by (drule lt10_cases) (auto simp: digit_of_def digit_char_def)

lemma is_digit_digit_char: "d < 10 \<Longrightarrow> is_digit (digit_char d)"
  by (drule lt10_cases) (auto simp: is_digit_def digit_char_def)

lemma set_digits: "set (digits n) \<subseteq> set ''0123456789''"
proof (induction n rule: digits.induct)
  case (1 n)
  show ?case
  proof (cases "n < 10")
    case True
    then show ?thesis using digit_char_in [of n] by (subst digits.simps) simp
  next
    case False
    have "n mod 10 < 10" by simp
    from digit_char_in [OF this] 1 [OF False] False show ?thesis
      by (subst digits.simps) simp
  qed
qed

lemma digits_nonempty: "digits n \<noteq> []"
  by (subst digits.simps) simp

lemma decimal_digits: "decimal (digits n) = n"
proof (induction n rule: digits.induct)
  case (1 n)
  show ?case
  proof (cases "n < 10")
    case True
    then show ?thesis by (subst digits.simps) (simp add: decimal_def digit_of_digit_char)
  next
    case False
    have "decimal (digits n) = decimal (digits (n div 10)) * 10 + digit_of (digit_char (n mod 10))"
      using False by (subst digits.simps) (simp add: decimal_def)
    also have "\<dots> = n div 10 * 10 + n mod 10"
      using 1 [OF False] by (simp add: digit_of_digit_char)
    finally show ?thesis by simp
  qed
qed

lemma digits_inj: "digits m = digits n \<longleftrightarrow> m = n"
  by (metis decimal_digits)

lemma all_digits: "list_all is_digit (digits n)"
proof (induction n rule: digits.induct)
  case (1 n)
  show ?case
  proof (cases "n < 10")
    case True
    then show ?thesis by (subst digits.simps) (simp add: is_digit_digit_char)
  next
    case False
    then show ?thesis using 1 [OF False] by (subst digits.simps) (simp add: is_digit_digit_char)
  qed
qed

lemma hd_digits: "hd (digits n) \<in> set ''0123456789''"
  using set_digits [of n] digits_nonempty [of n] by (cases "digits n") auto

lemma Atoi_digits: "n < 2 ^ 63 \<Longrightarrow> Atoi (digits n) = Some (int n)"
proof -
  assume n: "n < 2 ^ 63"
  have h: "hd (digits n) \<noteq> CHR ''-''" "hd (digits n) \<noteq> CHR ''+''"
    using hd_digits [of n] by auto
  have "int n < 2 ^ 63" using n by (simp flip: of_nat_less_iff)
  then show ?thesis
    using h by (simp add: Atoi_def digits_nonempty all_digits decimal_digits)
qed

section \<open>The environment bridge\<close>

lemma env_key_entry: "CHR ''='' \<notin> set k \<Longrightarrow> env_key (env_entry k v) = k"
  by (auto simp: env_key_def env_entry_def takeWhile_tail)

lemma env_val_entry: "CHR ''='' \<notin> set k \<Longrightarrow> env_val (env_entry k v) = v"
  by (simp add: env_val_def env_key_entry) (simp add: env_entry_def)

lemma env_entry_has_eq: "CHR ''='' \<in> set (env_entry k v)"
  by (simp add: env_entry_def)

lemma Getenv_Nil: "Getenv [] key = ''''"
  by (simp add: Getenv_def)

lemma Getenv_append:
  "Getenv (a @ b) key =
     (if \<exists>e\<in>set b. CHR ''='' \<in> set e \<and> env_key e = key then Getenv b key else Getenv a key)"
  by (auto simp: Getenv_def filter_empty_conv)

lemma Getenv_append_other:
  "(\<And>e. e \<in> set es \<Longrightarrow> env_key e \<noteq> key) \<Longrightarrow> Getenv (env @ es) key = Getenv env key"
  by (simp add: Getenv_append)

lemma Getenv_Cons:
  "Getenv (e # es) key =
     (if \<exists>x\<in>set es. CHR ''='' \<in> set x \<and> env_key x = key then Getenv es key
      else if CHR ''='' \<in> set e \<and> env_key e = key then env_val e else [])"
  by (auto simp: Getenv_def filter_empty_conv)

lemma Getenv_snoc_entry:
  "CHR ''='' \<notin> set k \<Longrightarrow>
   Getenv (env @ [env_entry k v]) key = (if k = key then v else Getenv env key)"
  by (auto simp: Getenv_append Getenv_Cons env_key_entry env_val_entry env_entry_has_eq)

lemma Getenv_absent:
  "(\<And>e. e \<in> set env \<Longrightarrow> CHR ''='' \<in> set e \<Longrightarrow> env_key e \<noteq> key) \<Longrightarrow> Getenv env key = ''''"
proof -
  assume a: "\<And>e. e \<in> set env \<Longrightarrow> CHR ''='' \<in> set e \<Longrightarrow> env_key e \<noteq> key"
  then have "filter (\<lambda>e. CHR ''='' \<in> set e \<and> env_key e = key) env = []"
    by (auto simp: filter_empty_conv)
  then show ?thesis by (simp add: Getenv_def)
qed

lemma Itoa_nat: "Itoa (int n) = digits n"
  by (simp add: Itoa_def)

lemma no_underscore_digits: "CHR ''_'' \<notin> set (digits n)"
  using set_digits [of n] by auto

lemma no_eq_digits: "CHR ''='' \<notin> set (digits n)"
  using set_digits [of n] by auto

lemma sep_append_eq:
  "c \<notin> set a \<Longrightarrow> c \<notin> set b \<Longrightarrow> a @ c # x = b @ c # y \<longleftrightarrow> a = b \<and> x = y"
proof (induction a arbitrary: b)
  case Nil
  then show ?case by (cases b) auto
next
  case (Cons h a)
  then show ?case by (cases b) auto
qed

lemma mount_var_eq:
  "mount_var f (int i) = mount_var g (int j) \<longleftrightarrow> i = j \<and> f = g"
  using sep_append_eq [OF no_underscore_digits no_underscore_digits, of i f j g]
  by (auto simp: mount_var_def Itoa_nat digits_inj)

lemma mount_var_no_eq: "CHR ''='' \<notin> set f \<Longrightarrow> CHR ''='' \<notin> set (mount_var f (int i))"
  by (simp add: mount_var_def Itoa_nat no_eq_digits)

lemma digits_Cons: "\<exists>d r. digits n = d # r \<and> d \<in> set ''0123456789''"
  using hd_digits [of n] digits_nonempty [of n] by (cases "digits n") auto

lemma mount_var_not_scalar:
  "mount_var f (int i) \<noteq> ''CONTAINER_HOSTNAME''"
  "mount_var f (int i) \<noteq> ''CONTAINER_ROOTFS''"
  "mount_var f (int i) \<noteq> ''CONTAINER_NETWORK_CIDR''"
  "mount_var f (int i) \<noteq> ''CONTAINER_HOST_IP''"
  "mount_var f (int i) \<noteq> ''CONTAINER_CONTAINER_IP''"
  "mount_var f (int i) \<noteq> ''CONTAINER_MOUNT_COUNT''"
  using digits_Cons [of i] by (auto simp: mount_var_def Itoa_nat)

lemma mount_entries_keys:
  "e \<in> set (mount_entries i ms) \<Longrightarrow>
   \<exists>j f. i \<le> j \<and> env_key e = mount_var f (int j)"
proof (induction ms arbitrary: i)
  case Nil
  then show ?case by simp
next
  case (Cons m ms)
  from Cons.prems consider
      "e = env_entry (mount_var ''SOURCE'' (int i)) (Source m)"
    | "e = env_entry (mount_var ''DEST'' (int i)) (Destination m)"
    | "e = env_entry (mount_var ''READONLY'' (int i)) (if ReadOnly m then ''true'' else ''false'')"
    | "e \<in> set (mount_entries (Suc i) ms)"
    by auto
  then show ?case
  proof cases
    case 1
    then have "env_key e = mount_var ''SOURCE'' (int i)"
      by (simp add: env_key_entry mount_var_no_eq)
    then show ?thesis by blast
  next
    case 2
    then have "env_key e = mount_var ''DEST'' (int i)"
      by (simp add: env_key_entry mount_var_no_eq)
    then show ?thesis by blast
  next
    case 3
    then have "env_key e = mount_var ''READONLY'' (int i)"
      by (simp add: env_key_entry mount_var_no_eq)
    then show ?thesis by blast
  next
    case 4
    from Cons.IH [OF this] obtain j f where "Suc i \<le> j" "env_key e = mount_var f (int j)"
      by blast
    then have "i \<le> j" by simp
    with \<open>env_key e = mount_var f (int j)\<close> show ?thesis by blast
  qed
qed

lemma mount_entries_later:
  "e \<in> set (mount_entries (Suc i) ms) \<Longrightarrow> env_key e \<noteq> mount_var f (int i)"
  using mount_entries_keys [of e "Suc i" ms] by (auto simp: mount_var_eq)

lemma Getenv_mount_entries:
  "j < length ms \<Longrightarrow>
   mount_of_env (env @ mount_entries i ms) (i + j) = ms ! j"
proof (induction ms arbitrary: i j env)
  case Nil
  then show ?case by simp
next
  case (Cons m ms)
  let ?s = "env_entry (mount_var ''SOURCE'' (int i)) (Source m)"
  let ?d = "env_entry (mount_var ''DEST'' (int i)) (Destination m)"
  let ?r = "env_entry (mount_var ''READONLY'' (int i)) (if ReadOnly m then ''true'' else ''false'')"
  let ?three = "((env @ [?s]) @ [?d]) @ [?r]"
  have split: "env @ mount_entries i (m # ms) = ?three @ mount_entries (Suc i) ms"
    by simp
  show ?case
  proof (cases j)
    case 0
    have later: "Getenv (?three @ mount_entries (Suc i) ms) (mount_var f (int i))
        = Getenv ?three (mount_var f (int i))" for f
      by (rule Getenv_append_other) (rule mount_entries_later)
    have three: "Getenv ?three (mount_var ''SOURCE'' (int i)) = Source m"
      "Getenv ?three (mount_var ''DEST'' (int i)) = Destination m"
      "Getenv ?three (mount_var ''READONLY'' (int i)) = (if ReadOnly m then ''true'' else ''false'')"
      by (simp_all add: Getenv_append Getenv_Cons env_key_entry env_val_entry env_entry_has_eq
          mount_var_no_eq mount_var_eq)
    have "mount_of_env (?three @ mount_entries (Suc i) ms) i = m"
      unfolding mount_of_env_def later three by simp
    then show ?thesis
      unfolding split using 0 by simp
  next
    case (Suc j')
    then have "j' < length ms" using Cons.prems by simp
    from Cons.IH [OF this, of ?three "Suc i"]
    have "mount_of_env (?three @ mount_entries (Suc i) ms) (Suc i + j') = ms ! j'" .
    then show ?thesis
      unfolding split using Suc by simp
  qed
qed

lemma mounts_of_env_map: "mounts_of_env env n = map (mount_of_env env) [0..<n]"
  by (induction n) simp_all

lemma digits_0: "digits 0 = ''0''"
  by (subst digits.simps) (simp add: digit_char_def)

lemma Atoi_0: "Atoi ''0'' = Some 0"
  by (simp add: Atoi_def is_digit_def decimal_def digit_of_def)

lemma parsePID_digits:
  "0 < n \<Longrightarrow> n < 2 ^ 63 \<Longrightarrow> parsePID (digits n) = Inr (int n)"
  by (simp add: parsePID_def Atoi_digits)

lemma env_count:
  "Getenv (RunContainer_env environ c) ''CONTAINER_MOUNT_COUNT'' = digits (length (Mounts c))"
proof -
  have "Getenv ((environ
     @ [env_entry ''CONTAINER_HOSTNAME'' (Hostname c),
        env_entry ''CONTAINER_ROOTFS'' (RootFS c),
        env_entry ''CONTAINER_NETWORK_CIDR'' (NetworkCIDR c),
        env_entry ''CONTAINER_HOST_IP'' (HostIP c),
        env_entry ''CONTAINER_CONTAINER_IP'' (ContainerIP c)]
     @ mount_entries 0 (Mounts c)) @ [env_entry ''CONTAINER_MOUNT_COUNT'' (digits (length (Mounts c)))])
     ''CONTAINER_MOUNT_COUNT'' = digits (length (Mounts c))"
    by (subst Getenv_snoc_entry) simp_all
  then show ?thesis
    by (simp add: RunContainer_env_def Itoa_nat)
qed

lemma tail_not_scalar:
  assumes "e \<in> set (mount_entries i ms @ [env_entry ''CONTAINER_MOUNT_COUNT'' v])"
  shows "env_key e \<noteq> ''CONTAINER_HOSTNAME''" "env_key e \<noteq> ''CONTAINER_ROOTFS''"
    "env_key e \<noteq> ''CONTAINER_NETWORK_CIDR''" "env_key e \<noteq> ''CONTAINER_HOST_IP''"
    "env_key e \<noteq> ''CONTAINER_CONTAINER_IP''"
proof -
  from assms consider "e \<in> set (mount_entries i ms)" | "e = env_entry ''CONTAINER_MOUNT_COUNT'' v"
    by auto
  then have "(\<exists>j f. env_key e = mount_var f (int j)) \<or> env_key e = ''CONTAINER_MOUNT_COUNT''"
  proof cases
    case 1
    from mount_entries_keys [OF this] show ?thesis by blast
  next
    case 2
    then show ?thesis by (simp add: env_key_entry)
  qed
  then show "env_key e \<noteq> ''CONTAINER_HOSTNAME''" "env_key e \<noteq> ''CONTAINER_ROOTFS''"
    "env_key e \<noteq> ''CONTAINER_NETWORK_CIDR''" "env_key e \<noteq> ''CONTAINER_HOST_IP''"
    "env_key e \<noteq> ''CONTAINER_CONTAINER_IP''"
    using mount_var_not_scalar by auto
qed

lemma env_scalars:
  "Getenv (RunContainer_env environ c) ''CONTAINER_HOSTNAME'' = Hostname c"
  "Getenv (RunContainer_env environ c) ''CONTAINER_ROOTFS'' = RootFS c"
  "Getenv (RunContainer_env environ c) ''CONTAINER_NETWORK_CIDR'' = NetworkCIDR c"
  "Getenv (RunContainer_env environ c) ''CONTAINER_HOST_IP'' = HostIP c"
  "Getenv (RunContainer_env environ c) ''CONTAINER_CONTAINER_IP'' = ContainerIP c"
proof -
  let ?scalars = "[env_entry ''CONTAINER_HOSTNAME'' (Hostname c),
        env_entry ''CONTAINER_ROOTFS'' (RootFS c),
        env_entry ''CONTAINER_NETWORK_CIDR'' (NetworkCIDR c),
        env_entry ''CONTAINER_HOST_IP'' (HostIP c),
        env_entry ''CONTAINER_CONTAINER_IP'' (ContainerIP c)]"
  let ?tail = "mount_entries 0 (Mounts c) @ [env_entry ''CONTAINER_MOUNT_COUNT'' (digits (length (Mounts c)))]"
  have shape: "RunContainer_env environ c = (environ @ ?scalars) @ ?tail"
    by (simp add: RunContainer_env_def Itoa_nat)
  have head: "Getenv (environ @ ?scalars) ''CONTAINER_HOSTNAME'' = Hostname c"
    "Getenv (environ @ ?scalars) ''CONTAINER_ROOTFS'' = RootFS c"
    "Getenv (environ @ ?scalars) ''CONTAINER_NETWORK_CIDR'' = NetworkCIDR c"
    "Getenv (environ @ ?scalars) ''CONTAINER_HOST_IP'' = HostIP c"
    "Getenv (environ @ ?scalars) ''CONTAINER_CONTAINER_IP'' = ContainerIP c"
    by (simp_all add: Getenv_append Getenv_Cons env_key_entry env_val_entry env_entry_has_eq)
  show "Getenv (RunContainer_env environ c) ''CONTAINER_HOSTNAME'' = Hostname c"
    unfolding shape by (subst Getenv_append_other) (simp_all only: tail_not_scalar head not_False_eq_True)
  show "Getenv (RunContainer_env environ c) ''CONTAINER_ROOTFS'' = RootFS c"
    unfolding shape by (subst Getenv_append_other) (simp_all only: tail_not_scalar head not_False_eq_True)
  show "Getenv (RunContainer_env environ c) ''CONTAINER_NETWORK_CIDR'' = NetworkCIDR c"
    unfolding shape by (subst Getenv_append_other) (simp_all only: tail_not_scalar head not_False_eq_True)
  show "Getenv (RunContainer_env environ c) ''CONTAINER_HOST_IP'' = HostIP c"
    unfolding shape by (subst Getenv_append_other) (simp_all only: tail_not_scalar head not_False_eq_True)
  show "Getenv (RunContainer_env environ c) ''CONTAINER_CONTAINER_IP'' = ContainerIP c"
    unfolding shape by (subst Getenv_append_other) (simp_all only: tail_not_scalar head not_False_eq_True)
qed

lemma env_mounts:
  assumes "j < length (Mounts c)"
  shows "mount_of_env (RunContainer_env environ c) j = Mounts c ! j"
proof -
  let ?scalars = "[env_entry ''CONTAINER_HOSTNAME'' (Hostname c),
        env_entry ''CONTAINER_ROOTFS'' (RootFS c),
        env_entry ''CONTAINER_NETWORK_CIDR'' (NetworkCIDR c),
        env_entry ''CONTAINER_HOST_IP'' (HostIP c),
        env_entry ''CONTAINER_CONTAINER_IP'' (ContainerIP c)]"
  let ?count = "env_entry ''CONTAINER_MOUNT_COUNT'' (digits (length (Mounts c)))"
  let ?body = "(environ @ ?scalars) @ mount_entries 0 (Mounts c)"
  have shape: "RunContainer_env environ c = ?body @ [?count]"
    by (simp add: RunContainer_env_def Itoa_nat)
  have count: "Getenv (?body @ [?count]) (mount_var f (int j)) = Getenv ?body (mount_var f (int j))" for f
    by (subst Getenv_snoc_entry) (simp_all add: mount_var_not_scalar [symmetric])
  have "mount_of_env (?body @ [?count]) j = mount_of_env ?body j"
    unfolding mount_of_env_def count ..
  also have "\<dots> = Mounts c ! j"
    using Getenv_mount_entries [OF assms, of "environ @ ?scalars" 0] by simp
  finally show ?thesis unfolding shape .
qed

lemma env_mounts_all:
  "mounts_of_env (RunContainer_env environ c) (length (Mounts c)) = Mounts c"
  by (rule nth_equalityI) (simp_all add: mounts_of_env_map env_mounts)

lemma RunContainer_env_round_trip:
  assumes "Mounts c \<noteq> []" "length (Mounts c) < 2 ^ 63"
  shows "configFromEnv (RunContainer_env environ c) = Inr (c\<lparr>Command := []\<rparr>)"
proof -
  have ne: "digits (length (Mounts c)) \<noteq> []" by (rule digits_nonempty)
  have "0 < length (Mounts c)" using assms(1) by simp
  then have pid: "parsePID (digits (length (Mounts c))) = Inr (int (length (Mounts c)))"
    using assms(2) by (rule parsePID_digits)
  have "configFromEnv (RunContainer_env environ c) =
      Inr \<lparr>Hostname = Hostname c, RootFS = RootFS c, Mounts = Mounts c,
           NetworkCIDR = NetworkCIDR c, HostIP = HostIP c, ContainerIP = ContainerIP c,
           Command = []\<rparr>"
    unfolding configFromEnv_def env_count env_scalars Let_def
    by (simp add: ne pid env_mounts_all)
  also have "\<dots> = Inr (c\<lparr>Command := []\<rparr>)"
    by (cases c) simp
  finally show ?thesis .
qed

lemma configFromEnv_rejects_zero_mounts:
  assumes "Mounts c = []"
  shows "configFromEnv (RunContainer_env environ c) = Inl (InvalidMountCount (PIDMustBePositive 0))"
  using assms by (simp add: configFromEnv_def env_count digits_0 parsePID_def Atoi_0)

lemma Atoi_empty: "Atoi [] = None"
  by (simp add: Atoi_def)

text \<open>
  C10. \<^const>\<open>configFromEnv\<close> validates nothing but the mount count. When
  \<^verbatim>\<open>CONTAINER_MOUNT_COUNT\<close> is absent (or empty) it returns a configuration with no
  mounts; when it parses as a positive integer \<open>n\<close> it returns \<open>n\<close> mounts, read for
  the indices \<open>0\<close> to \<open>n - 1\<close> in this order, whatever the other variables hold. Each
  field is whatever \<^const>\<open>Getenv\<close> returns, which is the empty string for a variable
  that is not set, and a mount is read-only exactly when its \<^verbatim>\<open>READONLY\<close> variable is
  the literal \<^verbatim>\<open>true\<close>.
\<close>

theorem configFromEnv_no_validation:
  "(Getenv env ''CONTAINER_MOUNT_COUNT'' = '''' \<longrightarrow>
      configFromEnv env =
        Inr \<lparr>Hostname = Getenv env ''CONTAINER_HOSTNAME'',
             RootFS = Getenv env ''CONTAINER_ROOTFS'',
             Mounts = [],
             NetworkCIDR = Getenv env ''CONTAINER_NETWORK_CIDR'',
             HostIP = Getenv env ''CONTAINER_HOST_IP'',
             ContainerIP = Getenv env ''CONTAINER_CONTAINER_IP'',
             Command = []\<rparr>)
   \<and> (\<forall>n. Atoi (Getenv env ''CONTAINER_MOUNT_COUNT'') = Some n \<and> 0 < n \<longrightarrow>
      configFromEnv env =
        Inr \<lparr>Hostname = Getenv env ''CONTAINER_HOSTNAME'',
             RootFS = Getenv env ''CONTAINER_ROOTFS'',
             Mounts =
               map (\<lambda>i. \<lparr>Source = Getenv env (mount_var ''SOURCE'' (int i)),
                          Destination = Getenv env (mount_var ''DEST'' (int i)),
                          ReadOnly = (Getenv env (mount_var ''READONLY'' (int i)) = ''true'')\<rparr>)
                 [0..<nat n],
             NetworkCIDR = Getenv env ''CONTAINER_NETWORK_CIDR'',
             HostIP = Getenv env ''CONTAINER_HOST_IP'',
             ContainerIP = Getenv env ''CONTAINER_CONTAINER_IP'',
             Command = []\<rparr>)
   \<and> (\<forall>key. (\<forall>e\<in>set env. CHR ''='' \<in> set e \<longrightarrow> env_key e \<noteq> key) \<longrightarrow> Getenv env key = '''')"
proof (intro conjI allI impI)
  assume "Getenv env ''CONTAINER_MOUNT_COUNT'' = ''''"
  then show "configFromEnv env =
        Inr \<lparr>Hostname = Getenv env ''CONTAINER_HOSTNAME'',
             RootFS = Getenv env ''CONTAINER_ROOTFS'',
             Mounts = [],
             NetworkCIDR = Getenv env ''CONTAINER_NETWORK_CIDR'',
             HostIP = Getenv env ''CONTAINER_HOST_IP'',
             ContainerIP = Getenv env ''CONTAINER_CONTAINER_IP'',
             Command = []\<rparr>"
    by (simp add: configFromEnv_def)
next
  fix n
  assume a: "Atoi (Getenv env ''CONTAINER_MOUNT_COUNT'') = Some n \<and> 0 < n"
  then have "Getenv env ''CONTAINER_MOUNT_COUNT'' \<noteq> ''''"
    using Atoi_empty by auto
  moreover have "parsePID (Getenv env ''CONTAINER_MOUNT_COUNT'') = Inr n"
    using a by (simp add: parsePID_def)
  ultimately show "configFromEnv env =
        Inr \<lparr>Hostname = Getenv env ''CONTAINER_HOSTNAME'',
             RootFS = Getenv env ''CONTAINER_ROOTFS'',
             Mounts =
               map (\<lambda>i. \<lparr>Source = Getenv env (mount_var ''SOURCE'' (int i)),
                          Destination = Getenv env (mount_var ''DEST'' (int i)),
                          ReadOnly = (Getenv env (mount_var ''READONLY'' (int i)) = ''true'')\<rparr>)
                 [0..<nat n],
             NetworkCIDR = Getenv env ''CONTAINER_NETWORK_CIDR'',
             HostIP = Getenv env ''CONTAINER_HOST_IP'',
             ContainerIP = Getenv env ''CONTAINER_CONTAINER_IP'',
             Command = []\<rparr>"
    by (simp add: configFromEnv_def mounts_of_env_map mount_of_env_def)
next
  fix key
  assume "\<forall>e\<in>set env. CHR ''='' \<in> set e \<longrightarrow> env_key e \<noteq> key"
  then show "Getenv env key = ''''"
    by (intro Getenv_absent) blast
qed

lemma Itoa_small: "Itoa 0 = ''0''" "Itoa 1 = ''1''"
  by (simp_all add: Itoa_def digits.simps digit_char_def)

text \<open>
  The theorem at two environments: one without the count, and one with a count of 2
  where only the source of mount 0 and a read-only value other than \<^verbatim>\<open>true\<close> for mount
  1 are set.
\<close>

theorem configFromEnv_no_validation_witness:
  "Getenv [''CONTAINER_HOSTNAME=box'', ''PATH=/bin''] ''CONTAINER_MOUNT_COUNT'' = ''''
   \<and> configFromEnv [''CONTAINER_HOSTNAME=box'', ''PATH=/bin''] =
        Inr \<lparr>Hostname = ''box'', RootFS = '''', Mounts = [], NetworkCIDR = '''',
             HostIP = '''', ContainerIP = '''', Command = []\<rparr>
   \<and> Atoi (Getenv [''CONTAINER_MOUNT_COUNT=2'', ''CONTAINER_MOUNT_0_SOURCE=/a'',
                    ''CONTAINER_MOUNT_1_READONLY=yes''] ''CONTAINER_MOUNT_COUNT'') = Some 2
   \<and> configFromEnv [''CONTAINER_MOUNT_COUNT=2'', ''CONTAINER_MOUNT_0_SOURCE=/a'',
                    ''CONTAINER_MOUNT_1_READONLY=yes''] =
        Inr \<lparr>Hostname = '''', RootFS = '''',
             Mounts = [\<lparr>Source = ''/a'', Destination = '''', ReadOnly = False\<rparr>,
                       \<lparr>Source = '''', Destination = '''', ReadOnly = False\<rparr>],
             NetworkCIDR = '''', HostIP = '''', ContainerIP = '''', Command = []\<rparr>
   \<and> Getenv [''CONTAINER_MOUNT_COUNT=2'', ''CONTAINER_MOUNT_0_SOURCE=/a'',
              ''CONTAINER_MOUNT_1_READONLY=yes''] ''CONTAINER_MOUNT_1_SOURCE'' = ''''"
proof -
  let ?e1 = "[''CONTAINER_HOSTNAME=box'', ''PATH=/bin'']"
  let ?e2 = "[''CONTAINER_MOUNT_COUNT=2'', ''CONTAINER_MOUNT_0_SOURCE=/a'',
              ''CONTAINER_MOUNT_1_READONLY=yes'']"
  have g1: "Getenv ?e1 ''CONTAINER_MOUNT_COUNT'' = ''''"
    by (simp add: Getenv_def env_key_def)
  have g2: "Atoi (Getenv ?e2 ''CONTAINER_MOUNT_COUNT'') = Some 2 \<and> (0::int) < 2"
    by (simp add: Getenv_def env_key_def env_val_def Atoi_def is_digit_def decimal_def digit_of_def)
  have g3: "\<forall>e\<in>set ?e2. CHR ''='' \<in> set e \<longrightarrow> env_key e \<noteq> ''CONTAINER_MOUNT_1_SOURCE''"
    by (simp add: env_key_def)
  from configFromEnv_no_validation [of ?e1] g1
  have c1: "configFromEnv ?e1 =
        Inr \<lparr>Hostname = ''box'', RootFS = '''', Mounts = [], NetworkCIDR = '''',
             HostIP = '''', ContainerIP = '''', Command = []\<rparr>"
    by (simp add: Getenv_def env_key_def env_val_def)
  have u: "[0..<2] = [0, Suc 0]" by code_simp
  from configFromEnv_no_validation [of ?e2] g2
  have c2: "configFromEnv ?e2 =
        Inr \<lparr>Hostname = '''', RootFS = '''',
             Mounts = [\<lparr>Source = ''/a'', Destination = '''', ReadOnly = False\<rparr>,
                       \<lparr>Source = '''', Destination = '''', ReadOnly = False\<rparr>],
             NetworkCIDR = '''', HostIP = '''', ContainerIP = '''', Command = []\<rparr>"
    by (simp add: u mount_var_def Itoa_small Getenv_def env_key_def env_val_def)
  from configFromEnv_no_validation [of ?e2] g3
  have c3: "Getenv ?e2 ''CONTAINER_MOUNT_1_SOURCE'' = ''''"
    by blast
  from g1 c1 g2 c2 c3 show ?thesis by blast
qed

text \<open>
  C1. The round trip holds for a configuration with at least one mount
  (\<open>RunContainer_env_round_trip\<close>: every field the environment carries comes back, the
  mounts in their order; the command travels in the argument vector and is left empty
  by \<^const>\<open>configFromEnv\<close>). It fails for a configuration with no mounts: the parent
  writes \<^verbatim>\<open>CONTAINER_MOUNT_COUNT=0\<close> (the variable is appended unconditionally, it is
  never left out), and the child hands the \<^verbatim>\<open>0\<close> to \<^const>\<open>parsePID\<close>, which rejects
  it, so no configuration is reconstructed. The default configuration with a command
  and no mounts is such an input.
\<close>

theorem zero_mount_config_not_reconstructed:
  "RunContainer_env [] (NewDefaultConfig\<lparr>Command := [''/bin/true'']\<rparr>) =
     [''CONTAINER_HOSTNAME=container'', ''CONTAINER_ROOTFS=./namespace_fs'',
      ''CONTAINER_NETWORK_CIDR=192.168.1.0/24'', ''CONTAINER_HOST_IP=192.168.1.1'',
      ''CONTAINER_CONTAINER_IP=192.168.1.2'', ''CONTAINER_MOUNT_COUNT=0'']
   \<and> configFromEnv (RunContainer_env [] (NewDefaultConfig\<lparr>Command := [''/bin/true'']\<rparr>)) =
     Inl (InvalidMountCount (PIDMustBePositive 0))"
proof -
  have "Mounts (NewDefaultConfig\<lparr>Command := [''/bin/true'']\<rparr>) = []"
    by (simp add: NewDefaultConfig_def)
  from configFromEnv_rejects_zero_mounts [OF this, of "[]"]
  show ?thesis
    by (simp add: RunContainer_env_def NewDefaultConfig_def env_entry_def Itoa_small)
qed

section \<open>ParseFlags\<close>

lemma find_commandStart_all_flags:
  "list_all (\<lambda>arg. HasPrefix arg ''-'') args \<Longrightarrow> find_commandStart i args = 0"
  by (induction args arbitrary: i) auto

lemma find_commandStart_found:
  "\<not> list_all (\<lambda>arg. HasPrefix arg ''-'') args \<Longrightarrow>
   find_commandStart i args = i + length (takeWhile (\<lambda>arg. HasPrefix arg ''-'') args)"
  by (induction args arbitrary: i) auto

lemma ParseFlags_without_command_start:
  "find_commandStart 0 args = 0 \<Longrightarrow> args \<noteq> [] \<Longrightarrow>
   ParseFlags Parse getwd args =
     Returns (Inr (NewDefaultConfig
       \<lparr>Mounts := (case getwd of
                      Some cwd \<Rightarrow> [\<lparr>Source = cwd, Destination = ''/app'', ReadOnly = False\<rparr>]
                    | None \<Rightarrow> []),
        Command := args\<rparr>))"
  by (simp add: ParseFlags_def ParseFlags_update_def NewDefaultConfig_def split: option.splits)

lemma ParseFlags_no_arguments:
  "ParseFlags Parse getwd [] = Returns (Inl NoCommandSpecified)"
  by (simp add: ParseFlags_def ParseFlags_update_def NewDefaultConfig_def split: option.splits)

lemma ParseFlags_after_flags:
  assumes "\<not> list_all (\<lambda>arg. HasPrefix arg ''-'') args"
    and "HasPrefix (hd args) ''-''"
    and "Parse \<lparr>hostnameFlag = ''container'', rootfsFlag = ''./namespace_fs'',
                   networkFlag = ''192.168.1.0/24'', hostIPFlag = ''192.168.1.1'',
                   containerIPFlag = ''192.168.1.2'', mountFlags = []\<rparr>
           (takeWhile (\<lambda>arg. HasPrefix arg ''-'') args) = Returns (None, flags)"
    and "ParseFlags Parse getwd args = Returns (Inr config)"
  shows "Command config = dropWhile (\<lambda>arg. HasPrefix arg ''-'') args"
proof -
  let ?n = "length (takeWhile (\<lambda>arg. HasPrefix arg ''-'') args)"
  have cs: "find_commandStart 0 args = ?n"
    using find_commandStart_found [OF assms(1), of 0] by simp
  have "?n \<noteq> 0" using assms(1,2) by (cases args) auto
  have tk: "take ?n args = takeWhile (\<lambda>arg. HasPrefix arg ''-'') args"
    by (metis append_eq_conv_conj takeWhile_dropWhile_id)
  have dr: "drop ?n args = dropWhile (\<lambda>arg. HasPrefix arg ''-'') args"
    by (metis append_eq_conv_conj takeWhile_dropWhile_id)
  from assms(4) show ?thesis
    using \<open>?n \<noteq> 0\<close> assms(3)
    by (auto simp: ParseFlags_def cs tk dr NewDefaultConfig_def ParseFlags_update_def Let_def
        split: sum.splits option.splits if_splits)
qed

text \<open>
  C2. When no argument lacks the leading \<^verbatim>\<open>-\<close>, the loop leaves \<^verbatim>\<open>commandStart\<close> at
  0, the value it also has when the first argument is the command. \<^verbatim>\<open>ParseFlags\<close> then
  takes all arguments as the command and parses no flag: with the single argument
  \<^verbatim>\<open>--hostname=web\<close> it succeeds, whatever the flag library would do, with the command
  \<^verbatim>\<open>["--hostname=web"]\<close> and the default hostname, although no token follows the
  flags (the \<^verbatim>\<open>no command specified\<close> error is reached for an empty argument vector
  only). Where a token without the leading \<^verbatim>\<open>-\<close> exists, the command is the suffix
  that starts there (\<open>ParseFlags_after_flags\<close>).
\<close>

theorem ParseFlags_only_flags_is_a_command:
  "ParseFlags Parse (Some cwd) [''--hostname=web''] =
     Returns (Inr \<lparr>Hostname = ''container'', RootFS = ''./namespace_fs'',
                   Mounts = [\<lparr>Source = cwd, Destination = ''/app'', ReadOnly = False\<rparr>],
                   NetworkCIDR = ''192.168.1.0/24'', HostIP = ''192.168.1.1'',
                   ContainerIP = ''192.168.1.2'', Command = [''--hostname=web'']\<rparr>)"
  by (simp add: ParseFlags_def ParseFlags_update_def NewDefaultConfig_def HasPrefix_def)

section \<open>The NAT rules\<close>

lemma CleanupNetwork_commands:
  assumes "ParseCIDR (NetworkCIDR config) = Some network"
  shows "snd (CleanupNetwork ParseCIDR String (recording Run) (s, []) config) =
      [[''-t'', ''nat'', ''-D'', ''POSTROUTING'', ''-s'', String network, ''-o'', ''eth0'',
        ''-j'', ''MASQUERADE''],
       [''-D'', ''FORWARD'', ''-s'', String network, ''-j'', ''ACCEPT''],
       [''-D'', ''FORWARD'', ''-d'', String network, ''-j'', ''ACCEPT'']]"
  using assms by (simp add: CleanupNetwork_def recording_def Let_def split: prod.splits)

lemma setupNAT_commands:
  assumes "ParseCIDR (NetworkCIDR config) = Some network"
    and "snd (setupNAT ParseCIDR String (recording Run) (s, []) config) = None"
  shows "snd (fst (setupNAT ParseCIDR String (recording Run) (s, []) config)) =
      [[''-t'', ''nat'', ''-A'', ''POSTROUTING'', ''-s'', String network, ''-o'', ''eth0'',
        ''-j'', ''MASQUERADE''],
       [''-A'', ''FORWARD'', ''-s'', String network, ''-j'', ''ACCEPT''],
       [''-A'', ''FORWARD'', ''-d'', String network, ''-j'', ''ACCEPT'']]"
  using assms
  by (auto simp: setupNAT_def recording_def Let_def split: prod.splits option.splits)

lemma setupNAT_commands_prefix:
  assumes "ParseCIDR (NetworkCIDR config) = Some network"
  shows "prefix (snd (fst (setupNAT ParseCIDR String (recording Run) (s, []) config)))
      [[''-t'', ''nat'', ''-A'', ''POSTROUTING'', ''-s'', String network, ''-o'', ''eth0'',
        ''-j'', ''MASQUERADE''],
       [''-A'', ''FORWARD'', ''-s'', String network, ''-j'', ''ACCEPT''],
       [''-A'', ''FORWARD'', ''-d'', String network, ''-j'', ''ACCEPT'']]"
  using assms
  by (auto simp: setupNAT_def recording_def Let_def split: prod.splits option.splits)

lemma setup_then_cleanup:
  assumes "ParseCIDR (NetworkCIDR config) = Some network"
    and "setupNAT ParseCIDR String iptables rs config = (rs', None)"
  shows "mset (CleanupNetwork ParseCIDR String iptables rs' config tc) = mset (rs tc)"
  using assms
  by (auto simp: setupNAT_def CleanupNetwork_def iptables_def Let_def)

lemma cleanup_missing:
  assumes "ParseCIDR (NetworkCIDR config) = Some network"
   and "[''-s'', String network, ''-o'', ''eth0'', ''-j'', ''MASQUERADE''] \<notin> set (rs (''nat'', ''POSTROUTING''))"
   and "[''-s'', String network, ''-j'', ''ACCEPT''] \<notin> set (rs (''filter'', ''FORWARD''))"
   and "[''-d'', String network, ''-j'', ''ACCEPT''] \<notin> set (rs (''filter'', ''FORWARD''))"
  shows "CleanupNetwork ParseCIDR String iptables rs config = rs"
  using assms
  by (auto simp: CleanupNetwork_def iptables_def Let_def)

lemma setup_then_cleanup_exact:
  assumes "ParseCIDR (NetworkCIDR config) = Some network"
    and "setupNAT ParseCIDR String iptables rs config = (rs', None)"
    and "[''-s'', String network, ''-o'', ''eth0'', ''-j'', ''MASQUERADE''] \<notin> set (rs (''nat'', ''POSTROUTING''))"
    and "[''-s'', String network, ''-j'', ''ACCEPT''] \<notin> set (rs (''filter'', ''FORWARD''))"
    and "[''-d'', String network, ''-j'', ''ACCEPT''] \<notin> set (rs (''filter'', ''FORWARD''))"
  shows "CleanupNetwork ParseCIDR String iptables rs' config = rs"
proof -
  let ?m = "[''-s'', String network, ''-o'', ''eth0'', ''-j'', ''MASQUERADE'']"
  let ?s = "[''-s'', String network, ''-j'', ''ACCEPT'']"
  let ?d = "[''-d'', String network, ''-j'', ''ACCEPT'']"
  from assms(1,2) have rs': "rs' = rs((''nat'', ''POSTROUTING'') := rs (''nat'', ''POSTROUTING'') @ [?m],
      (''filter'', ''FORWARD'') := rs (''filter'', ''FORWARD'') @ [?s, ?d])"
    by (auto simp: setupNAT_def iptables_def Let_def)
  have "CleanupNetwork ParseCIDR String iptables rs' config tc = rs tc" for tc
    unfolding rs' using assms(1,3,4,5)
    by (simp add: CleanupNetwork_def iptables_def Let_def remove1_append)
  then show ?thesis by (rule ext)
qed

text \<open>
  C5. For a configuration whose network CIDR parses, on any host: when \<^const>\<open>setupNAT\<close>
  succeeds it has run the three \<^verbatim>\<open>-A\<close> commands below (the masquerade rule in
  \<^verbatim>\<open>nat POSTROUTING\<close>, the source and the destination accept rule in \<^verbatim>\<open>FORWARD\<close>), and
  \<^const>\<open>CleanupNetwork\<close> always runs the same three commands with \<^verbatim>\<open>-D\<close> where
  \<^const>\<open>setupNAT\<close> has \<^verbatim>\<open>-A\<close>: the same table, chain and rule specification. On the
  rule lists of \<^const>\<open>iptables\<close>, cleanup after a successful setup leaves every chain
  with the rules it had before the setup, as a multiset; it gives back the rule lists
  exactly as they were when none of the three rules was there before the setup; and
  cleanup where the three rules are missing changes nothing. \<^const>\<open>CleanupNetwork\<close>
  has no error to return.
\<close>

theorem CleanupNetwork_deletes_the_rules_of_setupNAT:
  assumes "ParseCIDR (NetworkCIDR config) = Some network"
  shows
    "(snd (setupNAT ParseCIDR String (recording Run) (s, []) config) = None \<longrightarrow>
        snd (fst (setupNAT ParseCIDR String (recording Run) (s, []) config)) =
          [[''-t'', ''nat'', ''-A'', ''POSTROUTING'', ''-s'', String network, ''-o'', ''eth0'',
            ''-j'', ''MASQUERADE''],
           [''-A'', ''FORWARD'', ''-s'', String network, ''-j'', ''ACCEPT''],
           [''-A'', ''FORWARD'', ''-d'', String network, ''-j'', ''ACCEPT'']])
     \<and> snd (CleanupNetwork ParseCIDR String (recording Run) (s, []) config) =
          [[''-t'', ''nat'', ''-D'', ''POSTROUTING'', ''-s'', String network, ''-o'', ''eth0'',
            ''-j'', ''MASQUERADE''],
           [''-D'', ''FORWARD'', ''-s'', String network, ''-j'', ''ACCEPT''],
           [''-D'', ''FORWARD'', ''-d'', String network, ''-j'', ''ACCEPT'']]
     \<and> (snd (setupNAT ParseCIDR String (recording Run) (s, []) config) = None \<longrightarrow>
        snd (CleanupNetwork ParseCIDR String (recording Run) (s, []) config) =
          map2 (\<lambda>i cmd. cmd[i := ''-D'']) [2, 0, 0]
            (snd (fst (setupNAT ParseCIDR String (recording Run) (s, []) config))))
     \<and> (\<forall>rs rs' tc. setupNAT ParseCIDR String iptables rs config = (rs', None) \<longrightarrow>
          mset (CleanupNetwork ParseCIDR String iptables rs' config tc) = mset (rs tc))
     \<and> (\<forall>rs rs'. setupNAT ParseCIDR String iptables rs config = (rs', None)
             \<and> [''-s'', String network, ''-o'', ''eth0'', ''-j'', ''MASQUERADE'']
                  \<notin> set (rs (''nat'', ''POSTROUTING''))
             \<and> [''-s'', String network, ''-j'', ''ACCEPT''] \<notin> set (rs (''filter'', ''FORWARD''))
             \<and> [''-d'', String network, ''-j'', ''ACCEPT''] \<notin> set (rs (''filter'', ''FORWARD''))
           \<longrightarrow> CleanupNetwork ParseCIDR String iptables rs' config = rs)
     \<and> (\<forall>rs. [''-s'', String network, ''-o'', ''eth0'', ''-j'', ''MASQUERADE'']
                \<notin> set (rs (''nat'', ''POSTROUTING''))
             \<and> [''-s'', String network, ''-j'', ''ACCEPT''] \<notin> set (rs (''filter'', ''FORWARD''))
             \<and> [''-d'', String network, ''-j'', ''ACCEPT''] \<notin> set (rs (''filter'', ''FORWARD''))
           \<longrightarrow> CleanupNetwork ParseCIDR String iptables rs config = rs)"
proof (intro conjI allI impI)
  assume ok: "snd (setupNAT ParseCIDR String (recording Run) (s, []) config) = None"
  from setupNAT_commands [where ParseCIDR = ParseCIDR and config = config, OF assms ok]
  show "snd (fst (setupNAT ParseCIDR String (recording Run) (s, []) config)) =
          [[''-t'', ''nat'', ''-A'', ''POSTROUTING'', ''-s'', String network, ''-o'', ''eth0'',
            ''-j'', ''MASQUERADE''],
           [''-A'', ''FORWARD'', ''-s'', String network, ''-j'', ''ACCEPT''],
           [''-A'', ''FORWARD'', ''-d'', String network, ''-j'', ''ACCEPT'']]" .
next
  from CleanupNetwork_commands [where ParseCIDR = ParseCIDR and config = config, OF assms]
  show "snd (CleanupNetwork ParseCIDR String (recording Run) (s, []) config) =
          [[''-t'', ''nat'', ''-D'', ''POSTROUTING'', ''-s'', String network, ''-o'', ''eth0'',
            ''-j'', ''MASQUERADE''],
           [''-D'', ''FORWARD'', ''-s'', String network, ''-j'', ''ACCEPT''],
           [''-D'', ''FORWARD'', ''-d'', String network, ''-j'', ''ACCEPT'']]" .
next
  assume ok: "snd (setupNAT ParseCIDR String (recording Run) (s, []) config) = None"
  show "snd (CleanupNetwork ParseCIDR String (recording Run) (s, []) config) =
          map2 (\<lambda>i cmd. cmd[i := ''-D'']) [2, 0, 0]
            (snd (fst (setupNAT ParseCIDR String (recording Run) (s, []) config)))"
    unfolding setupNAT_commands [where ParseCIDR = ParseCIDR and config = config, OF assms ok] CleanupNetwork_commands [where ParseCIDR = ParseCIDR and config = config, OF assms] by simp
next
  fix rs rs' tc
  assume "setupNAT ParseCIDR String iptables rs config = (rs', None)"
  from setup_then_cleanup [where ParseCIDR = ParseCIDR and config = config, OF assms this]
  show "mset (CleanupNetwork ParseCIDR String iptables rs' config tc) = mset (rs tc)" .
next
  fix rs rs'
  assume "setupNAT ParseCIDR String iptables rs config = (rs', None)
             \<and> [''-s'', String network, ''-o'', ''eth0'', ''-j'', ''MASQUERADE'']
                  \<notin> set (rs (''nat'', ''POSTROUTING''))
             \<and> [''-s'', String network, ''-j'', ''ACCEPT''] \<notin> set (rs (''filter'', ''FORWARD''))
             \<and> [''-d'', String network, ''-j'', ''ACCEPT''] \<notin> set (rs (''filter'', ''FORWARD''))"
  then show "CleanupNetwork ParseCIDR String iptables rs' config = rs"
    using setup_then_cleanup_exact [where ParseCIDR = ParseCIDR and config = config, OF assms]
    by blast
next
  fix rs
  assume "[''-s'', String network, ''-o'', ''eth0'', ''-j'', ''MASQUERADE'']
                \<notin> set (rs (''nat'', ''POSTROUTING''))
             \<and> [''-s'', String network, ''-j'', ''ACCEPT''] \<notin> set (rs (''filter'', ''FORWARD''))
             \<and> [''-d'', String network, ''-j'', ''ACCEPT''] \<notin> set (rs (''filter'', ''FORWARD''))"
  then show "CleanupNetwork ParseCIDR String iptables rs config = rs"
    using cleanup_missing [where ParseCIDR = ParseCIDR and config = config, OF assms] by blast
qed

text \<open>
  The theorem on the default configuration, a library that parses the default CIDR
  and prints it as it is, and a host with no rules.
\<close>

theorem CleanupNetwork_deletes_the_rules_of_setupNAT_witness:
  "(\<lambda>cidr. if cidr = ''192.168.1.0/24'' then Some cidr else None) (NetworkCIDR NewDefaultConfig)
      = Some ''192.168.1.0/24''
   \<and> setupNAT (\<lambda>cidr. if cidr = ''192.168.1.0/24'' then Some cidr else None) (\<lambda>n. n)
        iptables (\<lambda>tc. []) NewDefaultConfig =
       ((\<lambda>tc. [])
          ((''nat'', ''POSTROUTING'') :=
             [[''-s'', ''192.168.1.0/24'', ''-o'', ''eth0'', ''-j'', ''MASQUERADE'']],
           (''filter'', ''FORWARD'') :=
             [[''-s'', ''192.168.1.0/24'', ''-j'', ''ACCEPT''],
              [''-d'', ''192.168.1.0/24'', ''-j'', ''ACCEPT'']]), None)
   \<and> snd (fst (setupNAT (\<lambda>cidr. if cidr = ''192.168.1.0/24'' then Some cidr else None) (\<lambda>n. n)
        (recording iptables) (\<lambda>tc. [], []) NewDefaultConfig)) =
       [[''-t'', ''nat'', ''-A'', ''POSTROUTING'', ''-s'', ''192.168.1.0/24'', ''-o'', ''eth0'',
         ''-j'', ''MASQUERADE''],
        [''-A'', ''FORWARD'', ''-s'', ''192.168.1.0/24'', ''-j'', ''ACCEPT''],
        [''-A'', ''FORWARD'', ''-d'', ''192.168.1.0/24'', ''-j'', ''ACCEPT'']]
   \<and> snd (CleanupNetwork (\<lambda>cidr. if cidr = ''192.168.1.0/24'' then Some cidr else None) (\<lambda>n. n)
        (recording iptables) (\<lambda>tc. [], []) NewDefaultConfig) =
       [[''-t'', ''nat'', ''-D'', ''POSTROUTING'', ''-s'', ''192.168.1.0/24'', ''-o'', ''eth0'',
         ''-j'', ''MASQUERADE''],
        [''-D'', ''FORWARD'', ''-s'', ''192.168.1.0/24'', ''-j'', ''ACCEPT''],
        [''-D'', ''FORWARD'', ''-d'', ''192.168.1.0/24'', ''-j'', ''ACCEPT'']]
   \<and> mset (CleanupNetwork (\<lambda>cidr. if cidr = ''192.168.1.0/24'' then Some cidr else None) (\<lambda>n. n)
        iptables
        ((\<lambda>tc. [])
          ((''nat'', ''POSTROUTING'') :=
             [[''-s'', ''192.168.1.0/24'', ''-o'', ''eth0'', ''-j'', ''MASQUERADE'']],
           (''filter'', ''FORWARD'') :=
             [[''-s'', ''192.168.1.0/24'', ''-j'', ''ACCEPT''],
              [''-d'', ''192.168.1.0/24'', ''-j'', ''ACCEPT'']]))
        NewDefaultConfig (''filter'', ''FORWARD'')) = {#}
   \<and> CleanupNetwork (\<lambda>cidr. if cidr = ''192.168.1.0/24'' then Some cidr else None) (\<lambda>n. n)
        iptables
        ((\<lambda>tc. [])
          ((''nat'', ''POSTROUTING'') :=
             [[''-s'', ''192.168.1.0/24'', ''-o'', ''eth0'', ''-j'', ''MASQUERADE'']],
           (''filter'', ''FORWARD'') :=
             [[''-s'', ''192.168.1.0/24'', ''-j'', ''ACCEPT''],
              [''-d'', ''192.168.1.0/24'', ''-j'', ''ACCEPT'']]))
        NewDefaultConfig = (\<lambda>tc. [])
   \<and> CleanupNetwork (\<lambda>cidr. if cidr = ''192.168.1.0/24'' then Some cidr else None) (\<lambda>n. n)
        iptables (\<lambda>tc. []) NewDefaultConfig = (\<lambda>tc. [])"
proof -
  let ?P = "\<lambda>cidr. if cidr = ''192.168.1.0/24'' then Some cidr else None"
  let ?rs' = "(\<lambda>tc. [])
          ((''nat'', ''POSTROUTING'') :=
             [[''-s'', ''192.168.1.0/24'', ''-o'', ''eth0'', ''-j'', ''MASQUERADE'']],
           (''filter'', ''FORWARD'') :=
             [[''-s'', ''192.168.1.0/24'', ''-j'', ''ACCEPT''],
              [''-d'', ''192.168.1.0/24'', ''-j'', ''ACCEPT'']])"
  have p: "?P (NetworkCIDR NewDefaultConfig) = Some ''192.168.1.0/24''"
    by (simp add: NewDefaultConfig_def)
  have installed: "setupNAT ?P (\<lambda>n. n) iptables (\<lambda>tc. []) NewDefaultConfig = (?rs', None)"
    by (simp add: setupNAT_def iptables_def NewDefaultConfig_def Let_def)
  have rec_ok: "snd (setupNAT ?P (\<lambda>n. n) (recording iptables) (\<lambda>tc. [], []) NewDefaultConfig) = None"
    by (simp add: setupNAT_def iptables_def recording_def NewDefaultConfig_def Let_def)
  note inst = CleanupNetwork_deletes_the_rules_of_setupNAT
    [where ParseCIDR = ?P and config = NewDefaultConfig and String = "\<lambda>n. n"
       and Run = iptables and s = "\<lambda>tc. []", OF p]
  from inst rec_ok have a: "snd (fst (setupNAT ?P (\<lambda>n. n)
        (recording iptables) (\<lambda>tc. [], []) NewDefaultConfig)) =
       [[''-t'', ''nat'', ''-A'', ''POSTROUTING'', ''-s'', ''192.168.1.0/24'', ''-o'', ''eth0'',
         ''-j'', ''MASQUERADE''],
        [''-A'', ''FORWARD'', ''-s'', ''192.168.1.0/24'', ''-j'', ''ACCEPT''],
        [''-A'', ''FORWARD'', ''-d'', ''192.168.1.0/24'', ''-j'', ''ACCEPT'']]"
    by blast
  from inst have b: "snd (CleanupNetwork ?P (\<lambda>n. n)
        (recording iptables) (\<lambda>tc. [], []) NewDefaultConfig) =
       [[''-t'', ''nat'', ''-D'', ''POSTROUTING'', ''-s'', ''192.168.1.0/24'', ''-o'', ''eth0'',
         ''-j'', ''MASQUERADE''],
        [''-D'', ''FORWARD'', ''-s'', ''192.168.1.0/24'', ''-j'', ''ACCEPT''],
        [''-D'', ''FORWARD'', ''-d'', ''192.168.1.0/24'', ''-j'', ''ACCEPT'']]"
    by blast
  from inst installed have "mset (CleanupNetwork ?P (\<lambda>n. n) iptables ?rs' NewDefaultConfig
        (''filter'', ''FORWARD'')) = mset ((\<lambda>tc. []) (''filter'', ''FORWARD''))"
    by blast
  then have c: "mset (CleanupNetwork ?P (\<lambda>n. n) iptables ?rs' NewDefaultConfig
        (''filter'', ''FORWARD'')) = {#}"
    by simp
  from inst have d: "CleanupNetwork ?P (\<lambda>n. n) iptables (\<lambda>tc. []) NewDefaultConfig = (\<lambda>tc. [])"
    by simp
  have "[''-s'', ''192.168.1.0/24'', ''-o'', ''eth0'', ''-j'', ''MASQUERADE'']
          \<notin> set ((\<lambda>tc. []) (''nat'', ''POSTROUTING''))
      \<and> [''-s'', ''192.168.1.0/24'', ''-j'', ''ACCEPT''] \<notin> set ((\<lambda>tc. []) (''filter'', ''FORWARD''))
      \<and> [''-d'', ''192.168.1.0/24'', ''-j'', ''ACCEPT''] \<notin> set ((\<lambda>tc. []) (''filter'', ''FORWARD''))"
    by simp
  with inst installed
  have e: "CleanupNetwork ?P (\<lambda>n. n) iptables ?rs' NewDefaultConfig = (\<lambda>tc. [])"
    by blast
  from p installed a b c d e show ?thesis by blast
qed

text \<open>
  A host where the source accept rule is in \<^verbatim>\<open>FORWARD\<close> before the setup, in front of
  a rule that drops everything. The setup appends a second copy, the cleanup deletes
  the first one: the rule is behind the drop rule afterwards, and the rule list is not
  the one before the setup.
\<close>

theorem CleanupNetwork_moves_a_rule_present_before:
  "snd (setupNAT (\<lambda>cidr. if cidr = ''192.168.1.0/24'' then Some cidr else None) (\<lambda>n. n) iptables
          ((\<lambda>tc. [])((''filter'', ''FORWARD'') :=
             [[''-s'', ''192.168.1.0/24'', ''-j'', ''ACCEPT''], [''-j'', ''DROP'']]))
          NewDefaultConfig) = None
   \<and> CleanupNetwork (\<lambda>cidr. if cidr = ''192.168.1.0/24'' then Some cidr else None) (\<lambda>n. n) iptables
        (fst (setupNAT (\<lambda>cidr. if cidr = ''192.168.1.0/24'' then Some cidr else None) (\<lambda>n. n) iptables
          ((\<lambda>tc. [])((''filter'', ''FORWARD'') :=
             [[''-s'', ''192.168.1.0/24'', ''-j'', ''ACCEPT''], [''-j'', ''DROP'']]))
          NewDefaultConfig))
        NewDefaultConfig (''filter'', ''FORWARD'')
       = [[''-j'', ''DROP''], [''-s'', ''192.168.1.0/24'', ''-j'', ''ACCEPT'']]
   \<and> CleanupNetwork (\<lambda>cidr. if cidr = ''192.168.1.0/24'' then Some cidr else None) (\<lambda>n. n) iptables
        (fst (setupNAT (\<lambda>cidr. if cidr = ''192.168.1.0/24'' then Some cidr else None) (\<lambda>n. n) iptables
          ((\<lambda>tc. [])((''filter'', ''FORWARD'') :=
             [[''-s'', ''192.168.1.0/24'', ''-j'', ''ACCEPT''], [''-j'', ''DROP'']]))
          NewDefaultConfig))
        NewDefaultConfig
       \<noteq> (\<lambda>tc. [])((''filter'', ''FORWARD'') :=
             [[''-s'', ''192.168.1.0/24'', ''-j'', ''ACCEPT''], [''-j'', ''DROP'']])"
proof -
  let ?P = "\<lambda>cidr. if cidr = ''192.168.1.0/24'' then Some cidr else None"
  let ?before = "(\<lambda>tc. [])((''filter'', ''FORWARD'') :=
             [[''-s'', ''192.168.1.0/24'', ''-j'', ''ACCEPT''], [''-j'', ''DROP'']])"
  have ok: "snd (setupNAT ?P (\<lambda>n. n) iptables ?before NewDefaultConfig) = None"
    by (simp add: setupNAT_def iptables_def NewDefaultConfig_def Let_def)
  have after: "CleanupNetwork ?P (\<lambda>n. n) iptables
        (fst (setupNAT ?P (\<lambda>n. n) iptables ?before NewDefaultConfig))
        NewDefaultConfig (''filter'', ''FORWARD'')
       = [[''-j'', ''DROP''], [''-s'', ''192.168.1.0/24'', ''-j'', ''ACCEPT'']]"
    by (simp add: setupNAT_def CleanupNetwork_def iptables_def NewDefaultConfig_def Let_def)
  have "CleanupNetwork ?P (\<lambda>n. n) iptables
        (fst (setupNAT ?P (\<lambda>n. n) iptables ?before NewDefaultConfig))
        NewDefaultConfig (''filter'', ''FORWARD'') \<noteq> ?before (''filter'', ''FORWARD'')"
    unfolding after by simp
  then have "CleanupNetwork ?P (\<lambda>n. n) iptables
        (fst (setupNAT ?P (\<lambda>n. n) iptables ?before NewDefaultConfig))
        NewDefaultConfig \<noteq> ?before"
    by metis
  with ok after show ?thesis by blast
qed

section \<open>The order of the filesystem setup\<close>

lemma run_steps_append:
  "run_steps w tr (a @ b) =
     (case run_steps w tr a of (tr1, True) \<Rightarrow> run_steps w tr1 b | (tr1, False) \<Rightarrow> (tr1, False))"
  by (induction a arbitrary: tr) auto

lemma createBindMount_steps:
  "fst (createBindMount w tr m rootFS) = fst (run_steps w tr (bind_mount_steps w rootFS m))
   \<and> (snd (createBindMount w tr m rootFS) = None) = snd (run_steps w tr (bind_mount_steps w rootFS m))"
  by (auto simp: createBindMount_def bind_mount_steps_def sys_def failed_def Let_def insert_commute
      split: option.splits)

lemma bind_mounts_loop_steps:
  "fst (bind_mounts_loop w tr ms rootFS) = fst (run_steps w tr (concat (map (bind_mount_steps w rootFS) ms)))
   \<and> (snd (bind_mounts_loop w tr ms rootFS) = None) = snd (run_steps w tr (concat (map (bind_mount_steps w rootFS) ms)))"
proof (induction ms arbitrary: tr)
  case Nil
  then show ?case by simp
next
  case (Cons m ms)
  obtain tr1 r where c: "createBindMount w tr m rootFS = (tr1, r)" by (cases "createBindMount w tr m rootFS")
  with createBindMount_steps [of w tr m rootFS]
  have s: "run_steps w tr (bind_mount_steps w rootFS m) = (tr1, r = None)"
    by (cases "run_steps w tr (bind_mount_steps w rootFS m)") auto
  show ?case
  proof (cases r)
    case None
    with c s Cons.IH [of tr1] show ?thesis by (simp add: run_steps_append)
  next
    case (Some e)
    with c s show ?thesis by (simp add: run_steps_append)
  qed
qed

lemma refine_step:
  assumes "\<And>p. c \<noteq> os_Stat p"
    and "\<And>t. fst (K t) = fst (run_steps w t cs) \<and> (snd (K t) = None) = snd (run_steps w t cs)"
  shows "fst (case sys w c tr of (t, Some err) \<Rightarrow> (t, Some (E err)) | (t, None) \<Rightarrow> K t)
           = fst (run_steps w tr (c # cs))
       \<and> (snd (case sys w c tr of (t, Some err) \<Rightarrow> (t, Some (E err)) | (t, None) \<Rightarrow> K t) = None)
           = snd (run_steps w tr (c # cs))"
proof -
  have f: "failed (c, r) = (r \<noteq> None)" for r
    using assms(1) by (cases c) (auto simp: failed_def)
  show ?thesis
    using assms(2) by (cases "kernel w tr c") (simp_all add: sys_def f)
qed

lemma SetupFilesystem_steps:
  "fst (SetupFilesystem w tr config) = fst (run_steps w tr (filesystem_steps w config))
   \<and> (snd (SetupFilesystem w tr config) = None) = snd (run_steps w tr (filesystem_steps w config))"
proof -
  let ?binds = "concat (map (bind_mount_steps w (RootFS config)) (Mounts config))"
  let ?rest = "[syscall_Sethostname (Hostname config),
        syscall_Chroot (RootFS config),
        os_Chdir ''/'',
        os_MkdirAll ''/etc'' mode_0755,
        ioutil_WriteFile ''/etc/resolv.conf''
          (''nameserver 8.8.8.8'' @ [CHR 0x0A] @ ''nameserver 8.8.4.4'' @ [CHR 0x0A]) mode_0644,
        syscall_Mount ''proc'' ''proc'' ''proc'' {} '''',
        syscall_Mount ''devpts'' ''/dev/pts'' ''devpts'' {} '''']"
  obtain tr1 r where b: "bind_mounts_loop w tr (Mounts config) (RootFS config) = (tr1, r)"
    by (cases "bind_mounts_loop w tr (Mounts config) (RootFS config)")
  with bind_mounts_loop_steps [of w tr "Mounts config" "RootFS config"]
  have s: "run_steps w tr ?binds = (tr1, r = None)"
    by (cases "run_steps w tr ?binds") auto
  show ?thesis
  proof (cases r)
    case (Some e)
    with b s show ?thesis
      by (simp add: SetupFilesystem_def setupBindMounts_def filesystem_steps_def run_steps_append)
  next
    case None
    have dns: "(case copyResolvConf w t of (t5, Some err) \<Rightarrow> (t5, Some (E err)) | (t5, None) \<Rightarrow> K t5)
       = (case sys w (os_MkdirAll ''/etc'' mode_0755) t of
            (t1, Some err) \<Rightarrow> (t1, Some (E (FailedToCreateEtc err)))
          | (t1, None) \<Rightarrow>
              (case sys w (ioutil_WriteFile ''/etc/resolv.conf''
                         (''nameserver 8.8.8.8'' @ [CHR 0x0A] @ ''nameserver 8.8.4.4'' @ [CHR 0x0A])
                         mode_0644) t1 of
                 (t2, Some err) \<Rightarrow> (t2, Some (E (FailedToWriteResolvConf err)))
               | (t2, None) \<Rightarrow> K t2))" for t E K
      by (simp add: copyResolvConf_def split: prod.splits option.splits)
    have "fst (SetupFilesystem w tr config) = fst (run_steps w tr1 ?rest)
      \<and> (snd (SetupFilesystem w tr config) = None) = snd (run_steps w tr1 ?rest)"
      unfolding SetupFilesystem_def setupBindMounts_def b None prod.case option.case dns
      by (intro refine_step) simp_all
    with s None show ?thesis
      by (simp add: filesystem_steps_def run_steps_append)
  qed
qed

lemma run_steps_trace:
  "run_steps w tr cs = (tr', ok) \<Longrightarrow>
   \<exists>evs. tr' = tr @ evs \<and> prefix (map fst evs) cs
     \<and> (ok \<longleftrightarrow> map fst evs = cs \<and> list_all (\<lambda>e. \<not> failed e) evs)
     \<and> list_all (\<lambda>e. \<not> failed e) (butlast evs)
     \<and> (\<not> ok \<longrightarrow> evs \<noteq> [] \<and> failed (last evs))"
proof (induction cs arbitrary: tr)
  case Nil
  then show ?case by auto
next
  case (Cons c cs)
  let ?e = "(c, kernel w tr c)"
  show ?case
  proof (cases "failed ?e")
    case True
    with Cons.prems have "tr' = tr @ [?e]" "\<not> ok" by auto
    with True show ?thesis
      by (intro exI [of _ "[?e]"]) auto
  next
    case False
    with Cons.prems have "run_steps w (tr @ [?e]) cs = (tr', ok)" by simp
    from Cons.IH [OF this] obtain evs where evs: "tr' = (tr @ [?e]) @ evs"
      "prefix (map fst evs) cs"
      "ok \<longleftrightarrow> map fst evs = cs \<and> list_all (\<lambda>e. \<not> failed e) evs"
      "list_all (\<lambda>e. \<not> failed e) (butlast evs)"
      "\<not> ok \<longrightarrow> evs \<noteq> [] \<and> failed (last evs)"
      by blast
    show ?thesis
    proof (intro exI [of _ "?e # evs"] conjI)
      show "tr' = tr @ ?e # evs" using evs(1) by simp
      show "prefix (map fst (?e # evs)) (c # cs)" using evs(2) by simp
      show "ok \<longleftrightarrow> map fst (?e # evs) = c # cs \<and> list_all (\<lambda>e. \<not> failed e) (?e # evs)"
        using evs(3) False by simp
      show "list_all (\<lambda>e. \<not> failed e) (butlast (?e # evs))"
        using evs(4) False by simp
      show "\<not> ok \<longrightarrow> ?e # evs \<noteq> [] \<and> failed (last (?e # evs))"
        using evs(5) by simp
    qed
  qed
qed

lemma once_position:
  "a \<notin> set xs \<Longrightarrow> a \<notin> set ys \<Longrightarrow> xs @ a # ys = xs' @ a # ys' \<Longrightarrow> xs' = xs"
proof (induction xs arbitrary: xs')
  case Nil
  then show ?case by (cases xs') auto
next
  case (Cons x xs)
  then show ?case by (cases xs') auto
qed

lemma bind_mount_steps_kinds:
  "c \<in> set (bind_mount_steps w rootFS m) \<Longrightarrow>
   (\<exists>p. c = os_Stat p) \<or> (\<exists>p md. c = os_MkdirAll p md)
   \<or> (\<exists>src tgt fl. c = syscall_Mount src tgt '''' fl '''')"
  by (auto simp: bind_mount_steps_def split: if_splits)

lemma bind_steps_kinds:
  "c \<in> set (concat (map (bind_mount_steps w rootFS) ms)) \<Longrightarrow>
   (\<exists>p. c = os_Stat p) \<or> (\<exists>p md. c = os_MkdirAll p md)
   \<or> (\<exists>src tgt fl. c = syscall_Mount src tgt '''' fl '''')"
  using bind_mount_steps_kinds by fastforce

lemma filesystem_steps_chroot:
  assumes "prefix (pre @ syscall_Chroot (RootFS config) # post) (filesystem_steps w config)"
  shows "pre = concat (map (bind_mount_steps w (RootFS config)) (Mounts config))
            @ [syscall_Sethostname (Hostname config)]"
proof -
  let ?B = "concat (map (bind_mount_steps w (RootFS config)) (Mounts config))"
  let ?C = "syscall_Chroot (RootFS config)"
  from assms obtain rest where
    L: "filesystem_steps w config = pre @ ?C # (post @ rest)"
    by (auto simp: prefix_def)
  have notB: "?C \<notin> set ?B" using bind_steps_kinds [of ?C w "RootFS config" "Mounts config"] by auto
  have "filesystem_steps w config = (?B @ [syscall_Sethostname (Hostname config)]) @ ?C #
      [os_Chdir ''/'', os_MkdirAll ''/etc'' mode_0755,
       ioutil_WriteFile ''/etc/resolv.conf''
          (''nameserver 8.8.8.8'' @ [CHR 0x0A] @ ''nameserver 8.8.4.4'' @ [CHR 0x0A]) mode_0644,
       syscall_Mount ''proc'' ''proc'' ''proc'' {} '''',
       syscall_Mount ''devpts'' ''/dev/pts'' ''devpts'' {} '''']"
    by (simp add: filesystem_steps_def)
  with L have "(?B @ [syscall_Sethostname (Hostname config)]) @ ?C #
      [os_Chdir ''/'', os_MkdirAll ''/etc'' mode_0755,
       ioutil_WriteFile ''/etc/resolv.conf''
          (''nameserver 8.8.8.8'' @ [CHR 0x0A] @ ''nameserver 8.8.4.4'' @ [CHR 0x0A]) mode_0644,
       syscall_Mount ''proc'' ''proc'' ''proc'' {} '''',
       syscall_Mount ''devpts'' ''/dev/pts'' ''devpts'' {} ''''] = pre @ ?C # (post @ rest)"
    by simp
  from once_position [OF _ _ this] notB show ?thesis by simp
qed

lemma filesystem_steps_pseudo:
  assumes "prefix (pre @ c # post) (filesystem_steps w config)"
    and "c = syscall_Mount ''proc'' ''proc'' ''proc'' {} ''''
       \<or> c = syscall_Mount ''devpts'' ''/dev/pts'' ''devpts'' {} ''''"
  shows "syscall_Chroot (RootFS config) \<in> set pre"
proof -
  let ?B = "concat (map (bind_mount_steps w (RootFS config)) (Mounts config))"
  let ?H = "[syscall_Sethostname (Hostname config), syscall_Chroot (RootFS config),
       os_Chdir ''/'', os_MkdirAll ''/etc'' mode_0755,
       ioutil_WriteFile ''/etc/resolv.conf''
          (''nameserver 8.8.8.8'' @ [CHR 0x0A] @ ''nameserver 8.8.4.4'' @ [CHR 0x0A]) mode_0644]"
  let ?P = "syscall_Mount ''proc'' ''proc'' ''proc'' {} ''''"
  let ?V = "syscall_Mount ''devpts'' ''/dev/pts'' ''devpts'' {} ''''"
  from assms(1) obtain rest where
    L: "filesystem_steps w config = pre @ c # (post @ rest)"
    by (auto simp: prefix_def)
  have notB: "?P \<notin> set ?B" "?V \<notin> set ?B"
    using bind_steps_kinds [of ?P w "RootFS config" "Mounts config"]
      bind_steps_kinds [of ?V w "RootFS config" "Mounts config"] by auto
  from assms(2) show ?thesis
  proof
    assume c: "c = ?P"
    have "(?B @ ?H) @ ?P # [?V] = pre @ ?P # (post @ rest)"
      using L c by (simp add: filesystem_steps_def)
    from once_position [OF _ _ this] notB have "pre = ?B @ ?H" by simp
    then show ?thesis by simp
  next
    assume c: "c = ?V"
    have "(?B @ ?H @ [?P]) @ ?V # [] = pre @ ?V # (post @ rest)"
      using L c by (simp add: filesystem_steps_def)
    from once_position [OF _ _ this] notB have "pre = ?B @ ?H @ [?P]" by simp
    then show ?thesis by simp
  qed
qed

text \<open>
  C6. Whatever the kernel answers, the calls \<^const>\<open>SetupFilesystem\<close> makes are an initial
  part of the step sequence, in its order: the bind mounts, the hostname, the root
  change, the change to \<^verbatim>\<open>/\<close>, the DNS configuration, the mounts of \<^verbatim>\<open>proc\<close> and
  \<^verbatim>\<open>devpts\<close>. It returns no error exactly when it made every step and none failed; no
  step before the last one made has failed, and when it returns an error the last step
  made is the one that failed, so nothing is done after a failure. In particular, when
  the root is changed, the steps made before are exactly all the bind mount steps and
  the hostname, and when \<^verbatim>\<open>proc\<close> or \<^verbatim>\<open>devpts\<close> is mounted the root change has been made
  before.
\<close>

theorem SetupFilesystem_step_order:
  assumes "SetupFilesystem w tr config = (tr', r)"
  shows "\<exists>evs. tr' = tr @ evs
     \<and> prefix (map fst evs) (filesystem_steps w config)
     \<and> (r = None \<longleftrightarrow> map fst evs = filesystem_steps w config \<and> list_all (\<lambda>e. \<not> failed e) evs)
     \<and> list_all (\<lambda>e. \<not> failed e) (butlast evs)
     \<and> (r \<noteq> None \<longrightarrow> evs \<noteq> [] \<and> failed (last evs))
     \<and> (\<forall>pre post. map fst evs = pre @ syscall_Chroot (RootFS config) # post \<longrightarrow>
           pre = concat (map (bind_mount_steps w (RootFS config)) (Mounts config))
                 @ [syscall_Sethostname (Hostname config)])
     \<and> (\<forall>pre post. map fst evs = pre @ syscall_Mount ''proc'' ''proc'' ''proc'' {} '''' # post
             \<or> map fst evs = pre @ syscall_Mount ''devpts'' ''/dev/pts'' ''devpts'' {} '''' # post \<longrightarrow>
           syscall_Chroot (RootFS config) \<in> set pre)"
proof -
  obtain ok where rs: "run_steps w tr (filesystem_steps w config) = (tr', ok)" and ok: "ok = (r = None)"
    using SetupFilesystem_steps [of w tr config] assms
    by (cases "run_steps w tr (filesystem_steps w config)") auto
  from run_steps_trace [OF rs] obtain evs where evs: "tr' = tr @ evs"
      "prefix (map fst evs) (filesystem_steps w config)"
      "ok \<longleftrightarrow> map fst evs = filesystem_steps w config \<and> list_all (\<lambda>e. \<not> failed e) evs"
      "list_all (\<lambda>e. \<not> failed e) (butlast evs)"
      "\<not> ok \<longrightarrow> evs \<noteq> [] \<and> failed (last evs)"
    by blast
  have o1: "pre = concat (map (bind_mount_steps w (RootFS config)) (Mounts config))
                 @ [syscall_Sethostname (Hostname config)]"
    if "map fst evs = pre @ syscall_Chroot (RootFS config) # post" for pre post
    using evs(2) that filesystem_steps_chroot [of pre config post w] by simp
  have o2: "syscall_Chroot (RootFS config) \<in> set pre"
    if "map fst evs = pre @ syscall_Mount ''proc'' ''proc'' ''proc'' {} '''' # post
             \<or> map fst evs = pre @ syscall_Mount ''devpts'' ''/dev/pts'' ''devpts'' {} '''' # post"
    for pre post
    using evs(2) that filesystem_steps_pseudo [of pre _ post w config] by auto
  show ?thesis
    using evs o1 o2 unfolding ok by blast
qed

text \<open>
  The theorem on a run with one read-only mount where the kernel refuses the change of
  the working directory: the four bind mount steps, the hostname and the root change
  are made, and nothing after the failed step.
\<close>

theorem SetupFilesystem_step_order_witness:
  "SetupFilesystem
     (idle\<lparr>kernel := (\<lambda>tr c. if c = os_Chdir ''/'' then Some (OtherError ''EACCES'') else None)\<rparr>)
     []
     (NewDefaultConfig\<lparr>Mounts := [\<lparr>Source = ''/src'', Destination = ''/app'', ReadOnly = True\<rparr>]\<rparr>)
   = ([(os_Stat ''/src'', None),
       (os_MkdirAll ''./namespace_fs/app'' mode_0755, None),
       (syscall_Mount ''/src'' ''./namespace_fs/app'' '''' {MS_BIND, MS_RDONLY} '''', None),
       (syscall_Mount '''' ''./namespace_fs/app'' '''' {MS_BIND, MS_RDONLY, MS_REMOUNT} '''', None),
       (syscall_Sethostname ''container'', None),
       (syscall_Chroot ''./namespace_fs'', None),
       (os_Chdir ''/'', Some (OtherError ''EACCES''))],
      Some (FailedToChdir (OtherError ''EACCES'')))
   \<and> failed (os_Chdir ''/'', Some (OtherError ''EACCES''))
   \<and> [os_Stat ''/src'', os_MkdirAll ''./namespace_fs/app'' mode_0755,
       syscall_Mount ''/src'' ''./namespace_fs/app'' '''' {MS_BIND, MS_RDONLY} '''',
       syscall_Mount '''' ''./namespace_fs/app'' '''' {MS_BIND, MS_RDONLY, MS_REMOUNT} '''',
       syscall_Sethostname ''container'']
     = concat (map (bind_mount_steps
         (idle\<lparr>kernel := (\<lambda>tr c. if c = os_Chdir ''/'' then Some (OtherError ''EACCES'') else None)\<rparr>) ''./namespace_fs'')
         [\<lparr>Source = ''/src'', Destination = ''/app'', ReadOnly = True\<rparr>])
       @ [syscall_Sethostname ''container'']"
proof -
  let ?w = "(idle\<lparr>kernel := (\<lambda>tr c. if c = os_Chdir ''/'' then Some (OtherError ''EACCES'') else None)\<rparr>)"
  let ?c = "NewDefaultConfig\<lparr>Mounts := [\<lparr>Source = ''/src'', Destination = ''/app'', ReadOnly = True\<rparr>]\<rparr>"
  let ?T = "[(os_Stat ''/src'', None),
       (os_MkdirAll ''./namespace_fs/app'' mode_0755, None),
       (syscall_Mount ''/src'' ''./namespace_fs/app'' '''' {MS_BIND, MS_RDONLY} '''', None),
       (syscall_Mount '''' ''./namespace_fs/app'' '''' {MS_BIND, MS_RDONLY, MS_REMOUNT} '''', None),
       (syscall_Sethostname ''container'', None),
       (syscall_Chroot ''./namespace_fs'', None),
       (os_Chdir ''/'', Some (OtherError ''EACCES''))]"
  have run: "SetupFilesystem ?w [] ?c = (?T, Some (FailedToChdir (OtherError ''EACCES'')))"
    by (simp add: SetupFilesystem_def setupBindMounts_def createBindMount_def sys_def
        NewDefaultConfig_def Let_def insert_commute idle_def)
  from SetupFilesystem_step_order [OF run] obtain evs where evs: "?T = [] @ evs"
    "Some (FailedToChdir (OtherError ''EACCES'')) \<noteq> None \<longrightarrow> evs \<noteq> [] \<and> failed (last evs)"
    "\<forall>pre post. map fst evs = pre @ syscall_Chroot (RootFS ?c) # post \<longrightarrow>
           pre = concat (map (bind_mount_steps ?w (RootFS ?c)) (Mounts ?c))
                 @ [syscall_Sethostname (Hostname ?c)]"
    by blast
  from evs(1) have e: "evs = ?T" by simp
  from evs(2) have f: "failed (os_Chdir ''/'', Some (OtherError ''EACCES''))"
    unfolding e by simp
  have "map fst evs = [os_Stat ''/src'', os_MkdirAll ''./namespace_fs/app'' mode_0755,
       syscall_Mount ''/src'' ''./namespace_fs/app'' '''' {MS_BIND, MS_RDONLY} '''',
       syscall_Mount '''' ''./namespace_fs/app'' '''' {MS_BIND, MS_RDONLY, MS_REMOUNT} '''',
       syscall_Sethostname ''container''] @ syscall_Chroot (RootFS ?c) # [os_Chdir ''/'']"
    unfolding e by (simp add: NewDefaultConfig_def)
  with evs(3) have "[os_Stat ''/src'', os_MkdirAll ''./namespace_fs/app'' mode_0755,
       syscall_Mount ''/src'' ''./namespace_fs/app'' '''' {MS_BIND, MS_RDONLY} '''',
       syscall_Mount '''' ''./namespace_fs/app'' '''' {MS_BIND, MS_RDONLY, MS_REMOUNT} '''',
       syscall_Sethostname ''container'']
     = concat (map (bind_mount_steps ?w (RootFS ?c)) (Mounts ?c))
                 @ [syscall_Sethostname (Hostname ?c)]"
    by blast
  then have o: "[os_Stat ''/src'', os_MkdirAll ''./namespace_fs/app'' mode_0755,
       syscall_Mount ''/src'' ''./namespace_fs/app'' '''' {MS_BIND, MS_RDONLY} '''',
       syscall_Mount '''' ''./namespace_fs/app'' '''' {MS_BIND, MS_RDONLY, MS_REMOUNT} '''',
       syscall_Sethostname ''container'']
     = concat (map (bind_mount_steps ?w ''./namespace_fs'')
         [\<lparr>Source = ''/src'', Destination = ''/app'', ReadOnly = True\<rparr>])
       @ [syscall_Sethostname ''container'']"
    by (simp add: NewDefaultConfig_def)
  from run f o show ?thesis by blast
qed

section \<open>The cgroup setup\<close>

lemma write_values_append:
  "write_values w tr dir (a @ b) =
     (case write_values w tr dir a of
        (t, True) \<Rightarrow> write_values w t dir b
      | (t, False) \<Rightarrow> (t, False))"
  by (induction a arbitrary: tr) (auto simp: Let_def)

lemma refine_value:
  assumes "\<And>t. fst (K t) = fst (write_values w t dir rest)
               \<and> (snd (K t) = None) = snd (write_values w t dir rest)"
  shows "fst (case setCgroupValue w tr dir f v of
                (t, Some err) \<Rightarrow> (t, Some (E err)) | (t, None) \<Rightarrow> K t)
           = fst (write_values w tr dir ((f, v) # rest))
       \<and> (snd (case setCgroupValue w tr dir f v of
                (t, Some err) \<Rightarrow> (t, Some (E err)) | (t, None) \<Rightarrow> K t) = None)
           = snd (write_values w tr dir ((f, v) # rest))"
  using assms by (simp add: setCgroupValue_def sys_def Let_def split: option.splits)

lemma refine_optional_value:
  assumes "\<And>t. fst (K t) = fst (write_values w t dir rest)
               \<and> (snd (K t) = None) = snd (write_values w t dir rest)"
  shows "fst (case (if c then setCgroupValue w tr dir f v else (tr, None)) of
                (t, Some err) \<Rightarrow> (t, Some (E err)) | (t, None) \<Rightarrow> K t)
           = fst (write_values w tr dir ((if c then [(f, v)] else []) @ rest))
       \<and> (snd (case (if c then setCgroupValue w tr dir f v else (tr, None)) of
                (t, Some err) \<Rightarrow> (t, Some (E err)) | (t, None) \<Rightarrow> K t) = None)
           = snd (write_values w tr dir ((if c then [(f, v)] else []) @ rest))"
proof (cases c)
  case True
  then show ?thesis using refine_value [OF assms, where tr = tr and f = f and v = v and E = E] by simp
next
  case False
  then show ?thesis using assms by simp
qed

lemma write_values_Nil_refine:
  "fst (t, None :: error option) = fst (write_values w t dir [])
   \<and> (snd (t, None :: error option) = None) = snd (write_values w t dir [])"
  by simp

lemma SetupCgroups_values:
  "fst (case setCgroupValue w tra dir ''pids.max'' (MaxPids config) of
         (tr2, Some err) \<Rightarrow> (tr2, Some (FailedToSetPidsMax err))
       | (tr2, None) \<Rightarrow>
      (case (if MemoryLimit config \<noteq> ''''
             then setCgroupValue w tr2 dir ''memory.max'' (MemoryLimit config)
             else (tr2, None)) of
         (tr3, Some err) \<Rightarrow> (tr3, Some (FailedToSetMemoryMax err))
       | (tr3, None) \<Rightarrow>
      (case (if CPUQuota config \<noteq> ''''
             then setCgroupValue w tr3 dir ''cpu.max''
                    (CPUQuota config @ '' '' @ CPUPeriod config)
             else (tr3, None)) of
         (tr4, Some err) \<Rightarrow> (tr4, Some (FailedToSetCpuMax err))
       | (tr4, None) \<Rightarrow>
      (case setCgroupValue w tr4 dir ''cgroup.procs'' (Itoa (Getpid w)) of
         (tr5, Some err) \<Rightarrow> (tr5, Some (FailedToAddProcess err))
       | (tr5, None) \<Rightarrow> (tr5, None)))))
     = fst (write_values w tra dir (control_values w config))
   \<and> (snd (case setCgroupValue w tra dir ''pids.max'' (MaxPids config) of
         (tr2, Some err) \<Rightarrow> (tr2, Some (FailedToSetPidsMax err))
       | (tr2, None) \<Rightarrow>
      (case (if MemoryLimit config \<noteq> ''''
             then setCgroupValue w tr2 dir ''memory.max'' (MemoryLimit config)
             else (tr2, None)) of
         (tr3, Some err) \<Rightarrow> (tr3, Some (FailedToSetMemoryMax err))
       | (tr3, None) \<Rightarrow>
      (case (if CPUQuota config \<noteq> ''''
             then setCgroupValue w tr3 dir ''cpu.max''
                    (CPUQuota config @ '' '' @ CPUPeriod config)
             else (tr3, None)) of
         (tr4, Some err) \<Rightarrow> (tr4, Some (FailedToSetCpuMax err))
       | (tr4, None) \<Rightarrow>
      (case setCgroupValue w tr4 dir ''cgroup.procs'' (Itoa (Getpid w)) of
         (tr5, Some err) \<Rightarrow> (tr5, Some (FailedToAddProcess err))
       | (tr5, None) \<Rightarrow> (tr5, None))))) = None)
     = snd (write_values w tra dir (control_values w config))"
proof -
  have cv: "control_values w config =
     (''pids.max'', MaxPids config) #
     ((if MemoryLimit config \<noteq> '''' then [(''memory.max'', MemoryLimit config)] else [])
     @ ((if CPUQuota config \<noteq> '''' then [(''cpu.max'', CPUQuota config @ '' '' @ CPUPeriod config)]
        else [])
     @ [(''cgroup.procs'', Itoa (Getpid w))]))"
    by (simp add: control_values_def)
  show ?thesis
    unfolding cv
    by (intro refine_value refine_optional_value) simp
qed

lemma SetupCgroups_steps:
  "fst (SetupCgroups w tr config) = fst (cgroup_steps w tr config)
   \<and> (snd (SetupCgroups w tr config) = None) = snd (cgroup_steps w tr config)"
proof -
  let ?dir = "Join w cgroupBasePath (Name config)"
  let ?s = "kernel w tr (os_Stat ?dir)"
  let ?tr0 = "tr @ [(os_Stat ?dir, ?s)]"
  show ?thesis
  proof (cases "?s = Some ENOENT")
    case False
    then show ?thesis
      using SetupCgroups_values [where w = w and tra = ?tr0 and dir = ?dir and config = config]
      by (simp add: SetupCgroups_def cgroup_steps_def sys_def Let_def)
  next
    case True
    let ?mk = "kernel w ?tr0 (os_MkdirAll ?dir mode_0755)"
    let ?tr1 = "?tr0 @ [(os_MkdirAll ?dir mode_0755, ?mk)]"
    show ?thesis
    proof (cases ?mk)
      case None
      with True show ?thesis
        using SetupCgroups_values [where w = w and tra = ?tr1 and dir = ?dir and config = config]
        by (simp add: SetupCgroups_def cgroup_steps_def sys_def Let_def)
    next
      case (Some e)
      with True show ?thesis
        by (simp add: SetupCgroups_def cgroup_steps_def sys_def Let_def)
    qed
  qed
qed

lemma write_values_trace:
  "write_values w tr dir fvs = (tr', ok) \<Longrightarrow>
   \<exists>evs. tr' = tr @ evs
     \<and> (ok \<longleftrightarrow> list_all (\<lambda>e. creates_or_writes (fst e) \<longrightarrow> snd e = None) evs)
     \<and> (ok \<longrightarrow> stat_paths evs = map (\<lambda>fv. Join w dir (fst fv)) fvs)"
proof (induction fvs arbitrary: tr)
  case Nil
  then show ?case by auto
next
  case (Cons fv fvs)
  obtain f v where fv: "fv = (f, v)" by (cases fv)
  let ?p = "Join w dir f"
  let ?s = "kernel w tr (os_Stat ?p)"
  let ?e1 = "(os_Stat ?p, ?s)"
  let ?wr = "kernel w (tr @ [?e1]) (ioutil_WriteFile ?p v mode_0644)"
  let ?e2 = "(ioutil_WriteFile ?p v mode_0644, ?wr)"
  show ?case
  proof (cases "?s = Some ENOENT")
    case True
    with Cons.prems fv have "write_values w (tr @ [?e1]) dir fvs = (tr', ok)"
      by (simp add: Let_def)
    from Cons.IH [OF this] obtain evs where evs: "tr' = (tr @ [?e1]) @ evs"
      "ok \<longleftrightarrow> list_all (\<lambda>e. creates_or_writes (fst e) \<longrightarrow> snd e = None) evs"
      "ok \<longrightarrow> stat_paths evs = map (\<lambda>fv. Join w dir (fst fv)) fvs"
      by blast
    then show ?thesis
      by (intro exI [of _ "?e1 # evs"]) (simp add: fv creates_or_writes_def)
  next
    case False
    show ?thesis
    proof (cases ?wr)
      case (Some e)
      with False Cons.prems fv have "tr' = tr @ [?e1, ?e2]" "\<not> ok"
        by (auto simp: Let_def)
      with Some show ?thesis
        by (intro exI [of _ "[?e1, ?e2]"]) (simp add: creates_or_writes_def)
    next
      case None
      with False Cons.prems fv have "write_values w ((tr @ [?e1]) @ [?e2]) dir fvs = (tr', ok)"
        by (simp add: Let_def)
      from Cons.IH [OF this] obtain evs where evs: "tr' = ((tr @ [?e1]) @ [?e2]) @ evs"
        "ok \<longleftrightarrow> list_all (\<lambda>e. creates_or_writes (fst e) \<longrightarrow> snd e = None) evs"
        "ok \<longrightarrow> stat_paths evs = map (\<lambda>fv. Join w dir (fst fv)) fvs"
        by blast
      with None show ?thesis
        by (intro exI [of _ "?e1 # ?e2 # evs"]) (simp add: fv creates_or_writes_def)
    qed
  qed
qed

lemma cgroup_steps_trace:
  assumes "cgroup_steps w tr config = (tr', ok)"
  shows "\<exists>evs. tr' = tr @ evs
     \<and> (ok \<longleftrightarrow> list_all (\<lambda>e. creates_or_writes (fst e) \<longrightarrow> snd e = None) evs)
     \<and> (ok \<longrightarrow> stat_paths evs =
           Join w cgroupBasePath (Name config) #
           map (\<lambda>fv. Join w (Join w cgroupBasePath (Name config)) (fst fv)) (control_values w config))"
proof -
  let ?dir = "Join w cgroupBasePath (Name config)"
  let ?s = "kernel w tr (os_Stat ?dir)"
  let ?e0 = "(os_Stat ?dir, ?s)"
  let ?mk = "kernel w (tr @ [?e0]) (os_MkdirAll ?dir mode_0755)"
  let ?e1 = "(os_MkdirAll ?dir mode_0755, ?mk)"
  show ?thesis
  proof (cases "?s = Some ENOENT")
    case False
    with assms have "write_values w (tr @ [?e0]) ?dir (control_values w config) = (tr', ok)"
      by (simp add: cgroup_steps_def Let_def)
    from write_values_trace [OF this] obtain evs where "tr' = (tr @ [?e0]) @ evs"
      "ok \<longleftrightarrow> list_all (\<lambda>e. creates_or_writes (fst e) \<longrightarrow> snd e = None) evs"
      "ok \<longrightarrow> stat_paths evs = map (\<lambda>fv. Join w ?dir (fst fv)) (control_values w config)"
      by blast
    then show ?thesis
      by (intro exI [of _ "?e0 # evs"]) (simp add: creates_or_writes_def)
  next
    case True
    show ?thesis
    proof (cases ?mk)
      case (Some e)
      with True assms have "tr' = tr @ [?e0, ?e1]" "\<not> ok"
        by (auto simp: cgroup_steps_def Let_def)
      with Some show ?thesis
        by (intro exI [of _ "[?e0, ?e1]"]) (simp add: creates_or_writes_def)
    next
      case None
      with True assms
      have "write_values w ((tr @ [?e0]) @ [?e1]) ?dir (control_values w config) = (tr', ok)"
        by (simp add: cgroup_steps_def Let_def)
      from write_values_trace [OF this] obtain evs where "tr' = ((tr @ [?e0]) @ [?e1]) @ evs"
        "ok \<longleftrightarrow> list_all (\<lambda>e. creates_or_writes (fst e) \<longrightarrow> snd e = None) evs"
        "ok \<longrightarrow> stat_paths evs = map (\<lambda>fv. Join w ?dir (fst fv)) (control_values w config)"
        by blast
      with None show ?thesis
        by (intro exI [of _ "?e0 # ?e1 # evs"]) (simp add: creates_or_writes_def)
    qed
  qed
qed

text \<open>
  C7. Whatever the kernel answers, \<^const>\<open>SetupCgroups\<close> does what
  \<^const>\<open>cgroup_steps\<close> says: it makes the same calls and returns an error exactly when
  that stops. It returns no error exactly when neither the creation of the directory
  nor a write it made has failed; a control file that \<^verbatim>\<open>os.Stat\<close> reports missing is
  not an error and is not written (\<^const>\<open>setCgroupValue\<close> returns \<^verbatim>\<open>nil\<close> after the
  \<^verbatim>\<open>os.Stat\<close> alone), the setup goes on with the next control file, and when it
  succeeds it has looked at every configured control file in order. A write that
  fails makes \<^const>\<open>setCgroupValue\<close> return an error.
\<close>

theorem SetupCgroups_skips_missing_control_files:
  assumes "SetupCgroups w tr config = (tr', r)"
  shows "cgroup_steps w tr config = (tr', r = None)
     \<and> (\<exists>evs. tr' = tr @ evs
          \<and> (r = None \<longleftrightarrow> list_all (\<lambda>e. creates_or_writes (fst e) \<longrightarrow> snd e = None) evs)
          \<and> (r = None \<longrightarrow> stat_paths evs =
                Join w cgroupBasePath (Name config) #
                map (\<lambda>fv. Join w (Join w cgroupBasePath (Name config)) (fst fv))
                  (control_values w config)))
     \<and> (\<forall>t dir f v. kernel w t (os_Stat (Join w dir f)) = Some ENOENT \<longrightarrow>
          setCgroupValue w t dir f v = (t @ [(os_Stat (Join w dir f), Some ENOENT)], None))
     \<and> (\<forall>t dir f v e.
          kernel w t (os_Stat (Join w dir f)) \<noteq> Some ENOENT
          \<and> kernel w (t @ [(os_Stat (Join w dir f), kernel w t (os_Stat (Join w dir f)))])
                (ioutil_WriteFile (Join w dir f) v mode_0644) = Some e \<longrightarrow>
          snd (setCgroupValue w t dir f v) = Some (FailedToWriteTo (Join w dir f) e))"
proof -
  have steps: "cgroup_steps w tr config = (tr', r = None)"
    using SetupCgroups_steps [of w tr config] assms
    by (cases "cgroup_steps w tr config") auto
  from cgroup_steps_trace [OF steps]
  have trace: "\<exists>evs. tr' = tr @ evs
          \<and> (r = None \<longleftrightarrow> list_all (\<lambda>e. creates_or_writes (fst e) \<longrightarrow> snd e = None) evs)
          \<and> (r = None \<longrightarrow> stat_paths evs =
                Join w cgroupBasePath (Name config) #
                map (\<lambda>fv. Join w (Join w cgroupBasePath (Name config)) (fst fv))
                  (control_values w config))" .
  have skip: "setCgroupValue w t dir f v = (t @ [(os_Stat (Join w dir f), Some ENOENT)], None)"
    if "kernel w t (os_Stat (Join w dir f)) = Some ENOENT" for t dir f v
    using that by (simp add: setCgroupValue_def sys_def)
  have fatal: "snd (setCgroupValue w t dir f v) = Some (FailedToWriteTo (Join w dir f) e)"
    if "kernel w t (os_Stat (Join w dir f)) \<noteq> Some ENOENT
          \<and> kernel w (t @ [(os_Stat (Join w dir f), kernel w t (os_Stat (Join w dir f)))])
                (ioutil_WriteFile (Join w dir f) v mode_0644) = Some e" for t dir f v e
    using that by (simp add: setCgroupValue_def sys_def Let_def)
  from steps trace skip fatal show ?thesis by blast
qed

text \<open>
  The theorem on two runs: one where a memory limit is set and \<^verbatim>\<open>memory.max\<close> does
  not exist (it is skipped, \<^verbatim>\<open>cgroup.procs\<close> is still written, no error), and one where
  the write to \<^verbatim>\<open>pids.max\<close> fails with another error (the setup ends with the error).
\<close>

theorem SetupCgroups_skips_missing_control_files_witness:
  "SetupCgroups
     (idle\<lparr>kernel := (\<lambda>tr c. if c = os_Stat ''/sys/fs/cgroup/namespace_test/memory.max''
                        then Some ENOENT else None)\<rparr>)
     [] (NewDefaultCgroupConfig\<lparr>MemoryLimit := ''2000000''\<rparr>)
   = ([(os_Stat ''/sys/fs/cgroup/namespace_test'', None),
       (os_Stat ''/sys/fs/cgroup/namespace_test/pids.max'', None),
       (ioutil_WriteFile ''/sys/fs/cgroup/namespace_test/pids.max'' ''max'' mode_0644, None),
       (os_Stat ''/sys/fs/cgroup/namespace_test/memory.max'', Some ENOENT),
       (os_Stat ''/sys/fs/cgroup/namespace_test/cgroup.procs'', None),
       (ioutil_WriteFile ''/sys/fs/cgroup/namespace_test/cgroup.procs'' ''1'' mode_0644, None)],
      None)
   \<and> cgroup_steps
     (idle\<lparr>kernel := (\<lambda>tr c. if c = os_Stat ''/sys/fs/cgroup/namespace_test/memory.max''
                        then Some ENOENT else None)\<rparr>)
     [] (NewDefaultCgroupConfig\<lparr>MemoryLimit := ''2000000''\<rparr>)
   = ([(os_Stat ''/sys/fs/cgroup/namespace_test'', None),
       (os_Stat ''/sys/fs/cgroup/namespace_test/pids.max'', None),
       (ioutil_WriteFile ''/sys/fs/cgroup/namespace_test/pids.max'' ''max'' mode_0644, None),
       (os_Stat ''/sys/fs/cgroup/namespace_test/memory.max'', Some ENOENT),
       (os_Stat ''/sys/fs/cgroup/namespace_test/cgroup.procs'', None),
       (ioutil_WriteFile ''/sys/fs/cgroup/namespace_test/cgroup.procs'' ''1'' mode_0644, None)],
      True)
   \<and> SetupCgroups
     (idle\<lparr>kernel := (\<lambda>tr c. if c = ioutil_WriteFile ''/sys/fs/cgroup/namespace_test/pids.max''
                               ''max'' mode_0644
                        then Some (OtherError ''EACCES'') else None)\<rparr>)
     [] NewDefaultCgroupConfig
   = ([(os_Stat ''/sys/fs/cgroup/namespace_test'', None),
       (os_Stat ''/sys/fs/cgroup/namespace_test/pids.max'', None),
       (ioutil_WriteFile ''/sys/fs/cgroup/namespace_test/pids.max'' ''max'' mode_0644,
        Some (OtherError ''EACCES''))],
      Some (FailedToSetPidsMax
             (FailedToWriteTo ''/sys/fs/cgroup/namespace_test/pids.max'' (OtherError ''EACCES''))))
   \<and> cgroup_steps
     (idle\<lparr>kernel := (\<lambda>tr c. if c = ioutil_WriteFile ''/sys/fs/cgroup/namespace_test/pids.max''
                               ''max'' mode_0644
                        then Some (OtherError ''EACCES'') else None)\<rparr>)
     [] NewDefaultCgroupConfig
   = ([(os_Stat ''/sys/fs/cgroup/namespace_test'', None),
       (os_Stat ''/sys/fs/cgroup/namespace_test/pids.max'', None),
       (ioutil_WriteFile ''/sys/fs/cgroup/namespace_test/pids.max'' ''max'' mode_0644,
        Some (OtherError ''EACCES''))],
      False)"
proof -
  let ?w0 = "(idle\<lparr>kernel := (\<lambda>tr c. if c = os_Stat ''/sys/fs/cgroup/namespace_test/memory.max''
                        then Some ENOENT else None)\<rparr>)"
  let ?w1 = "(idle\<lparr>kernel := (\<lambda>tr c. if c = ioutil_WriteFile ''/sys/fs/cgroup/namespace_test/pids.max''
                               ''max'' mode_0644
                        then Some (OtherError ''EACCES'') else None)\<rparr>)"
  have run0: "SetupCgroups ?w0 [] (NewDefaultCgroupConfig\<lparr>MemoryLimit := ''2000000''\<rparr>)
   = ([(os_Stat ''/sys/fs/cgroup/namespace_test'', None),
       (os_Stat ''/sys/fs/cgroup/namespace_test/pids.max'', None),
       (ioutil_WriteFile ''/sys/fs/cgroup/namespace_test/pids.max'' ''max'' mode_0644, None),
       (os_Stat ''/sys/fs/cgroup/namespace_test/memory.max'', Some ENOENT),
       (os_Stat ''/sys/fs/cgroup/namespace_test/cgroup.procs'', None),
       (ioutil_WriteFile ''/sys/fs/cgroup/namespace_test/cgroup.procs'' ''1'' mode_0644, None)],
      None)"
    by (simp add: SetupCgroups_def setCgroupValue_def sys_def NewDefaultCgroupConfig_def
        cgroupBasePath_def cgroupName_def Let_def Itoa_def digits.simps digit_char_def idle_def)
  have run1: "SetupCgroups ?w1 [] NewDefaultCgroupConfig
   = ([(os_Stat ''/sys/fs/cgroup/namespace_test'', None),
       (os_Stat ''/sys/fs/cgroup/namespace_test/pids.max'', None),
       (ioutil_WriteFile ''/sys/fs/cgroup/namespace_test/pids.max'' ''max'' mode_0644,
        Some (OtherError ''EACCES''))],
      Some (FailedToSetPidsMax
             (FailedToWriteTo ''/sys/fs/cgroup/namespace_test/pids.max'' (OtherError ''EACCES''))))"
    by (simp add: SetupCgroups_def setCgroupValue_def sys_def NewDefaultCgroupConfig_def
        cgroupBasePath_def cgroupName_def Let_def idle_def)
  from SetupCgroups_skips_missing_control_files [OF run0]
    SetupCgroups_skips_missing_control_files [OF run1] run0 run1
  show ?thesis by simp
qed


section \<open>The exit code of the runtime\<close>

text \<open>
  The functions of the child make no process call apart from running the user command,
  and the functions of the parent start and await nothing apart from the one child. The
  lemmas say it with a filter: a function leaves the events that satisfy \<open>Q\<close> as they
  were in the history it was given, for every \<open>Q\<close> that only holds of calls the
  function does not make.
\<close>

lemma sys_filter:
  "filter Q (fst (sys w c tr)) = filter Q tr @ (if Q (c, kernel w tr c) then [(c, kernel w tr c)] else [])"
  by (simp add: sys_def)

lemma quiet_bind:
  assumes "filter Q (fst r) = F"
    and "\<And>t err. filter Q t = F \<Longrightarrow> filter Q (fst (H t err)) = F"
    and "\<And>t. filter Q t = F \<Longrightarrow> filter Q (fst (K t)) = F"
  shows "filter Q (fst (case r of (t, Some err) \<Rightarrow> H t err | (t, None) \<Rightarrow> K t)) = F"
  using assms by (cases r; cases "snd r") auto

lemma sys_quiet:
  assumes "\<not> Q (c, kernel w tr c)" and "filter Q tr = F"
  shows "filter Q (fst (sys w c tr)) = F"
  using assms by (simp add: sys_filter)

text \<open>The child makes no process call before and after the user command.\<close>

lemma setCgroupValue_quiet:
  assumes nq: "\<And>c r. \<not> process_call c \<Longrightarrow> \<not> Q (c, r)"
  shows "filter Q (fst (setCgroupValue w tr dir f v)) = filter Q tr"
  by (simp add: setCgroupValue_def sys_def Let_def nq process_call_def split: option.splits)

lemma setCgroupValue_quiet_opt:
  assumes nq: "\<And>c r. \<not> process_call c \<Longrightarrow> \<not> Q (c, r)" and "filter Q tr = F"
  shows "filter Q (fst (if b then setCgroupValue w tr dir f v else (tr, None))) = F"
  using assms(2) by (simp add: setCgroupValue_quiet [of Q, OF nq])

lemma SetupCgroups_quiet:
  assumes nq: "\<And>c r. \<not> process_call c \<Longrightarrow> \<not> Q (c, r)"
  shows "filter Q (fst (SetupCgroups w tr config)) = filter Q tr"
proof -
  let ?dir = "Join w cgroupBasePath (Name config)"
  let ?X = "if snd (sys w (os_Stat ?dir) tr) = Some ENOENT
            then sys w (os_MkdirAll ?dir mode_0755) (fst (sys w (os_Stat ?dir) tr))
            else (fst (sys w (os_Stat ?dir) tr), None)"
  have shape: "SetupCgroups w tr config =
    (case ?X of
       (t, Some err) \<Rightarrow> (t, Some (FailedToCreateCgroupDir ?dir err))
     | (t, None) \<Rightarrow>
      (case setCgroupValue w t ?dir ''pids.max'' (MaxPids config) of
         (tr2, Some err) \<Rightarrow> (tr2, Some (FailedToSetPidsMax err))
       | (tr2, None) \<Rightarrow>
      (case (if MemoryLimit config \<noteq> ''''
             then setCgroupValue w tr2 ?dir ''memory.max'' (MemoryLimit config)
             else (tr2, None)) of
         (tr3, Some err) \<Rightarrow> (tr3, Some (FailedToSetMemoryMax err))
       | (tr3, None) \<Rightarrow>
      (case (if CPUQuota config \<noteq> ''''
             then setCgroupValue w tr3 ?dir ''cpu.max''
                    (CPUQuota config @ '' '' @ CPUPeriod config)
             else (tr3, None)) of
         (tr4, Some err) \<Rightarrow> (tr4, Some (FailedToSetCpuMax err))
       | (tr4, None) \<Rightarrow>
      (case setCgroupValue w tr4 ?dir ''cgroup.procs'' (Itoa (Getpid w)) of
         (tr5, Some err) \<Rightarrow> (tr5, Some (FailedToAddProcess err))
       | (tr5, None) \<Rightarrow> (tr5, None))))))"
    unfolding SetupCgroups_def Let_def split_beta
    by (cases "snd ?X") (simp_all split: if_splits)
  have a: "filter Q (fst ?X) = filter Q tr"
    by (simp add: sys_def nq process_call_def)
  show ?thesis
    unfolding shape
    by (intro quiet_bind setCgroupValue_quiet_opt [of Q, OF nq] a)
       (simp_all add: setCgroupValue_quiet [of Q, OF nq])
qed

lemma createBindMount_quiet:
  assumes nq: "\<And>c r. \<not> process_call c \<Longrightarrow> \<not> Q (c, r)"
  shows "filter Q (fst (createBindMount w tr m rootFS)) = filter Q tr"
  by (simp add: createBindMount_def sys_def Let_def nq process_call_def split: option.splits)

lemma bind_mounts_loop_quiet:
  assumes nq: "\<And>c r. \<not> process_call c \<Longrightarrow> \<not> Q (c, r)"
  shows "filter Q (fst (bind_mounts_loop w tr ms rootFS)) = filter Q tr"
proof (induction ms arbitrary: tr)
  case Nil
  show ?case by simp
next
  case (Cons m ms)
  show ?case
    unfolding bind_mounts_loop.simps
    by (intro quiet_bind) (simp_all add: createBindMount_quiet [of Q, OF nq] Cons.IH)
qed

lemma copyResolvConf_quiet:
  assumes nq: "\<And>c r. \<not> process_call c \<Longrightarrow> \<not> Q (c, r)"
  shows "filter Q (fst (copyResolvConf w tr)) = filter Q tr"
  unfolding copyResolvConf_def
  by (intro quiet_bind sys_quiet) (simp_all add: nq process_call_def)

lemma SetupFilesystem_quiet:
  assumes nq: "\<And>c r. \<not> process_call c \<Longrightarrow> \<not> Q (c, r)"
  shows "filter Q (fst (SetupFilesystem w tr config)) = filter Q tr"
  unfolding SetupFilesystem_def setupBindMounts_def
  apply (intro quiet_bind sys_quiet)
  apply (simp_all add: bind_mounts_loop_quiet [of Q, OF nq]
        copyResolvConf_quiet [of Q, OF nq])
  apply (simp_all add: nq process_call_def)
  done

lemma dirExists_quiet:
  assumes nq: "\<And>c r. \<not> process_call c \<Longrightarrow> \<not> Q (c, r)"
  shows "filter Q (fst (dirExists w tr path)) = filter Q tr"
  by (simp add: dirExists_def sys_def nq process_call_def)

lemma CleanupFilesystem_quiet:
  assumes nq: "\<And>c r. \<not> process_call c \<Longrightarrow> \<not> Q (c, r)"
  shows "filter Q (fst (CleanupFilesystem w tr)) = filter Q tr"
  by (simp add: CleanupFilesystem_def sys_def Let_def nq process_call_def)

lemma runs_quiet: "\<not> process_call c \<Longrightarrow> \<not> runs (c, r)"
  by (cases c) (simp_all add: process_call_def runs_def)

lemma command_results_quiet:
  assumes "filter runs tr' = filter runs tr"
  shows "command_results tr' = command_results tr"
  using assms by (simp add: command_results_def)

lemma command_results_sys_Run:
  "command_results (fst (sys w (cmd_Run name args dir) tr)) =
     command_results tr @ [kernel w tr (cmd_Run name args dir)]"
  by (simp add: command_results_def sys_def runs_def)

lemma RunChildProcess_command_results:
  assumes "RunChildProcess w tr command = (tr', r)" and "command_results tr = []"
  shows "(r = Returns None \<and> command_results tr' = [None])
       \<or> (\<exists>e. r = Returns (Some (OS e)) \<and> command_results tr' = [Some e])
       \<or> (\<exists>err. r = Returns (Some err) \<and> command_results tr' = [])
       \<or> (r = Exits 2 \<and> command_results tr' = [])"
proof (cases "configFromEnv (Environ w)")
  case (Inl err)
  with assms show ?thesis by (auto simp: RunChildProcess_def)
next
  case (Inr config)
  obtain tr1 r1 where s1: "SetupCgroups w tr NewDefaultCgroupConfig = (tr1, r1)"
    by (cases "SetupCgroups w tr NewDefaultCgroupConfig")
  have q1: "command_results tr1 = []"
    using SetupCgroups_quiet [of runs w tr NewDefaultCgroupConfig, OF runs_quiet] s1 assms(2)
    by (simp add: command_results_def)
  show ?thesis
  proof (cases r1)
    case (Some err)
    with assms Inr s1 q1 show ?thesis by (auto simp: RunChildProcess_def)
  next
    case None
    note r1 = None
    obtain tr2 r2 where s2: "SetupFilesystem w tr1 config = (tr2, r2)"
      by (cases "SetupFilesystem w tr1 config")
    have q2: "command_results tr2 = []"
      using SetupFilesystem_quiet [of runs w tr1 config, OF runs_quiet] s2 q1
      by (simp add: command_results_def)
    show ?thesis
    proof (cases r2)
      case (Some err)
      with assms Inr s1 r1 s2 q2 show ?thesis by (auto simp: RunChildProcess_def)
    next
      case None
      note r2 = None
      show ?thesis
      proof (cases "command = []")
        case True
        with assms Inr s1 r1 s2 r2 q2 show ?thesis by (auto simp: RunChildProcess_def)
      next
        case False
        obtain tr3 r3 where s3: "dirExists w tr2 ''/app'' = (tr3, r3)"
          by (cases "dirExists w tr2 ''/app''")
        have q3: "command_results tr3 = []"
          using dirExists_quiet [of runs w tr2 "''/app''", OF runs_quiet] s3 q2
          by (simp add: command_results_def)
        show ?thesis
        proof (cases r3)
          case (Exits code)
          with s3 have "code = 2"
            by (auto simp: dirExists_def sys_def split: if_splits)
          with Exits assms Inr s1 r1 s2 r2 False s3 q3 show ?thesis
            by (auto simp: RunChildProcess_def)
        next
          case (Returns isDir)
          let ?c = "cmd_Run (hd command) (tl command) (if isDir then Some ''/app'' else None)"
          have tr': "tr' = fst (CleanupFilesystem w (fst (sys w ?c tr3)))"
            and r: "r = Returns (map_option OS (snd (sys w ?c tr3)))"
            using Returns assms(1) Inr s1 r1 s2 r2 False s3
            by (auto simp: RunChildProcess_def Let_def split_beta)
          have "command_results tr' = command_results (fst (sys w ?c tr3))"
            unfolding tr'
            by (rule command_results_quiet) (rule CleanupFilesystem_quiet [of runs, OF runs_quiet])
          then have res: "command_results tr' = [kernel w tr3 ?c]"
            by (simp add: command_results_sys_Run q3)
          show ?thesis
          proof (cases "kernel w tr3 ?c")
            case None
            with res r show ?thesis by (simp add: sys_def)
          next
            case (Some e)
            with res r show ?thesis by (simp add: sys_def)
          qed
        qed
      qed
    qed
  qed
qed

lemma main_child:
  "main w (prog # ''child'' # command) =
     (if checkRoot w \<noteq> None then ([], 1) else exit_code (handleChild w [] command))"
  by (simp add: main_def)

lemma main_run:
  "main w (prog # ''run'' # args) =
     (if checkRoot w \<noteq> None then ([], 1) else exit_code (handleRun w [] args))"
  by (simp add: main_def)

lemma main_child_exit_code:
  assumes "main w (prog # ''child'' # command) = (tr, code)"
  shows "(code = 0 \<and> command_results tr = [None])
       \<or> (code = 1 \<and> (\<exists>e. command_results tr = [Some e]))
       \<or> (code = 1 \<and> command_results tr = [])
       \<or> (code = 2 \<and> command_results tr = [])"
proof (cases "checkRoot w \<noteq> None \<or> command = []")
  case True
  with assms have "tr = [] \<and> code = 1"
    by (auto simp: main_child handleChild_def exit_code_def split: if_splits)
  then show ?thesis
    by (simp add: command_results_def)
next
  case False
  obtain tr' r where s: "RunChildProcess w [] command = (tr', r)"
    by (cases "RunChildProcess w [] command")
  from False s assms have m: "tr = tr'"
    "code = (case r of Exits n \<Rightarrow> n | Returns None \<Rightarrow> 0 | Returns (Some err) \<Rightarrow> 1)"
    by (auto simp: main_child handleChild_def exit_code_def split: process.splits option.splits)
  from RunChildProcess_command_results [OF s] m show ?thesis
    by (auto simp: command_results_def)
qed

text \<open>The parent starts one process and waits for it once.\<close>

lemma validate_mounts_quiet:
  assumes nq: "\<And>c r. \<not> starts_or_waits c \<Longrightarrow> \<not> Q (c, r)"
  shows "filter Q (fst (validate_mounts w tr i ms)) = filter Q tr"
proof (induction ms arbitrary: tr i)
  case Nil
  show ?case by simp
next
  case (Cons m ms)
  show ?case
    by (simp add: validatePath_def fileExists_def sys_def nq starts_or_waits_def Cons.IH
        split: prod.splits bool.splits)
qed

lemma validateConfig_quiet:
  assumes nq: "\<And>c r. \<not> starts_or_waits c \<Longrightarrow> \<not> Q (c, r)"
  shows "filter Q (fst (validateConfig w tr config)) = filter Q tr"
  apply (simp add: validateConfig_def validatePath_def fileExists_def sys_def
      validate_mounts_quiet [of Q, OF nq] split: prod.splits bool.splits option.splits)
  apply (simp add: nq starts_or_waits_def)
  done

lemma make_dirs_quiet:
  assumes nq: "\<And>c r. \<not> starts_or_waits c \<Longrightarrow> \<not> Q (c, r)"
  shows "filter Q (fst (make_dirs w tr dirs)) = filter Q tr"
proof (induction dirs arbitrary: tr)
  case Nil
  show ?case by simp
next
  case (Cons d dirs)
  show ?case
    by (simp add: sys_def nq starts_or_waits_def Cons.IH split: option.splits)
qed

lemma PrepareRootFS_quiet:
  assumes nq: "\<And>c r. \<not> starts_or_waits c \<Longrightarrow> \<not> Q (c, r)"
  shows "filter Q (fst (PrepareRootFS w tr rootfsPath)) = filter Q tr"
  apply (simp add: PrepareRootFS_def split_beta make_dirs_quiet [of Q, OF nq] sys_filter
      del: make_dirs.simps)
  apply (simp add: nq starts_or_waits_def)
  done

lemma quiet_option:
  assumes "filter Q (fst a) = F" and "\<And>x. filter Q (fst (b x)) = F"
  shows "filter Q (fst (case opt of None \<Rightarrow> a | Some x \<Rightarrow> b x)) = F"
  using assms by (cases opt) auto

lemma quiet_value:
  assumes "filter Q t = F"
  shows "filter Q (fst (t, r)) = F"
  using assms by simp

lemma deferred_quiet:
  assumes "\<not> Q (c, kernel w (fst res) c)" and "filter Q (fst res) = F"
  shows "filter Q (fst (deferred w c res)) = F"
  using assms by (simp add: deferred_def sys_filter)

lemma starts_or_waits_simps:
  "\<not> starts_or_waits (os_Stat p)"
  "\<not> starts_or_waits (os_MkdirAll p md)"
  "\<not> starts_or_waits (cmd_Run name args dir)"
  "\<not> starts_or_waits Process_Kill"
  "\<not> starts_or_waits runtime_LockOSThread"
  "\<not> starts_or_waits runtime_UnlockOSThread"
  "\<not> starts_or_waits netns_Get"
  "\<not> starts_or_waits (netns_GetFromPid pid)"
  "\<not> starts_or_waits (netns_Close h)"
  "\<not> starts_or_waits (netns_Set h)"
  "\<not> starts_or_waits (netlink_LinkAdd a b)"
  "\<not> starts_or_waits (netlink_LinkByName a)"
  "\<not> starts_or_waits (netlink_LinkSetUp a)"
  "\<not> starts_or_waits (netlink_AddrAdd a ip net)"
  "\<not> starts_or_waits (netlink_LinkSetNsFd a h)"
  "\<not> starts_or_waits (netlink_RouteAdd a gw)"
  by (simp_all add: starts_or_waits_def)

lemma createVethPair_quiet:
  assumes nq: "\<And>c r. \<not> starts_or_waits c \<Longrightarrow> \<not> Q (c, r)"
  shows "filter Q (fst (createVethPair w tr)) = filter Q tr"
  unfolding createVethPair_def
  by (intro quiet_bind quiet_value sys_quiet nq starts_or_waits_simps) simp_all

lemma configureHostNetwork_quiet:
  assumes nq: "\<And>c r. \<not> starts_or_waits c \<Longrightarrow> \<not> Q (c, r)"
  shows "filter Q (fst (configureHostNetwork w tr config)) = filter Q tr"
  unfolding configureHostNetwork_def
  by (intro quiet_bind quiet_option quiet_value sys_quiet nq starts_or_waits_simps) simp_all

lemma bringUpLoopback_quiet:
  assumes nq: "\<And>c r. \<not> starts_or_waits c \<Longrightarrow> \<not> Q (c, r)"
  shows "filter Q (fst (bringUpLoopback w tr)) = filter Q tr"
  unfolding bringUpLoopback_def
  by (intro quiet_bind quiet_option quiet_value sys_quiet nq starts_or_waits_simps) simp_all

lemma configureContainerNetwork_quiet:
  assumes nq: "\<And>c r. \<not> starts_or_waits c \<Longrightarrow> \<not> Q (c, r)"
  shows "filter Q (fst (configureContainerNetwork w tr config)) = filter Q tr"
  unfolding configureContainerNetwork_def
  by (intro quiet_bind quiet_option quiet_value sys_quiet nq starts_or_waits_simps)
     (simp_all add: bringUpLoopback_quiet [of Q, OF nq])

lemma setupNAT_quiet:
  assumes nq: "\<And>c r. \<not> starts_or_waits c \<Longrightarrow> \<not> Q (c, r)"
  shows "filter Q (fst (setupNAT P S (exec_Run w) tr config)) = filter Q tr"
  unfolding setupNAT_def exec_Run_def Let_def
  by (intro quiet_bind quiet_option quiet_value sys_quiet nq starts_or_waits_simps) simp_all

lemma CleanupNetwork_quiet:
  assumes nq: "\<And>c r. \<not> starts_or_waits c \<Longrightarrow> \<not> Q (c, r)"
  shows "filter Q (CleanupNetwork P S (exec_Run w) tr config) = filter Q tr"
proof (cases "P (NetworkCIDR config)")
  case None
  then show ?thesis by (simp add: CleanupNetwork_def)
next
  case (Some network)
  have run: "filter Q (fst (exec_Run w t name args)) = filter Q t" for t name args
    unfolding exec_Run_def
    by (intro sys_quiet nq starts_or_waits_simps) simp
  from Some show ?thesis
    by (simp add: CleanupNetwork_def Let_def run)
qed

lemma SetupNetworking_body_quiet:
  assumes nq: "\<And>c r. \<not> starts_or_waits c \<Longrightarrow> \<not> Q (c, r)"
  shows "filter Q (fst (SetupNetworking_body w tr config)) = filter Q tr"
  unfolding SetupNetworking_body_def
  by (intro quiet_bind quiet_option quiet_value sys_quiet nq starts_or_waits_simps)
     (simp_all add: createVethPair_quiet [of Q, OF nq] configureHostNetwork_quiet [of Q, OF nq]
        configureContainerNetwork_quiet [of Q, OF nq] setupNAT_quiet [of Q, OF nq])

lemma SetupNetworking_quiet:
  assumes nq: "\<And>c r. \<not> starts_or_waits c \<Longrightarrow> \<not> Q (c, r)"
  shows "filter Q (fst (SetupNetworking w tr pid config)) = filter Q tr"
  unfolding SetupNetworking_def
  by (intro deferred_quiet quiet_bind quiet_option quiet_value sys_quiet nq starts_or_waits_simps)
     (simp_all add: SetupNetworking_body_quiet [of Q, OF nq])

lemma started_append:
  "started (tr @ evs) = (case started evs of Some s \<Rightarrow> Some s | None \<Rightarrow> started tr)"
  by (induction tr) (auto split: option.splits)

lemma started_filter:
  "started (filter (\<lambda>ev. starts_or_waits (fst ev) \<and> fst ev \<noteq> cmd_Wait \<and> snd ev = None) tr) = started tr"
proof (induction tr)
  case Nil
  show ?case by simp
next
  case (Cons ev tr)
  obtain c r where ev: "ev = (c, r)" by (cases ev)
  show ?case
    using Cons.IH unfolding ev
    by (cases c; cases r) (simp_all add: starts_or_waits_def split: option.splits)
qed

lemma started_quiet:
  assumes "filter (\<lambda>ev. starts_or_waits (fst ev) \<and> fst ev \<noteq> cmd_Wait \<and> snd ev = None) tr'
         = filter (\<lambda>ev. starts_or_waits (fst ev) \<and> fst ev \<noteq> cmd_Wait \<and> snd ev = None) tr"
  shows "started tr' = started tr"
  using started_filter [of tr'] started_filter [of tr] assms by simp

lemma wait_results_quiet:
  assumes "filter (\<lambda>ev. fst ev = cmd_Wait) tr' = filter (\<lambda>ev. fst ev = cmd_Wait) tr"
  shows "wait_results tr' = wait_results tr"
  using assms by (simp add: wait_results_def)

lemma waits_quiet: "\<not> starts_or_waits c \<Longrightarrow> \<not> (\<lambda>ev. fst ev = cmd_Wait) (c, r)"
  by (auto simp: starts_or_waits_def)

lemma starts_quiet:
  "\<not> starts_or_waits c \<Longrightarrow>
   \<not> (\<lambda>ev. starts_or_waits (fst ev) \<and> fst ev \<noteq> cmd_Wait \<and> snd ev = None) (c, r)"
  by simp

lemma RunContainer_wait_results:
  assumes run: "RunContainer w tr config = (tr', r)" and quiet: "wait_results tr = []"
  shows "(\<exists>err. r = Some err \<and> wait_results tr' = [])
       \<or> (\<exists>tr4. started tr4 = Some (''/proc/self/exe'', ''child'' # Command config,
                                     RunContainer_env (Environ w) config)
             \<and> wait_results tr' = [kernel w tr4 cmd_Wait]
             \<and> r = map_option OS (kernel w tr4 cmd_Wait))"
proof -
  obtain tr1 r1 where s1: "validateConfig w tr config = (tr1, r1)"
    by (cases "validateConfig w tr config")
  have q1: "wait_results tr1 = []"
    using validateConfig_quiet [of "\<lambda>ev. fst ev = cmd_Wait" w tr config, OF waits_quiet] s1 quiet
    by (simp add: wait_results_def)
  show ?thesis
  proof (cases r1)
    case (Some err)
    with run s1 q1 show ?thesis by (auto simp: RunContainer_def)
  next
    case None
    note r1 = None
    obtain tr2 r2 where s2: "PrepareRootFS w tr1 (RootFS config) = (tr2, r2)"
      by (cases "PrepareRootFS w tr1 (RootFS config)")
    have q2: "wait_results tr2 = []"
      using PrepareRootFS_quiet [of "\<lambda>ev. fst ev = cmd_Wait" w tr1 "RootFS config", OF waits_quiet] s2 q1
      by (simp add: wait_results_def)
    show ?thesis
    proof (cases r2)
      case (Some err)
      with run s1 r1 s2 q2 show ?thesis by (auto simp: RunContainer_def)
    next
      case None
      note r2 = None
      let ?start = "cmd_Start ''/proc/self/exe'' ([''child''] @ Command config)
                      (RunContainer_env (Environ w) config)"
      obtain tr3 r3 where s3: "sys w ?start tr2 = (tr3, r3)"
        by (cases "sys w ?start tr2")
      have q3: "wait_results tr3 = []"
        using s3 q2 by (auto simp: sys_def wait_results_def)
      show ?thesis
      proof (cases r3)
        case (Some err)
        with run s1 r1 s2 r2 s3 q3 show ?thesis by (auto simp: RunContainer_def)
      next
        case None
        note r3 = None
        from s3 r3 have tr3: "tr3 = tr2 @ [(?start, None)]"
          by (auto simp: sys_def)
        have st3: "started tr3 = Some (''/proc/self/exe'', ''child'' # Command config,
                                     RunContainer_env (Environ w) config)"
          unfolding tr3 by (simp add: started_append)
        obtain tr4 r4 where s4: "SetupNetworking w tr3 (ChildPid w) config = (tr4, r4)"
          by (cases "SetupNetworking w tr3 (ChildPid w) config")
        have q4: "wait_results tr4 = []"
          using SetupNetworking_quiet [of "\<lambda>ev. fst ev = cmd_Wait" w tr3 "ChildPid w" config,
                  OF waits_quiet] s4 q3
          by (simp add: wait_results_def)
        have "started tr4 = started tr3"
          by (rule started_quiet)
             (use SetupNetworking_quiet
                    [where Q = "\<lambda>ev. starts_or_waits (fst ev) \<and> fst ev \<noteq> cmd_Wait \<and> snd ev = None"
                       and w = w and tr = tr3 and pid = "ChildPid w" and config = config]
                  s4
               in simp)
        with st3 have st4: "started tr4 = Some (''/proc/self/exe'', ''child'' # Command config,
                                     RunContainer_env (Environ w) config)"
          by simp
        show ?thesis
        proof (cases r4)
          case (Some err)
          have "wait_results (fst (sys w Process_Kill tr4)) = []"
            using q4 by (simp add: sys_def wait_results_def)
          with Some run s1 r1 s2 r2 s3 r3 s4 show ?thesis
            by (auto simp: RunContainer_def)
        next
          case None
          let ?tr5 = "fst (sys w cmd_Wait tr4)"
          have tr': "tr' = CleanupNetwork (net_ParseCIDR w) (\<lambda>network. network) (exec_Run w) ?tr5 config"
            and r: "r = map_option OS (kernel w tr4 cmd_Wait)"
            using None run s1 r1 s2 r2 s3 r3 s4
            by (auto simp: RunContainer_def Let_def split_beta sys_def)
          have "wait_results tr' = wait_results ?tr5"
            unfolding tr'
            by (rule wait_results_quiet, rule CleanupNetwork_quiet [where Q = "\<lambda>ev. fst ev = cmd_Wait"])
               (auto simp: starts_or_waits_def)
          then have "wait_results tr' = [kernel w tr4 cmd_Wait]"
            using q4 by (simp add: sys_def wait_results_def)
          with st4 r show ?thesis by blast
        qed
      qed
    qed
  qed
qed

lemma main_run_exit_code:
  assumes "main w (prog # ''run'' # args) = (tr, code)"
  shows "(Geteuid w \<noteq> 0 \<and> tr = [] \<and> code = 1)
       \<or> (\<exists>n. ParseFlags (flag_Parse w) (Getwd w) args = Exits n \<and> tr = [] \<and> code = n)
       \<or> (\<exists>err. ParseFlags (flag_Parse w) (Getwd w) args = Returns (Inl err) \<and> tr = [] \<and> code = 1)
       \<or> (\<exists>config r. Geteuid w = 0
             \<and> ParseFlags (flag_Parse w) (Getwd w) args = Returns (Inr config)
             \<and> RunContainer w [] config = (tr, r)
             \<and> code = (if r = None then 0 else 1))"
proof (cases "Geteuid w = 0")
  case False
  with assms show ?thesis by (auto simp: main_run checkRoot_def)
next
  case True
  then have m: "(tr, code) = exit_code (handleRun w [] args)"
    using assms by (simp add: main_run checkRoot_def)
  show ?thesis
  proof (cases "ParseFlags (flag_Parse w) (Getwd w) args")
    case (Exits n)
    with m show ?thesis by (simp add: handleRun_def exit_code_def)
  next
    case (Returns res)
    show ?thesis
    proof (cases res)
      case (Inl err)
      with Returns m show ?thesis by (simp add: handleRun_def exit_code_def)
    next
      case (Inr config)
      obtain t r where rc: "RunContainer w [] config = (t, r)"
        by (cases "RunContainer w [] config")
      with Returns Inr m have "tr = t" "code = (if r = None then 0 else 1)"
        by (auto simp: handleRun_def exit_code_def split: option.splits)
      with True Returns Inr rc show ?thesis by simp
    qed
  qed
qed

lemma main_run_wait_results:
  assumes "main w (prog # ''run'' # args) = (tr, code)"
    and "ParseFlags (flag_Parse w) (Getwd w) args = Returns res"
  shows "(code = 0 \<and> wait_results tr = [None])
       \<or> (code = 1 \<and> (\<exists>e. wait_results tr = [Some e]))
       \<or> (code = 1 \<and> wait_results tr = [])"
proof -
  from main_run_exit_code [OF assms(1)] assms(2)
  consider "tr = []" "code = 1"
    | config r where "RunContainer w [] config = (tr, r)" "code = (if r = None then 0 else 1)"
    by auto
  then show ?thesis
  proof cases
    case 1
    then show ?thesis by (simp add: wait_results_def)
  next
    case 2
    from RunContainer_wait_results [OF 2(1)] 2(2) show ?thesis
      by (auto simp: wait_results_def)
  qed
qed

lemma with_child_fields:
  "Geteuid (with_child host cont) = Geteuid host"
  "Environ (with_child host cont) = Environ host"
  "Getwd (with_child host cont) = Getwd host"
  "flag_Parse (with_child host cont) = flag_Parse host"
  by (simp_all add: with_child_def)

lemma with_child_Wait:
  "started tr = Some (path, args, env) \<Longrightarrow>
   kernel (with_child host cont) tr cmd_Wait =
     wait_status (snd (main (cont\<lparr>Environ := env\<rparr>) (path # args)))"
  by (simp add: with_child_def)

lemma parent_exit_code:
  assumes root: "Geteuid host = 0"
    and flags: "ParseFlags (flag_Parse host) (Getwd host) args = Returns (Inr config)"
    and waited: "wait_results (fst (main (with_child host cont) (prog # ''run'' # args))) \<noteq> []"
  shows "snd (main (with_child host cont) (prog # ''run'' # args)) =
     (if snd (main (cont\<lparr>Environ := RunContainer_env (Environ host) config\<rparr>)
                (''/proc/self/exe'' # ''child'' # Command config)) = 0
      then 0 else 1)"
proof -
  let ?W = "with_child host cont"
  obtain tr code where m: "main ?W (prog # ''run'' # args) = (tr, code)"
    by (cases "main ?W (prog # ''run'' # args)")
  from main_run_exit_code [OF m] root flags waited m
  obtain r where rc: "RunContainer ?W [] config = (tr, r)"
    and code: "code = (if r = None then 0 else 1)"
    by (auto simp: with_child_fields wait_results_def)
  have "wait_results ([] :: event list) = []" by (simp add: wait_results_def)
  from RunContainer_wait_results [OF rc this] waited m
  obtain tr4 where st: "started tr4 = Some (''/proc/self/exe'', ''child'' # Command config,
                                     RunContainer_env (Environ ?W) config)"
    and r: "r = map_option OS (kernel ?W tr4 cmd_Wait)"
    by auto
  from with_child_Wait [OF st, of host cont] r
  have "r = map_option OS (wait_status (snd (main
            (cont\<lparr>Environ := RunContainer_env (Environ host) config\<rparr>)
            (''/proc/self/exe'' # ''child'' # Command config))))"
    by (simp add: with_child_fields)
  with code m show ?thesis
    by (simp add: wait_status_def)
qed

lemma RunChildProcess_config_error:
  "configFromEnv (Environ w) = Inl err \<Longrightarrow>
   RunChildProcess w tr command = (tr, Returns (Some (FailedToParseConfigFromEnv err)))"
  by (simp add: RunChildProcess_def)

lemma RunChildProcess_cgroup_error:
  "configFromEnv (Environ w) = Inr config \<Longrightarrow>
   SetupCgroups w tr NewDefaultCgroupConfig = (tr1, Some err) \<Longrightarrow>
   RunChildProcess w tr command = (tr1, Returns (Some (FailedToSetupCgroups err)))"
  by (simp add: RunChildProcess_def)

lemma RunChildProcess_filesystem_error:
  "configFromEnv (Environ w) = Inr config \<Longrightarrow>
   SetupCgroups w tr NewDefaultCgroupConfig = (tr1, None) \<Longrightarrow>
   SetupFilesystem w tr1 config = (tr2, Some err) \<Longrightarrow>
   RunChildProcess w tr command = (tr2, Returns (Some (FailedToSetupFilesystem err)))"
  by (simp add: RunChildProcess_def)

lemma RunChildProcess_panics:
  assumes "command \<noteq> []"
  shows "(\<exists>n. snd (RunChildProcess w tr command) = Exits n) \<longleftrightarrow>
     (\<exists>config tr1 tr2 e. configFromEnv (Environ w) = Inr config
        \<and> SetupCgroups w tr NewDefaultCgroupConfig = (tr1, None)
        \<and> SetupFilesystem w tr1 config = (tr2, None)
        \<and> kernel w tr2 (os_Stat ''/app'') = Some e \<and> e \<noteq> ENOENT)"
proof (cases "configFromEnv (Environ w)")
  case (Inl err)
  then show ?thesis by (simp add: RunChildProcess_def)
next
  case (Inr config)
  obtain tr1 r1 where s1: "SetupCgroups w tr NewDefaultCgroupConfig = (tr1, r1)"
    by (cases "SetupCgroups w tr NewDefaultCgroupConfig")
  show ?thesis
  proof (cases r1)
    case (Some err)
    with Inr s1 show ?thesis by (simp add: RunChildProcess_def)
  next
    case None
    note r1 = None
    obtain tr2 r2 where s2: "SetupFilesystem w tr1 config = (tr2, r2)"
      by (cases "SetupFilesystem w tr1 config")
    show ?thesis
    proof (cases r2)
      case (Some err)
      with Inr s1 r1 s2 show ?thesis by (simp add: RunChildProcess_def)
    next
      case None
      with Inr s1 r1 s2 assms show ?thesis
        by (cases "kernel w tr2 (os_Stat ''/app'')")
           (auto simp: RunChildProcess_def dirExists_def sys_def Let_def split_beta)
    qed
  qed
qed

lemma main_child_panics:
  "snd (main w (self # ''child'' # command)) = 2 \<longleftrightarrow>
     Geteuid w = 0 \<and> command \<noteq> []
     \<and> (\<exists>config tr1 tr2 e. configFromEnv (Environ w) = Inr config
          \<and> SetupCgroups w [] NewDefaultCgroupConfig = (tr1, None)
          \<and> SetupFilesystem w tr1 config = (tr2, None)
          \<and> kernel w tr2 (os_Stat ''/app'') = Some e \<and> e \<noteq> ENOENT)"
proof (cases "Geteuid w = 0 \<and> command \<noteq> []")
  case False
  then show ?thesis
    by (auto simp: main_child checkRoot_def handleChild_def exit_code_def)
next
  case True
  obtain tr r where s: "RunChildProcess w [] command = (tr, r)"
    by (cases "RunChildProcess w [] command")
  have "command_results ([] :: event list) = []" by (simp add: command_results_def)
  from RunChildProcess_command_results [OF s this]
  have two: "(\<exists>n. r = Exits n) \<longleftrightarrow> r = Exits 2" by auto
  from True s have "snd (main w (self # ''child'' # command)) = 2 \<longleftrightarrow> r = Exits 2"
    by (auto simp: main_child checkRoot_def handleChild_def exit_code_def
          split: process.splits option.splits)
  with two RunChildProcess_panics [of command w "[]"] True s show ?thesis
    by simp
qed

lemma main_child_reported:
  assumes "Geteuid w = 0" and "command \<noteq> []"
    and "RunChildProcess w [] command = (tr, Returns (Some err))"
  shows "main w (self # ''child'' # command) = (tr, 1)"
  using assms by (simp add: main_child checkRoot_def handleChild_def exit_code_def)

lemma main_run_reported:
  assumes "Geteuid w = 0"
    and "ParseFlags (flag_Parse w) (Getwd w) args = Returns (Inr config)"
    and "RunContainer w [] config = (tr, Some err)"
  shows "main w (prog # ''run'' # args) = (tr, 1)"
  using assms by (simp add: main_run checkRoot_def handleRun_def exit_code_def)

lemma main_run_flags_error:
  assumes "ParseFlags (flag_Parse w) (Getwd w) args = Returns (Inl err)"
  shows "main w (prog # ''run'' # args) = ([], 1)"
  using assms by (simp add: main_run checkRoot_def handleRun_def exit_code_def)

text \<open>
  Claim C4, as the code has it. The child (\<^verbatim>\<open>child\<close> as first argument) ends with code
  0 exactly when the one command it ran, the user command, returned without error; when
  the user command failed, with whatever status, the code is 1. The errors the child
  reports end it with code 1: no command, a configuration that cannot be read from the
  environment, a failure of the cgroup setup or of the filesystem setup. The only other
  code is 2, which is the code of a panic: it occurs exactly when, after the setup,
  \<^verbatim>\<open>os.Stat\<close> of \<^verbatim>\<open>/app\<close> fails with another error than \<^verbatim>\<open>ENOENT\<close>. The runtime
  (\<^verbatim>\<open>run\<close> as first argument) ends with the code the flag library ends the process
  with when it does so; otherwise with 0 exactly when \<^verbatim>\<open>cmd.Wait()\<close> returned without
  error and with 1 in every other case: an error returned by \<^verbatim>\<open>ParseFlags\<close> or by
  \<^verbatim>\<open>RunContainer\<close> ends it with 1. A process that is not root ends with 1. With the
  child being this program again, the runtime that got as far as waiting ends with 0 if
  the child ended with 0 and with 1 otherwise: with 0 when the user command exited
  cleanly, with 1 when it failed, whatever its status.
\<close>

theorem exit_code_of_the_runtime:
  "(snd (main w (self # ''child'' # command)) = 0 \<longleftrightarrow>
      command_results (fst (main w (self # ''child'' # command))) = [None])
   \<and> (command_results (fst (main w (self # ''child'' # command))) = [Some e] \<longrightarrow>
        snd (main w (self # ''child'' # command)) = 1)
   \<and> (command_results (fst (main w (self # ''child'' # command))) = [] \<longrightarrow>
        snd (main w (self # ''child'' # command)) = 1
        \<or> snd (main w (self # ''child'' # command)) = 2)
   \<and> (snd (main w (self # ''child'' # command)) = 2 \<longleftrightarrow>
        Geteuid w = 0 \<and> command \<noteq> []
        \<and> (\<exists>config tr1 tr2 e. configFromEnv (Environ w) = Inr config
             \<and> SetupCgroups w [] NewDefaultCgroupConfig = (tr1, None)
             \<and> SetupFilesystem w tr1 config = (tr2, None)
             \<and> kernel w tr2 (os_Stat ''/app'') = Some e \<and> e \<noteq> ENOENT))
   \<and> main w [self, ''child''] = ([], 1)
   \<and> (configFromEnv (Environ w) = Inl cerr \<longrightarrow> main w (self # ''child'' # command) = ([], 1))
   \<and> (Geteuid w = 0 \<and> command \<noteq> [] \<and> configFromEnv (Environ w) = Inr cconfig
        \<and> SetupCgroups w [] NewDefaultCgroupConfig = (tra, Some gerr) \<longrightarrow>
        main w (self # ''child'' # command) = (tra, 1))
   \<and> (Geteuid w = 0 \<and> command \<noteq> [] \<and> configFromEnv (Environ w) = Inr cconfig
        \<and> SetupCgroups w [] NewDefaultCgroupConfig = (tra, None)
        \<and> SetupFilesystem w tra cconfig = (trb, Some ferr) \<longrightarrow>
        main w (self # ''child'' # command) = (trb, 1))
   \<and> (ParseFlags (flag_Parse w) (Getwd w) args = Returns res \<longrightarrow>
        (snd (main w (prog # ''run'' # args)) = 0 \<longleftrightarrow>
           wait_results (fst (main w (prog # ''run'' # args))) = [None])
        \<and> (snd (main w (prog # ''run'' # args)) = 0 \<or> snd (main w (prog # ''run'' # args)) = 1))
   \<and> (Geteuid w = 0 \<and> ParseFlags (flag_Parse w) (Getwd w) args = Exits n \<longrightarrow>
        main w (prog # ''run'' # args) = ([], n))
   \<and> (Geteuid w \<noteq> 0 \<longrightarrow>
        main w (prog # ''run'' # args) = ([], 1) \<and> main w (self # ''child'' # command) = ([], 1))
   \<and> (ParseFlags (flag_Parse w) (Getwd w) args = Returns (Inl perr) \<longrightarrow>
        main w (prog # ''run'' # args) = ([], 1))
   \<and> (Geteuid w = 0 \<and> ParseFlags (flag_Parse w) (Getwd w) args = Returns (Inr pconfig)
        \<and> RunContainer w [] pconfig = (trc, Some rerr) \<longrightarrow>
        main w (prog # ''run'' # args) = (trc, 1))
   \<and> (Geteuid host = 0
        \<and> ParseFlags (flag_Parse host) (Getwd host) args = Returns (Inr config)
        \<and> wait_results (fst (main (with_child host cont) (prog # ''run'' # args))) \<noteq> [] \<longrightarrow>
        snd (main (with_child host cont) (prog # ''run'' # args)) =
          (if snd (main (cont\<lparr>Environ := RunContainer_env (Environ host) config\<rparr>)
                     (''/proc/self/exe'' # ''child'' # Command config)) = 0
           then 0 else 1))
   \<and> (Geteuid host = 0
        \<and> ParseFlags (flag_Parse host) (Getwd host) args = Returns (Inr config)
        \<and> wait_results (fst (main (with_child host cont) (prog # ''run'' # args))) \<noteq> []
        \<and> command_results (fst (main (cont\<lparr>Environ := RunContainer_env (Environ host) config\<rparr>)
                     (''/proc/self/exe'' # ''child'' # Command config))) = [None] \<longrightarrow>
        snd (main (with_child host cont) (prog # ''run'' # args)) = 0)
   \<and> (Geteuid host = 0
        \<and> ParseFlags (flag_Parse host) (Getwd host) args = Returns (Inr config)
        \<and> wait_results (fst (main (with_child host cont) (prog # ''run'' # args))) \<noteq> []
        \<and> command_results (fst (main (cont\<lparr>Environ := RunContainer_env (Environ host) config\<rparr>)
                     (''/proc/self/exe'' # ''child'' # Command config))) = [Some status] \<longrightarrow>
        snd (main (with_child host cont) (prog # ''run'' # args)) = 1)"
proof -
  obtain tr code where m: "main w (self # ''child'' # command) = (tr, code)"
    by (cases "main w (self # ''child'' # command)")
  note c = main_child_exit_code [OF m]
  from c have c1: "snd (main w (self # ''child'' # command)) = 0 \<longleftrightarrow>
      command_results (fst (main w (self # ''child'' # command))) = [None]"
    unfolding m by auto
  from c have c2: "command_results (fst (main w (self # ''child'' # command))) = [Some e] \<longrightarrow>
        snd (main w (self # ''child'' # command)) = 1"
    unfolding m by auto
  from c have c3: "command_results (fst (main w (self # ''child'' # command))) = [] \<longrightarrow>
        snd (main w (self # ''child'' # command)) = 1
        \<or> snd (main w (self # ''child'' # command)) = 2"
    unfolding m by auto
  note c4 = main_child_panics [of w self command]
  have c5: "main w [self, ''child''] = ([], 1)"
    by (simp add: main_child handleChild_def exit_code_def)
  have c6: "configFromEnv (Environ w) = Inl cerr \<longrightarrow> main w (self # ''child'' # command) = ([], 1)"
    by (simp add: main_child handleChild_def exit_code_def RunChildProcess_config_error)
  have c7: "Geteuid w = 0 \<and> command \<noteq> [] \<and> configFromEnv (Environ w) = Inr cconfig
        \<and> SetupCgroups w [] NewDefaultCgroupConfig = (tra, Some gerr) \<longrightarrow>
        main w (self # ''child'' # command) = (tra, 1)"
    using main_child_reported [of w command tra _ self] RunChildProcess_cgroup_error [of w cconfig "[]" tra gerr command]
    by blast
  have c8: "Geteuid w = 0 \<and> command \<noteq> [] \<and> configFromEnv (Environ w) = Inr cconfig
        \<and> SetupCgroups w [] NewDefaultCgroupConfig = (tra, None)
        \<and> SetupFilesystem w tra cconfig = (trb, Some ferr) \<longrightarrow>
        main w (self # ''child'' # command) = (trb, 1)"
    using main_child_reported [of w command trb _ self]
      RunChildProcess_filesystem_error [of w cconfig "[]" tra trb ferr command]
    by blast
  have p1: "ParseFlags (flag_Parse w) (Getwd w) args = Returns res \<longrightarrow>
        (snd (main w (prog # ''run'' # args)) = 0 \<longleftrightarrow>
           wait_results (fst (main w (prog # ''run'' # args))) = [None])
        \<and> (snd (main w (prog # ''run'' # args)) = 0 \<or> snd (main w (prog # ''run'' # args)) = 1)"
  proof
    assume pf: "ParseFlags (flag_Parse w) (Getwd w) args = Returns res"
    obtain tr code where m: "main w (prog # ''run'' # args) = (tr, code)"
      by (cases "main w (prog # ''run'' # args)")
    from main_run_wait_results [OF m pf]
    show "(snd (main w (prog # ''run'' # args)) = 0 \<longleftrightarrow>
           wait_results (fst (main w (prog # ''run'' # args))) = [None])
        \<and> (snd (main w (prog # ''run'' # args)) = 0 \<or> snd (main w (prog # ''run'' # args)) = 1)"
      unfolding m by auto
  qed
  have p2: "Geteuid w = 0 \<and> ParseFlags (flag_Parse w) (Getwd w) args = Exits n \<longrightarrow>
        main w (prog # ''run'' # args) = ([], n)"
    by (simp add: main_run checkRoot_def handleRun_def exit_code_def)
  have p3: "Geteuid w \<noteq> 0 \<longrightarrow>
        main w (prog # ''run'' # args) = ([], 1) \<and> main w (self # ''child'' # command) = ([], 1)"
    by (simp add: main_run main_child checkRoot_def)
  have p4: "ParseFlags (flag_Parse w) (Getwd w) args = Returns (Inl perr) \<longrightarrow>
        main w (prog # ''run'' # args) = ([], 1)"
    using main_run_flags_error [of w args perr prog] by blast
  have p5: "Geteuid w = 0 \<and> ParseFlags (flag_Parse w) (Getwd w) args = Returns (Inr pconfig)
        \<and> RunContainer w [] pconfig = (trc, Some rerr) \<longrightarrow>
        main w (prog # ''run'' # args) = (trc, 1)"
    using main_run_reported [of w args pconfig trc rerr prog] by blast
  let ?child = "main (cont\<lparr>Environ := RunContainer_env (Environ host) config\<rparr>)
                     (''/proc/self/exe'' # ''child'' # Command config)"
  have b1: "Geteuid host = 0
        \<and> ParseFlags (flag_Parse host) (Getwd host) args = Returns (Inr config)
        \<and> wait_results (fst (main (with_child host cont) (prog # ''run'' # args))) \<noteq> [] \<longrightarrow>
        snd (main (with_child host cont) (prog # ''run'' # args)) =
          (if snd ?child = 0 then 0 else 1)"
    using parent_exit_code [of host args config cont prog] by blast
  obtain ctr ccode where cm: "?child = (ctr, ccode)"
    by (cases ?child)
  note cc = main_child_exit_code [OF cm]
  from cc have z: "command_results (fst ?child) = [None] \<longrightarrow> snd ?child = 0"
    unfolding cm by auto
  from cc have o: "command_results (fst ?child) = [Some status] \<longrightarrow> snd ?child = 1"
    unfolding cm by auto
  from b1 z have b2: "Geteuid host = 0
        \<and> ParseFlags (flag_Parse host) (Getwd host) args = Returns (Inr config)
        \<and> wait_results (fst (main (with_child host cont) (prog # ''run'' # args))) \<noteq> []
        \<and> command_results (fst ?child) = [None] \<longrightarrow>
        snd (main (with_child host cont) (prog # ''run'' # args)) = 0"
    by simp
  from b1 o have b3: "Geteuid host = 0
        \<and> ParseFlags (flag_Parse host) (Getwd host) args = Returns (Inr config)
        \<and> wait_results (fst (main (with_child host cont) (prog # ''run'' # args))) \<noteq> []
        \<and> command_results (fst ?child) = [Some status] \<longrightarrow>
        snd (main (with_child host cont) (prog # ''run'' # args)) = 1"
    by simp
  from c1 c2 c3 c4 c5 c6 c7 c8 p1 p2 p3 p4 p5 b1 b2 b3 show ?thesis
    by (intro conjI)
qed

text \<open>
  The theorem on runs of the default configuration: a user command that ends with status
  3, a user command that succeeds, a user who is not root, a flag the library refuses,
  no command, a root filesystem that does not exist, an environment with a mount count
  of 0, a cgroup file that cannot be written, a \<^verbatim>\<open>chroot\<close> that is not permitted, and
  an \<^verbatim>\<open>/app\<close> that cannot be looked at.
\<close>

theorem exit_code_of_the_runtime_witness:
  "snd (main (shell_exits_3\<lparr>Environ := RunContainer_env (Environ idle)
                (NewDefaultConfig\<lparr>Mounts := [\<lparr>Source = ''/work'', Destination = ''/app'', ReadOnly = False\<rparr>],
                   Command := [''/bin/sh'', ''-c'', ''exit 3'']\<rparr>)\<rparr>)
          [''/proc/self/exe'', ''child'', ''/bin/sh'', ''-c'', ''exit 3'']) = 1
   \<and> snd (main (with_child idle shell_exits_3)
            [''container'', ''run'', ''/bin/sh'', ''-c'', ''exit 3'']) = 1
   \<and> snd (main (with_child idle idle) [''container'', ''run'', ''/bin/true'']) = 0
   \<and> main (idle\<lparr>Geteuid := 1000\<rparr>) [''container'', ''run'', ''/bin/true''] = ([], 1)
   \<and> main (idle\<lparr>flag_Parse := (\<lambda>flags args. Exits 2)\<rparr>)
         [''container'', ''run'', ''--bogus'', ''/bin/true''] = ([], 2)
   \<and> main idle [''container'', ''run''] = ([], 1)
   \<and> main (idle\<lparr>kernel := (\<lambda>tr c. case c of os_Stat p \<Rightarrow> Some ENOENT | _ \<Rightarrow> None)\<rparr>)
         [''container'', ''run'', ''/bin/true'']
       = ([(os_Stat ''./namespace_fs'', Some ENOENT)], 1)
   \<and> main (idle\<lparr>Environ := [''CONTAINER_MOUNT_COUNT=0'']\<rparr>)
         [''/proc/self/exe'', ''child'', ''/bin/true''] = ([], 1)
   \<and> snd (main (idle\<lparr>kernel := (\<lambda>tr c. case c of
                      ioutil_WriteFile p v md \<Rightarrow> Some (OtherError ''EACCES'') | _ \<Rightarrow> None),
                    Environ := [''CONTAINER_HOSTNAME=box'', ''CONTAINER_ROOTFS=/rootfs'']\<rparr>)
         [''/proc/self/exe'', ''child'', ''/bin/true'']) = 1
   \<and> snd (main (idle\<lparr>kernel := (\<lambda>tr c. case c of
                      syscall_Chroot p \<Rightarrow> Some (OtherError ''EPERM'') | _ \<Rightarrow> None),
                    Environ := [''CONTAINER_HOSTNAME=box'', ''CONTAINER_ROOTFS=/rootfs'']\<rparr>)
         [''/proc/self/exe'', ''child'', ''/bin/true'']) = 1
   \<and> snd (main (idle\<lparr>kernel := (\<lambda>tr c. if c = os_Stat ''/app'' then Some (OtherError ''EACCES'')
                                         else None),
                    Environ := [''CONTAINER_HOSTNAME=box'', ''CONTAINER_ROOTFS=/rootfs'']\<rparr>)
         [''/proc/self/exe'', ''child'', ''/bin/true'']) = 2"
proof -
  let ?cfg = "NewDefaultConfig\<lparr>Mounts := [\<lparr>Source = ''/work'', Destination = ''/app'', ReadOnly = False\<rparr>],
                   Command := [''/bin/sh'', ''-c'', ''exit 3'']\<rparr>"
  let ?child = "shell_exits_3\<lparr>Environ := RunContainer_env (Environ idle) ?cfg\<rparr>"
  note a = exit_code_of_the_runtime
    [where w = ?child and self = "''/proc/self/exe''" and command = "[''/bin/sh'', ''-c'', ''exit 3'']"
       and e = "ExitError 3" and status = "ExitError 3" and host = idle and cont = shell_exits_3
       and prog = "''container''" and args = "[''/bin/sh'', ''-c'', ''exit 3'']" and config = ?cfg]
  have failed: "command_results (fst (main ?child
      [''/proc/self/exe'', ''child'', ''/bin/sh'', ''-c'', ''exit 3''])) = [Some (ExitError 3)]"
    by code_simp
  from a [THEN conjunct2, THEN conjunct1, THEN mp, OF failed]
  have child: "snd (main ?child
      [''/proc/self/exe'', ''child'', ''/bin/sh'', ''-c'', ''exit 3'']) = 1" .
  have propagated: "Geteuid idle = 0
      \<and> ParseFlags (flag_Parse idle) (Getwd idle) [''/bin/sh'', ''-c'', ''exit 3''] =
            Returns (Inr ?cfg)
      \<and> wait_results (fst (main (with_child idle shell_exits_3)
            [''container'', ''run'', ''/bin/sh'', ''-c'', ''exit 3''])) \<noteq> []
      \<and> command_results (fst (main ?child
            (''/proc/self/exe'' # ''child'' # Command ?cfg))) = [Some (ExitError 3)]"
    by code_simp
  from a [THEN conjunct2, THEN conjunct2, THEN conjunct2, THEN conjunct2, THEN conjunct2, THEN conjunct2, THEN conjunct2, THEN conjunct2, THEN conjunct2, THEN conjunct2, THEN conjunct2, THEN conjunct2, THEN conjunct2, THEN conjunct2, THEN conjunct2, THEN mp, OF propagated]
  have parent: "snd (main (with_child idle shell_exits_3)
            [''container'', ''run'', ''/bin/sh'', ''-c'', ''exit 3'']) = 1" .
  let ?ok = "NewDefaultConfig\<lparr>Mounts := [\<lparr>Source = ''/work'', Destination = ''/app'', ReadOnly = False\<rparr>],
                   Command := [''/bin/true'']\<rparr>"
  have clean: "Geteuid idle = 0
      \<and> ParseFlags (flag_Parse idle) (Getwd idle) [''/bin/true''] = Returns (Inr ?ok)
      \<and> wait_results (fst (main (with_child idle idle)
            [''container'', ''run'', ''/bin/true''])) \<noteq> []
      \<and> command_results (fst (main (idle\<lparr>Environ := RunContainer_env (Environ idle) ?ok\<rparr>)
            (''/proc/self/exe'' # ''child'' # Command ?ok))) = [None]"
    by code_simp
  from exit_code_of_the_runtime
    [where host = idle and cont = idle and prog = "''container''" and args = "[''/bin/true'']"
       and config = ?ok, THEN conjunct2, THEN conjunct2, THEN conjunct2, THEN conjunct2, THEN conjunct2, THEN conjunct2, THEN conjunct2, THEN conjunct2, THEN conjunct2, THEN conjunct2, THEN conjunct2, THEN conjunct2, THEN conjunct2, THEN conjunct2, THEN conjunct1, THEN mp, OF clean]
  have ok: "snd (main (with_child idle idle) [''container'', ''run'', ''/bin/true'']) = 0" .
  have "Geteuid (idle\<lparr>Geteuid := 1000\<rparr>) \<noteq> 0" by simp
  from exit_code_of_the_runtime
    [where w = "idle\<lparr>Geteuid := 1000\<rparr>" and prog = "''container''" and args = "[''/bin/true'']",
       THEN conjunct2, THEN conjunct2, THEN conjunct2, THEN conjunct2, THEN conjunct2, THEN conjunct2, THEN conjunct2, THEN conjunct2, THEN conjunct2, THEN conjunct2, THEN conjunct1, THEN mp, OF this, THEN conjunct1]
  have user: "main (idle\<lparr>Geteuid := 1000\<rparr>) [''container'', ''run'', ''/bin/true''] = ([], 1)" .
  have "Geteuid (idle\<lparr>flag_Parse := (\<lambda>flags args. Exits 2)\<rparr>) = 0
      \<and> ParseFlags (flag_Parse (idle\<lparr>flag_Parse := (\<lambda>flags args. Exits 2)\<rparr>))
            (Getwd (idle\<lparr>flag_Parse := (\<lambda>flags args. Exits 2)\<rparr>))
            [''--bogus'', ''/bin/true''] = Exits 2"
    by code_simp
  from exit_code_of_the_runtime
    [where w = "idle\<lparr>flag_Parse := (\<lambda>flags args. Exits 2)\<rparr>" and prog = "''container''"
       and args = "[''--bogus'', ''/bin/true'']" and n = 2, THEN conjunct2, THEN conjunct2, THEN conjunct2, THEN conjunct2, THEN conjunct2, THEN conjunct2, THEN conjunct2, THEN conjunct2, THEN conjunct2, THEN conjunct1, THEN mp, OF this]
  have library: "main (idle\<lparr>flag_Parse := (\<lambda>flags args. Exits 2)\<rparr>)
         [''container'', ''run'', ''--bogus'', ''/bin/true''] = ([], 2)" .
  have "ParseFlags (flag_Parse idle) (Getwd idle) [] = Returns (Inl NoCommandSpecified)"
    by code_simp
  from exit_code_of_the_runtime
    [where w = idle and prog = "''container''" and args = "[]" and perr = NoCommandSpecified,
       THEN conjunct2, THEN conjunct2, THEN conjunct2, THEN conjunct2, THEN conjunct2, THEN conjunct2, THEN conjunct2, THEN conjunct2, THEN conjunct2, THEN conjunct2, THEN conjunct2, THEN conjunct1, THEN mp, OF this]
  have nocommand: "main idle [''container'', ''run''] = ([], 1)" .
  let ?norootfs = "idle\<lparr>kernel := (\<lambda>tr c. case c of os_Stat p \<Rightarrow> Some ENOENT | _ \<Rightarrow> None)\<rparr>"
  have "Geteuid ?norootfs = 0
      \<and> ParseFlags (flag_Parse ?norootfs) (Getwd ?norootfs) [''/bin/true''] = Returns (Inr ?ok)
      \<and> RunContainer ?norootfs [] ?ok =
          ([(os_Stat ''./namespace_fs'', Some ENOENT)],
           Some (InvalidConfiguration (InvalidRootFSPath (PathDoesNotExist ''./namespace_fs''))))"
    by code_simp
  from exit_code_of_the_runtime
    [where w = ?norootfs and prog = "''container''" and args = "[''/bin/true'']" and pconfig = ?ok
       and trc = "[(os_Stat ''./namespace_fs'', Some ENOENT)]"
       and rerr = "InvalidConfiguration (InvalidRootFSPath (PathDoesNotExist ''./namespace_fs''))",
       THEN conjunct2, THEN conjunct2, THEN conjunct2, THEN conjunct2, THEN conjunct2, THEN conjunct2, THEN conjunct2, THEN conjunct2, THEN conjunct2, THEN conjunct2, THEN conjunct2, THEN conjunct2, THEN conjunct1, THEN mp, OF this]
  have norootfs: "main ?norootfs [''container'', ''run'', ''/bin/true'']
       = ([(os_Stat ''./namespace_fs'', Some ENOENT)], 1)" .
  have "configFromEnv (Environ (idle\<lparr>Environ := [''CONTAINER_MOUNT_COUNT=0'']\<rparr>)) =
      Inl (InvalidMountCount (PIDMustBePositive 0))"
    by code_simp
  from exit_code_of_the_runtime
    [where w = "idle\<lparr>Environ := [''CONTAINER_MOUNT_COUNT=0'']\<rparr>" and self = "''/proc/self/exe''"
       and command = "[''/bin/true'']" and cerr = "InvalidMountCount (PIDMustBePositive 0)",
       THEN conjunct2, THEN conjunct2, THEN conjunct2, THEN conjunct2, THEN conjunct2, THEN conjunct1, THEN mp, OF this]
  have badenv: "main (idle\<lparr>Environ := [''CONTAINER_MOUNT_COUNT=0'']\<rparr>)
         [''/proc/self/exe'', ''child'', ''/bin/true''] = ([], 1)" .
  let ?box = "\<lparr>Hostname = ''box'', RootFS = ''/rootfs'', Mounts = [], NetworkCIDR = '''',
                HostIP = '''', ContainerIP = '''', Command = []\<rparr>"
  let ?nowrite = "idle\<lparr>kernel := (\<lambda>tr c. case c of
                      ioutil_WriteFile p v md \<Rightarrow> Some (OtherError ''EACCES'') | _ \<Rightarrow> None),
                    Environ := [''CONTAINER_HOSTNAME=box'', ''CONTAINER_ROOTFS=/rootfs'']\<rparr>"
  have "Geteuid ?nowrite = 0 \<and> [''/bin/true''] \<noteq> ([] :: string list)
      \<and> configFromEnv (Environ ?nowrite) = Inr ?box
      \<and> SetupCgroups ?nowrite [] NewDefaultCgroupConfig =
           (fst (SetupCgroups ?nowrite [] NewDefaultCgroupConfig),
            Some (FailedToSetPidsMax (FailedToWriteTo ''/sys/fs/cgroup/namespace_test/pids.max''
                    (OtherError ''EACCES''))))"
    by code_simp
  from exit_code_of_the_runtime
    [where w = ?nowrite and self = "''/proc/self/exe''" and command = "[''/bin/true'']"
       and cconfig = ?box and tra = "fst (SetupCgroups ?nowrite [] NewDefaultCgroupConfig)"
       and gerr = "FailedToSetPidsMax (FailedToWriteTo ''/sys/fs/cgroup/namespace_test/pids.max''
                    (OtherError ''EACCES''))", THEN conjunct2, THEN conjunct2, THEN conjunct2, THEN conjunct2, THEN conjunct2, THEN conjunct2, THEN conjunct1, THEN mp, OF this]
  have "main ?nowrite [''/proc/self/exe'', ''child'', ''/bin/true''] =
      (fst (SetupCgroups ?nowrite [] NewDefaultCgroupConfig), 1)" .
  then have nowrite: "snd (main ?nowrite [''/proc/self/exe'', ''child'', ''/bin/true'']) = 1"
    by (rule arg_cong [where f = snd, THEN trans]) (rule snd_conv)
  let ?nochroot = "idle\<lparr>kernel := (\<lambda>tr c. case c of
                      syscall_Chroot p \<Rightarrow> Some (OtherError ''EPERM'') | _ \<Rightarrow> None),
                    Environ := [''CONTAINER_HOSTNAME=box'', ''CONTAINER_ROOTFS=/rootfs'']\<rparr>"
  have "Geteuid ?nochroot = 0 \<and> [''/bin/true''] \<noteq> ([] :: string list)
      \<and> configFromEnv (Environ ?nochroot) = Inr ?box
      \<and> SetupCgroups ?nochroot [] NewDefaultCgroupConfig =
           (fst (SetupCgroups ?nochroot [] NewDefaultCgroupConfig), None)
      \<and> SetupFilesystem ?nochroot (fst (SetupCgroups ?nochroot [] NewDefaultCgroupConfig)) ?box =
           (fst (SetupFilesystem ?nochroot (fst (SetupCgroups ?nochroot [] NewDefaultCgroupConfig)) ?box),
            Some (FailedToChroot ''/rootfs'' (OtherError ''EPERM'')))"
    by code_simp
  from exit_code_of_the_runtime
    [where w = ?nochroot and self = "''/proc/self/exe''" and command = "[''/bin/true'']"
       and cconfig = ?box and tra = "fst (SetupCgroups ?nochroot [] NewDefaultCgroupConfig)"
       and trb = "fst (SetupFilesystem ?nochroot (fst (SetupCgroups ?nochroot [] NewDefaultCgroupConfig)) ?box)"
       and ferr = "FailedToChroot ''/rootfs'' (OtherError ''EPERM'')", THEN conjunct2, THEN conjunct2, THEN conjunct2, THEN conjunct2, THEN conjunct2, THEN conjunct2, THEN conjunct2, THEN conjunct1, THEN mp, OF this]
  have "main ?nochroot [''/proc/self/exe'', ''child'', ''/bin/true''] =
      (fst (SetupFilesystem ?nochroot (fst (SetupCgroups ?nochroot [] NewDefaultCgroupConfig)) ?box), 1)" .
  then have nochroot: "snd (main ?nochroot [''/proc/self/exe'', ''child'', ''/bin/true'']) = 1"
    by (rule arg_cong [where f = snd, THEN trans]) (rule snd_conv)
  let ?noapp = "idle\<lparr>kernel := (\<lambda>tr c. if c = os_Stat ''/app'' then Some (OtherError ''EACCES'')
                                         else None),
                    Environ := [''CONTAINER_HOSTNAME=box'', ''CONTAINER_ROOTFS=/rootfs'']\<rparr>"
  let ?tra = "fst (SetupCgroups ?noapp [] NewDefaultCgroupConfig)"
  let ?trb = "fst (SetupFilesystem ?noapp ?tra ?box)"
  have reached: "configFromEnv (Environ ?noapp) = Inr ?box
      \<and> SetupCgroups ?noapp [] NewDefaultCgroupConfig = (?tra, None)
      \<and> SetupFilesystem ?noapp ?tra ?box = (?trb, None)
      \<and> kernel ?noapp ?trb (os_Stat ''/app'') = Some (OtherError ''EACCES'')
      \<and> OtherError ''EACCES'' \<noteq> ENOENT"
    by code_simp
  have "Geteuid ?noapp = 0 \<and> [''/bin/true''] \<noteq> ([] :: string list)
      \<and> (\<exists>config tr1 tr2 e. configFromEnv (Environ ?noapp) = Inr config
             \<and> SetupCgroups ?noapp [] NewDefaultCgroupConfig = (tr1, None)
             \<and> SetupFilesystem ?noapp tr1 config = (tr2, None)
             \<and> kernel ?noapp tr2 (os_Stat ''/app'') = Some e \<and> e \<noteq> ENOENT)"
  proof (intro conjI)
    show "Geteuid ?noapp = 0" by (simp add: idle_def)
    show "[''/bin/true''] \<noteq> ([] :: string list)" by simp
    show "\<exists>config tr1 tr2 e. configFromEnv (Environ ?noapp) = Inr config
             \<and> SetupCgroups ?noapp [] NewDefaultCgroupConfig = (tr1, None)
             \<and> SetupFilesystem ?noapp tr1 config = (tr2, None)
             \<and> kernel ?noapp tr2 (os_Stat ''/app'') = Some e \<and> e \<noteq> ENOENT"
      by (rule exI [where x = ?box], rule exI [where x = ?tra], rule exI [where x = ?trb],
          rule exI [where x = "OtherError ''EACCES''"]) (rule reached)
  qed
  from exit_code_of_the_runtime
    [where w = ?noapp and self = "''/proc/self/exe''" and command = "[''/bin/true'']",
       THEN conjunct2, THEN conjunct2, THEN conjunct2, THEN conjunct1, THEN iffD2, OF this]
  have noapp: "snd (main ?noapp [''/proc/self/exe'', ''child'', ''/bin/true'']) = 2" .
  from child parent ok user library nocommand norootfs badenv nowrite nochroot noapp
  show ?thesis by (intro conjI)
qed

text \<open>
  A user command that ends with status 3: the child reports the failure and ends with
  code 1, the parent's \<^verbatim>\<open>cmd.Wait()\<close> returns the exit error of status 1, and the
  runtime ends with code 1. The status 3 does not reach the caller.
\<close>

theorem exit_status_of_the_command_is_not_propagated:
  "command_results (fst (main (shell_exits_3\<lparr>Environ := [''CONTAINER_HOSTNAME=box'', ''CONTAINER_ROOTFS=/rootfs'']\<rparr>)
       [''/proc/self/exe'', ''child'', ''/bin/sh'', ''-c'', ''exit 3''])) = [Some (ExitError 3)]
   \<and> snd (main (shell_exits_3\<lparr>Environ := [''CONTAINER_HOSTNAME=box'', ''CONTAINER_ROOTFS=/rootfs'']\<rparr>)
       [''/proc/self/exe'', ''child'', ''/bin/sh'', ''-c'', ''exit 3'']) = 1
   \<and> wait_results (fst (main (with_child idle shell_exits_3)
       [''container'', ''run'', ''/bin/sh'', ''-c'', ''exit 3''])) = [Some (ExitError 1)]
   \<and> snd (main (with_child idle shell_exits_3)
       [''container'', ''run'', ''/bin/sh'', ''-c'', ''exit 3'']) = 1"
  by code_simp

end
